(* ===== verification/Prelude.thy ===== *)
theory Prelude
  imports Complex_Main
begin

text \<open>
  Shared vocabulary of the CreatorCalc development. JavaScript numbers are
  modelled as \<open>real\<close> (exact arithmetic: the rounding of IEEE doubles is not
  modelled), and the value NaN is written into the model explicitly as
  \<open>None\<close> of a \<open>real option\<close>. This theory names the model's
  number type, declares the collections of evaluation rules that the component
  theories fill, and proves the generic facts on floors, rounding and sorted
  lists that several components share.
\<close>

type_synonym amount = real

named_theorems js_eval "equations that evaluate the JavaScript value layer on literals"
named_theorems calc_eval "equations that evaluate the calculation engine on literals"

section \<open>Floors and months\<close>

lemma floor_mult_div_nat:
  fixes x :: real
  assumes "0 < n"
  shows "\<lfloor>x * real n\<rfloor> div int n = \<lfloor>x\<rfloor>"
proof -
  have "\<lfloor>x * real n / real_of_int (int n)\<rfloor> = \<lfloor>x * real n\<rfloor> div int n"
    by (rule floor_divide_real_eq_div) simp
  with assms show ?thesis by simp
qed

lemma nat_floor_months_div_12: "nat \<lfloor>(x::real) * 12\<rfloor> div 12 = nat \<lfloor>x\<rfloor>"
proof -
  have "\<lfloor>x * 12\<rfloor> div 12 = \<lfloor>x\<rfloor>"
    using floor_mult_div_nat [of 12 x] by simp
  show ?thesis
  proof (cases "0 \<le> \<lfloor>x * 12\<rfloor>")
    case True
    then have "nat (\<lfloor>x * 12\<rfloor> div 12) = nat \<lfloor>x * 12\<rfloor> div nat 12"
      by (rule nat_div_distrib)
    with \<open>\<lfloor>x * 12\<rfloor> div 12 = \<lfloor>x\<rfloor>\<close> show ?thesis by simp
  next
    case False
    then have "x < 0" by simp
    with False show ?thesis by simp
  qed
qed

lemma real_le_floor_nat: "real k \<le> t \<longleftrightarrow> int k \<le> \<lfloor>t\<rfloor>"
  by (simp add: le_floor_iff)

lemma real_Suc_le_iff_nat_floor: "real (Suc j) \<le> t \<longleftrightarrow> Suc j \<le> nat \<lfloor>t\<rfloor>"
proof -
  have "real (Suc j) \<le> t \<longleftrightarrow> int (Suc j) \<le> \<lfloor>t\<rfloor>" by (rule real_le_floor_nat)
  also have "\<dots> \<longleftrightarrow> Suc j \<le> nat \<lfloor>t\<rfloor>" by linarith
  finally show ?thesis .
qed

section \<open>Rounding half up\<close>

text \<open>\<open>\<lfloor>y + 1/2\<rfloor>\<close> is the integer nearest to \<open>y\<close>, the larger one on a tie.\<close>

lemma round_half_up_dist: "\<bar>real_of_int \<lfloor>y + 1/2\<rfloor> - y\<bar> \<le> 1/2"
proof -
  have "real_of_int \<lfloor>y + 1/2\<rfloor> \<le> y + 1/2" by (rule of_int_floor_le)
  moreover have "y + 1/2 < real_of_int \<lfloor>y + 1/2\<rfloor> + 1" by (rule real_of_int_floor_add_one_gt)
  ultimately show ?thesis unfolding abs_le_iff by linarith
qed

lemma round_half_up_nonneg: "0 \<le> (y::real) \<Longrightarrow> 0 \<le> \<lfloor>y + 1/2\<rfloor>"
  by simp

section \<open>Sorted lists of a monotone sequence\<close>

lemma sorted_map_upt_mono:
  assumes "\<And>k. f k \<le> f (Suc k)"
  shows "sorted (map f [a..<b])"
proof -
  have "mono f" using assms by (simp add: mono_iff_le_Suc)
  then show ?thesis
    by (auto simp: sorted_iff_nth_mono monoD)
qed

end
