(* ===== verification/JsValue.thy ===== *)
theory JsValue
  imports Prelude
begin

text \<open>
  The JavaScript value layer the calculator relies on. The inputs of
  \<open>calculateRevenue\<close> and of the calculator form are JavaScript values: numbers
  (initially, and after a currency toggle) or strings (the \<open>value\<close> of an
  \<open><input>\<close> element after an edit). The source turns them into numbers with
  \<open>parseFloat(x) || 0\<close>, with \<open>Number(...)\<close>, with the implicit conversion of
  \<open>*\<close> and \<open>>=\<close>, and rounds with \<open>toFixed\<close>. This theory models those
  built-ins from the ECMAScript definitions for decimal literals:
  \<^item> \<open>parse_float_str\<close> is \<open>parseFloat\<close> on a string: leading white space is
    skipped and the longest prefix that is a signed decimal literal (digits, an
    optional fraction, an optional exponent) is read; no such prefix is NaN;
  \<^item> \<open>string_to_number\<close> is \<open>Number\<close> on a string: white space is trimmed at
    both ends, the empty string is 0, anything but a whole decimal literal is NaN;
  \<^item> \<open>js_toFixed\<close> is \<open>Number.prototype.toFixed\<close>: the string of the
    nearest multiple of \<open>10^-f\<close>, the larger one on a tie;
  \<^item> \<open>js_number_string\<close> is \<open>Number::toString\<close> on the numbers it writes in
    plain decimal with at most six decimals (\<open>None\<close> on the others).
  NaN is \<open>None\<close>. Not modelled: \<open>Infinity\<close>, hexadecimal, octal and binary
  literals (read here as NaN), non-ASCII white space, and the rounding of the
  decimal value to the nearest double.
\<close>

section \<open>Values\<close>

datatype jsval = JNum real | JNaN | JStr string | JUndefined

section \<open>Decimal literals\<close>

definition is_digit :: "char \<Rightarrow> bool" where
  "is_digit c \<longleftrightarrow> 48 \<le> (of_char c :: nat) \<and> (of_char c :: nat) \<le> 57"

definition digit_value :: "char \<Rightarrow> nat" where
  "digit_value c = of_char c - 48"

definition digits_value :: "string \<Rightarrow> nat" where
  "digits_value ds = foldl (\<lambda>acc c. 10 * acc + digit_value c) 0 ds"

definition is_js_space :: "char \<Rightarrow> bool" where
  "is_js_space c \<longleftrightarrow> of_char c \<in> {9::nat, 10, 11, 12, 13, 32}"

definition split_sign :: "string \<Rightarrow> int \<times> string" where
  "split_sign s =
     (case s of
        [] \<Rightarrow> (1, [])
      | c # r \<Rightarrow>
          (if c = CHR ''+'' then (1, r) else if c = CHR ''-'' then (-1, r) else (1, s)))"

definition parse_unsigned_decimal :: "string \<Rightarrow> (real \<times> string) option" where
  "parse_unsigned_decimal s =
     (let ip = takeWhile is_digit s; r1 = dropWhile is_digit s in
      case r1 of
        c # r2 \<Rightarrow>
          (if c = CHR ''.'' then
             (let fp = takeWhile is_digit r2; r3 = dropWhile is_digit r2 in
              if ip = [] \<and> fp = [] then None
              else Some (real (digits_value ip) + real (digits_value fp) / 10 ^ length fp, r3))
           else if ip = [] then None else Some (real (digits_value ip), r1))
      | [] \<Rightarrow> (if ip = [] then None else Some (real (digits_value ip), [])))"

definition parse_exponent :: "string \<Rightarrow> int \<times> string" where
  "parse_exponent s =
     (case s of
        [] \<Rightarrow> (0, [])
      | c # r \<Rightarrow>
          (if c = CHR ''e'' \<or> c = CHR ''E'' then
             (let (sg, r') = split_sign r; ds = takeWhile is_digit r' in
              if ds = [] then (0, s) else (sg * int (digits_value ds), dropWhile is_digit r'))
           else (0, s)))"

definition scale10 :: "real \<Rightarrow> int \<Rightarrow> real" where
  "scale10 x e = (if 0 \<le> e then x * 10 ^ nat e else x / 10 ^ nat (- e))"

definition parse_decimal_prefix :: "string \<Rightarrow> (real \<times> string) option" where
  "parse_decimal_prefix s =
     (let (sg, r) = split_sign s in
      case parse_unsigned_decimal r of
        None \<Rightarrow> None
      | Some (v, r') \<Rightarrow> (let (e, r'') = parse_exponent r' in Some (of_int sg * scale10 v e, r'')))"

text \<open>\<open>parseFloat(string)\<close>.\<close>

definition parse_float_str :: "string \<Rightarrow> real option" where
  "parse_float_str s = map_option fst (parse_decimal_prefix (dropWhile is_js_space s))"

text \<open>\<open>Number(string)\<close>, the StringToNumber conversion.\<close>

definition string_to_number :: "string \<Rightarrow> real option" where
  "string_to_number s =
     (let t = rev (dropWhile is_js_space (rev (dropWhile is_js_space s))) in
      if t = [] then Some 0
      else (case parse_decimal_prefix t of Some (v, []) \<Rightarrow> Some v | _ \<Rightarrow> None))"

text \<open>\<open>parseInt(string)\<close> with the default radix, for decimal digits: leading
  white space, an optional sign and the longest digit prefix; no digit is NaN.\<close>

definition parse_int_str :: "string \<Rightarrow> int option" where
  "parse_int_str s =
     (let (sg, r) = split_sign (dropWhile is_js_space s); ds = takeWhile is_digit r
      in if ds = [] then None else Some (sg * int (digits_value ds)))"

section \<open>Conversions on values\<close>

text \<open>\<open>parseFloat(x)\<close>: a number is read back as itself (\<open>parseFloat\<close> converts
  it to its shortest decimal string first), \<open>undefined\<close> becomes NaN.\<close>

fun js_parseFloat :: "jsval \<Rightarrow> real option" where
  "js_parseFloat (JNum x) = Some x"
| "js_parseFloat JNaN = None"
| "js_parseFloat (JStr s) = parse_float_str s"
| "js_parseFloat JUndefined = None"

text \<open>\<open>ToNumber(x)\<close>, used by \<open>Number(x)\<close>, \<open>*\<close> and \<open>>=\<close>.\<close>

fun js_toNumber :: "jsval \<Rightarrow> real option" where
  "js_toNumber (JNum x) = Some x"
| "js_toNumber JNaN = None"
| "js_toNumber (JStr s) = string_to_number s"
| "js_toNumber JUndefined = None"

text \<open>\<open>n || 0\<close> on a number: NaN and zero (both falsy) give 0.\<close>

definition or_zero :: "real option \<Rightarrow> real" where
  "or_zero v = (case v of None \<Rightarrow> 0 | Some x \<Rightarrow> x)"

definition parse_or_zero :: "jsval \<Rightarrow> real" where
  "parse_or_zero v = or_zero (js_parseFloat v)"

definition js_number :: "real option \<Rightarrow> jsval" where
  "js_number v = (case v of None \<Rightarrow> JNaN | Some x \<Rightarrow> JNum x)"

text \<open>\<open>a * b\<close>: both operands through ToNumber, NaN absorbing.\<close>

definition js_mult :: "jsval \<Rightarrow> jsval \<Rightarrow> jsval" where
  "js_mult a b =
     (case (js_toNumber a, js_toNumber b) of
        (Some x, Some y) \<Rightarrow> JNum (x * y)
      | _ \<Rightarrow> JNaN)"

text \<open>\<open>a >= y\<close> and \<open>a < y\<close>, \<open>a > y\<close> against a number \<open>y\<close>: every comparison
  with NaN is false.\<close>

definition js_ge :: "jsval \<Rightarrow> real \<Rightarrow> bool" where
  "js_ge a y = (case js_toNumber a of None \<Rightarrow> False | Some x \<Rightarrow> y \<le> x)"

definition num_lt :: "real option \<Rightarrow> real \<Rightarrow> bool" where
  "num_lt v y = (case v of None \<Rightarrow> False | Some x \<Rightarrow> x < y)"

definition num_gt :: "real option \<Rightarrow> real \<Rightarrow> bool" where
  "num_gt v y = (case v of None \<Rightarrow> False | Some x \<Rightarrow> y < x)"

section \<open>\<open>toFixed\<close>\<close>

text \<open>The decimal digits of a natural number, as \<open>ToString\<close> writes them.\<close>

fun nat_digits :: "nat \<Rightarrow> string" where
  "nat_digits n =
     (if n < 10 then [char_of (48 + n)] else nat_digits (n div 10) @ [char_of (48 + n mod 10)])"

declare nat_digits.simps [simp del]

text \<open>The integer \<open>n\<close> for which \<open>n / 10^f - x\<close> is closest to zero, the
  larger one on a tie (steps 10.a of \<open>Number.prototype.toFixed\<close>, for
  \<open>x \<ge> 0\<close>).\<close>

definition fixed_units :: "nat \<Rightarrow> real \<Rightarrow> nat" where
  "fixed_units f x = nat \<lfloor>x * 10 ^ f + 1/2\<rfloor>"

text \<open>The digit string of \<open>n / 10^f\<close>: the digits of \<open>n\<close>, padded with zeros
  to at least \<open>f + 1\<close> digits, with a point before the last \<open>f\<close> of them
  (steps 10.b to 11 of \<open>toFixed\<close>).\<close>

definition fixed_digits :: "nat \<Rightarrow> nat \<Rightarrow> string" where
  "fixed_digits f n =
     (let ds = nat_digits n;
          ds' = replicate (Suc f - length ds) CHR ''0'' @ ds;
          k = length ds'
      in if f = 0 then ds' else take (k - f) ds' @ ''.'' @ drop (k - f) ds')"

definition js_toFixed :: "nat \<Rightarrow> real \<Rightarrow> string" where
  "js_toFixed f x =
     (if x < 0 then CHR ''-'' # fixed_digits f (fixed_units f (- x))
      else fixed_digits f (fixed_units f x))"

text \<open>The number a \<open>toFixed\<close> string denotes: \<open>x\<close> rounded to \<open>f\<close> decimals,
  half away from zero.\<close>

definition round_fixed :: "nat \<Rightarrow> real \<Rightarrow> real" where
  "round_fixed f x =
     (if x < 0 then - (real (fixed_units f (- x)) / 10 ^ f) else real (fixed_units f x) / 10 ^ f)"

text \<open>\<open>Number::toString\<close> (ECMAScript 6.1.6.1.20), which template literals and
  React's text children apply to numbers, on the values it writes in plain
  decimal: \<open>|x| < 10^21\<close> with at most six decimals (such a non-zero \<open>x\<close> is at
  least \<open>10^-6\<close>). It writes the fewest decimals that give \<open>x\<close> exactly, i.e.
  \<open>toFixed\<close> with the least such count. The exponent forms and the values that
  need more decimals, whose text depends on the binary double, are \<open>None\<close>;
  NaN is \<open>"NaN"\<close>.\<close>

definition decimal_places :: "real \<Rightarrow> nat option" where
  "decimal_places x = find (\<lambda>k. of_int \<lfloor>x * 10 ^ k\<rfloor> = x * 10 ^ k) [0..<7]"

definition js_number_string :: "real \<Rightarrow> string option" where
  "js_number_string x =
     (if \<bar>x\<bar> < 10 ^ 21 then map_option (\<lambda>k. js_toFixed k x) (decimal_places x) else None)"

definition js_string_of :: "real option \<Rightarrow> string option" where
  "js_string_of v = (case v of None \<Rightarrow> Some ''NaN'' | Some x \<Rightarrow> js_number_string x)"

section \<open>Digit strings\<close>

lemma digits_value_append:
  "digits_value (xs @ ys) = digits_value xs * 10 ^ length ys + digits_value ys"
proof (induction ys rule: rev_induct)
  case Nil
  then show ?case by (simp add: digits_value_def)
next
  case (snoc y ys)
  then show ?case by (simp add: digits_value_def algebra_simps)
qed

lemma digits_value_zeros: "digits_value (replicate k CHR ''0'' @ ds) = digits_value ds"
proof -
  have "digits_value (replicate k CHR ''0'') = 0"
  proof (induction k)
    case 0
    then show ?case by (simp add: digits_value_def)
  next
    case (Suc k)
    have "replicate (Suc k) CHR ''0'' = replicate k CHR ''0'' @ [CHR ''0'']"
      by (simp add: replicate_append_same)
    with Suc show ?case by (simp add: digits_value_append digits_value_def digit_value_def)
  qed
  then show ?thesis by (simp add: digits_value_append)
qed

lemma digit_char: "d < 10 \<Longrightarrow> is_digit (char_of (48 + d)) \<and> digit_value (char_of (48 + d)) = d"
  by (simp add: is_digit_def digit_value_def of_char_of)

lemma nat_digits_digits: "c \<in> set (nat_digits n) \<Longrightarrow> is_digit c"
proof (induction n rule: nat_digits.induct)
  case (1 n)
  then show ?case
    by (subst (asm) nat_digits.simps) (auto split: if_splits simp: digit_char)
qed

lemma nat_digits_value: "digits_value (nat_digits n) = n"
proof (induction n rule: nat_digits.induct)
  case (1 n)
  show ?case
  proof (cases "n < 10")
    case True
    then show ?thesis by (simp add: nat_digits.simps [of n] digits_value_def digit_char)
  next
    case False
    with "1.IH" show ?thesis
      by (simp add: nat_digits.simps [of n] digits_value_append digits_value_def digit_char)
  qed
qed

lemma nat_digits_ne: "nat_digits n \<noteq> []"
  by (subst nat_digits.simps) simp


section \<open>Parsing decimal literals\<close>

lemma not_digit_dot: "\<not> is_digit CHR ''.''"
  by (simp add: is_digit_def)

lemma digit_not_space: "is_digit c \<Longrightarrow> \<not> is_js_space c"
  by (auto simp: is_digit_def is_js_space_def)

lemma digit_not_sign: "is_digit c \<Longrightarrow> c \<noteq> CHR ''+'' \<and> c \<noteq> CHR ''-''"
  by (auto simp: is_digit_def)

lemma parse_unsigned_int:
  assumes "A \<noteq> []" "\<forall>c\<in>set A. is_digit c"
  shows "parse_unsigned_decimal A = Some (real (digits_value A), [])"
  using assms by (simp add: parse_unsigned_decimal_def takeWhile_eq_all_conv [THEN iffD2]
                     dropWhile_eq_Nil_conv [THEN iffD2])

lemma parse_unsigned_frac:
  assumes "A \<noteq> []" "\<forall>c\<in>set A. is_digit c" "\<forall>c\<in>set B. is_digit c"
  shows "parse_unsigned_decimal (A @ CHR ''.'' # B) =
           Some (real (digits_value A) + real (digits_value B) / 10 ^ length B, [])"
proof -
  have t: "takeWhile is_digit (A @ CHR ''.'' # B) = A"
    using assms(2) not_digit_dot by (simp add: takeWhile_append2)
  have d: "dropWhile is_digit (A @ CHR ''.'' # B) = CHR ''.'' # B"
    using assms(2) not_digit_dot by (simp add: dropWhile_append2)
  have tB: "takeWhile is_digit B = B" and dB: "dropWhile is_digit B = []"
    using assms(3) by (simp_all add: takeWhile_eq_all_conv dropWhile_eq_Nil_conv)
  show ?thesis using assms(1) by (simp add: parse_unsigned_decimal_def t d tB dB)
qed

lemma parse_decimal_prefix_unsigned:
  assumes "s \<noteq> []" "is_digit (hd s)" "parse_unsigned_decimal s = Some (v, [])"
  shows "parse_decimal_prefix s = Some (v, [])"
    and "parse_decimal_prefix (CHR ''-'' # s) = Some (- v, [])"
proof -
  obtain c r where s: "s = c # r" using assms(1) by (cases s) auto
  with assms(2) have "split_sign s = (1, s)"
    using digit_not_sign [of c] by (simp add: split_sign_def)
  with assms(3) show "parse_decimal_prefix s = Some (v, [])"
    by (simp add: parse_decimal_prefix_def parse_exponent_def scale10_def)
  have "split_sign (CHR ''-'' # s) = (-1, s)" by (simp add: split_sign_def)
  with assms(3) show "parse_decimal_prefix (CHR ''-'' # s) = Some (- v, [])"
    by (simp add: parse_decimal_prefix_def parse_exponent_def scale10_def)
qed

lemma dropWhile_hd_stop: "s \<noteq> [] \<Longrightarrow> \<not> P (hd s) \<Longrightarrow> dropWhile P s = s"
  by (cases s) auto

lemma string_to_number_trimmed:
  assumes "s \<noteq> []" "\<not> is_js_space (hd s)" "\<not> is_js_space (last s)"
  shows "string_to_number s =
           (case parse_decimal_prefix s of Some (v, []) \<Rightarrow> Some v | _ \<Rightarrow> None)"
proof -
  have "dropWhile is_js_space s = s" using assms by (simp add: dropWhile_hd_stop)
  moreover have "dropWhile is_js_space (rev s) = rev s"
    using assms by (simp add: dropWhile_hd_stop hd_rev)
  ultimately show ?thesis using assms(1) by (simp add: string_to_number_def)
qed

section \<open>\<open>toFixed\<close> strings read back\<close>

lemma fixed_digits_parse:
  fixes f n :: nat
  defines "s \<equiv> fixed_digits f n"
  shows "s \<noteq> [] \<and> is_digit (hd s) \<and> is_digit (last s) \<and>
         parse_unsigned_decimal s = Some (real n / 10 ^ f, [])"
proof -
  define ds' where "ds' = replicate (Suc f - length (nat_digits n)) CHR ''0'' @ nat_digits n"
  have dig: "\<forall>c\<in>set ds'. is_digit c"
    by (auto simp: ds'_def is_digit_def dest: nat_digits_digits)
  have len: "Suc f \<le> length ds'" by (simp add: ds'_def)
  then have ne: "ds' \<noteq> []" by (cases ds') auto
  have val: "digits_value ds' = n" by (simp add: ds'_def digits_value_zeros nat_digits_value)
  show ?thesis
  proof (cases "f = 0")
    case True
    then have "s = ds'" by (simp add: s_def fixed_digits_def ds'_def Let_def)
    then show ?thesis using True dig val ne
      by (simp add: parse_unsigned_int)
  next
    case False
    define A where "A = take (length ds' - f) ds'"
    define B where "B = drop (length ds' - f) ds'"
    have s_eq: "s = A @ CHR ''.'' # B"
      using False by (simp add: s_def fixed_digits_def ds'_def A_def B_def Let_def)
    have A_ne: "A \<noteq> []" using len ne by (simp add: A_def)
    have lenB: "length B = f" using len by (simp add: B_def)
    with False have B_ne: "B \<noteq> []" by auto
    have digA: "\<forall>c\<in>set A. is_digit c" and digB: "\<forall>c\<in>set B. is_digit c"
      using dig by (auto simp: A_def B_def dest: in_set_takeD in_set_dropD)
    have "ds' = A @ B" by (simp add: A_def B_def)
    then have "digits_value ds' = digits_value A * 10 ^ f + digits_value B"
      using lenB by (simp add: digits_value_append)
    with val have "real n = real (digits_value A) * 10 ^ f + real (digits_value B)"
      by (metis of_nat_add of_nat_mult of_nat_numeral of_nat_power)
    then have "real (digits_value A) + real (digits_value B) / 10 ^ f = real n / 10 ^ f"
      by (simp add: field_simps)
    with parse_unsigned_frac [OF A_ne digA digB] lenB
    have "parse_unsigned_decimal s = Some (real n / 10 ^ f, [])" by (simp add: s_eq)
    moreover have "is_digit (hd s)" using A_ne digA by (simp add: s_eq)
    moreover have "is_digit (last s)" using B_ne digB by (simp add: s_eq)
    ultimately show ?thesis by (simp add: s_eq)
  qed
qed

lemma string_to_number_toFixed:
  "string_to_number (js_toFixed f x) = Some (round_fixed f x)"
proof -
  define n where "n = fixed_units f (if x < 0 then - x else x)"
  have p: "fixed_digits f n \<noteq> []" "is_digit (hd (fixed_digits f n))"
      "is_digit (last (fixed_digits f n))"
      "parse_unsigned_decimal (fixed_digits f n) = Some (real n / 10 ^ f, [])"
    using fixed_digits_parse [of f n] by auto
  show ?thesis
  proof (cases "x < 0")
    case True
    have "\<not> is_js_space CHR ''-''" by (simp add: is_js_space_def)
    then have "string_to_number (CHR ''-'' # fixed_digits f n) =
        (case parse_decimal_prefix (CHR ''-'' # fixed_digits f n) of
           Some (v, []) \<Rightarrow> Some v | _ \<Rightarrow> None)"
      using p(1,3) by (intro string_to_number_trimmed) (simp_all add: digit_not_space)
    then have "string_to_number (CHR ''-'' # fixed_digits f n) = Some (- (real n / 10 ^ f))"
      using parse_decimal_prefix_unsigned(2) [OF p(1,2,4)] by simp
    with True show ?thesis by (simp add: js_toFixed_def round_fixed_def n_def)
  next
    case False
    have "string_to_number (fixed_digits f n) = Some (real n / 10 ^ f)"
      using p parse_decimal_prefix_unsigned(1) [OF p(1,2,4)]
      by (simp add: string_to_number_trimmed digit_not_space)
    with False show ?thesis by (simp add: js_toFixed_def round_fixed_def n_def)
  qed
qed

section \<open>Rounding error of \<open>toFixed\<close>\<close>

lemma fixed_units_real: "0 \<le> x \<Longrightarrow> real (fixed_units f x) = of_int \<lfloor>x * 10 ^ f + 1/2\<rfloor>"
  by (simp add: fixed_units_def)

lemma fixed_units_dist:
  assumes "0 \<le> x"
  shows "\<bar>real (fixed_units f x) / 10 ^ f - x\<bar> \<le> 1 / (2 * 10 ^ f)"
proof -
  let ?y = "x * 10 ^ f"
  have d: "\<bar>of_int \<lfloor>?y + 1/2\<rfloor> - ?y\<bar> \<le> 1/2" by (rule round_half_up_dist)
  have "real (fixed_units f x) / 10 ^ f - x = (of_int \<lfloor>?y + 1/2\<rfloor> - ?y) / 10 ^ f"
    using assms by (simp add: fixed_units_real field_simps)
  also have "\<bar>\<dots>\<bar> = \<bar>of_int \<lfloor>?y + 1/2\<rfloor> - ?y\<bar> / 10 ^ f" by simp
  also have "\<dots> \<le> (1/2) / 10 ^ f" using d by (intro divide_right_mono) simp_all
  finally show ?thesis by simp
qed

lemma round_fixed_dist: "\<bar>round_fixed f x - x\<bar> \<le> 1 / (2 * 10 ^ f)"
proof (cases "x < 0")
  case True
  then have "\<bar>real (fixed_units f (- x)) / 10 ^ f - (- x)\<bar> \<le> 1 / (2 * 10 ^ f)"
    by (intro fixed_units_dist) simp
  with True show ?thesis by (simp add: round_fixed_def abs_minus_commute)
next
  case False
  then show ?thesis by (simp add: round_fixed_def fixed_units_dist)
qed

lemma parse_float_str_toFixed: "parse_float_str (js_toFixed f x) = Some (round_fixed f x)"
proof -
  define n where "n = fixed_units f (if x < 0 then - x else x)"
  have p: "fixed_digits f n \<noteq> []" "is_digit (hd (fixed_digits f n))"
      "parse_unsigned_decimal (fixed_digits f n) = Some (real n / 10 ^ f, [])"
    using fixed_digits_parse [of f n] by auto
  have sp: "\<not> is_js_space CHR ''-''" by (simp add: is_js_space_def)
  show ?thesis
  proof (cases "x < 0")
    case True
    with p sp show ?thesis
      using parse_decimal_prefix_unsigned(2) [OF p]
      by (simp add: js_toFixed_def round_fixed_def n_def parse_float_str_def)
  next
    case False
    then have "dropWhile is_js_space (fixed_digits f n) = fixed_digits f n"
      using p by (simp add: dropWhile_hd_stop digit_not_space)
    with False show ?thesis
      using parse_decimal_prefix_unsigned(1) [OF p]
      by (simp add: js_toFixed_def round_fixed_def n_def parse_float_str_def)
  qed
qed

lemma floor_int_half: "\<lfloor>(of_int z :: real) + 1 / 2\<rfloor> = z"
  by (rule floor_unique) simp_all

lemma round_fixed_exact:
  assumes "of_int z = x * 10 ^ k"
  shows "round_fixed k x = x"
proof (cases "x < 0")
  case True
  have "x * 10 ^ k < 0" using True by (simp add: mult_neg_pos)
  then have z: "z < 0" using assms by linarith
  have "- x * 10 ^ k = of_int (- z)" using assms by simp
  then have "real (fixed_units k (- x)) = - of_int z" using z by (simp add: fixed_units_def floor_int_half)
  then show ?thesis using True assms by (simp add: round_fixed_def)
next
  case False
  have "0 \<le> x * 10 ^ k" using False by simp
  then have z: "0 \<le> z" using assms by linarith
  have "real (fixed_units k x) = of_int z"
    using z by (simp add: fixed_units_def assms [symmetric] floor_int_half)
  then show ?thesis using False assms by (simp add: round_fixed_def)
qed

lemma decimal_places_exact: "decimal_places x = Some k \<Longrightarrow> of_int \<lfloor>x * 10 ^ k\<rfloor> = x * 10 ^ k"
  by (auto simp: decimal_places_def find_Some_iff)

lemma js_number_string_reads_back:
  "js_number_string x = Some s \<Longrightarrow> parse_float_str s = Some x"
proof -
  assume "js_number_string x = Some s"
  then obtain k where k: "decimal_places x = Some k" and s: "s = js_toFixed k x"
    by (auto simp: js_number_string_def split: if_splits)
  have "round_fixed k x = x" using decimal_places_exact [OF k] by (rule round_fixed_exact)
  then show ?thesis using s by (simp add: parse_float_str_toFixed)
qed

lemma decimal_places_int: "decimal_places (of_int z) = Some 0"
  by (simp add: decimal_places_def upt_rec)

lemma js_number_string_nat:
  "n < 10 ^ 21 \<Longrightarrow> js_number_string (real n) = Some (nat_digits n)"
proof -
  assume n: "n < 10 ^ 21"
  have "decimal_places (real n) = Some 0" using decimal_places_int [of "int n"] by simp
  moreover have "\<bar>real n\<bar> < 10 ^ 21" using n by (metis abs_of_nat of_nat_less_numeral_power_cancel_iff)
  moreover have "fixed_digits 0 n = nat_digits n"
    using nat_digits_ne [of n] by (cases "nat_digits n") (simp_all add: fixed_digits_def)
  ultimately show ?thesis by (simp add: js_number_string_def js_toFixed_def fixed_units_def)
qed

text \<open>A \<open>toFixed\<close> string reads back, with \<open>Number\<close> and with
  \<open>parseFloat\<close>, as the number rounded to \<open>f\<close> decimals: the round trip of
  \<open>Number(x.toFixed(2))\<close> in the currency toggle.\<close>

theorem toFixed_roundtrip:
  "string_to_number (js_toFixed f x) = Some (round_fixed f x) \<and>
   parse_float_str (js_toFixed f x) = Some (round_fixed f x)"
  by (simp add: string_to_number_toFixed parse_float_str_toFixed)

text \<open>\<open>Number(x.toFixed(f))\<close> is within half a unit of the last
  decimal of \<open>x\<close>.\<close>

theorem toFixed_Number_error:
  assumes "string_to_number (js_toFixed f x) = Some y"
  shows "\<bar>y - x\<bar> \<le> 1 / (2 * 10 ^ f)"
  using assms round_fixed_dist [of f x] by (simp add: string_to_number_toFixed)

theorem toFixed_Number_error_witness:
  "string_to_number (js_toFixed 2 (5.7 / 31.59)) = Some 0.18 \<and> \<bar>0.18 - 5.7 / 31.59\<bar> \<le> (1 / (2 * 10 ^ 2) :: real)"
proof -
  have h: "string_to_number (js_toFixed 2 (5.7 / 31.59)) = Some 0.18" by code_simp
  show ?thesis using h toFixed_Number_error [OF h] by simp
qed

lemma nat_digits_all_digits: "takeWhile is_digit (nat_digits n) = nat_digits n"
  by (simp add: takeWhile_eq_all_conv nat_digits_digits)

lemma nat_digits_hd_digit: "is_digit (hd (nat_digits n))"
  using nat_digits_ne [of n] nat_digits_digits [of "hd (nat_digits n)" n] by simp

lemma nat_digits_parse_unsigned: "parse_unsigned_decimal (nat_digits n) = Some (real n, [])"
  using parse_unsigned_int [OF nat_digits_ne, of n] nat_digits_digits [of _ n]
  by (simp add: nat_digits_value)

lemma parse_int_nat_digits: "parse_int_str (nat_digits n) = Some (int n)"
proof -
  have ne: "nat_digits n \<noteq> []" by (rule nat_digits_ne)
  have hd: "is_digit (hd (nat_digits n))" by (rule nat_digits_hd_digit)
  have nsp: "dropWhile is_js_space (nat_digits n) = nat_digits n"
    using ne hd by (simp add: dropWhile_hd_stop digit_not_space)
  have sg: "split_sign (nat_digits n) = (1, nat_digits n)"
    using ne hd digit_not_sign [OF hd] by (cases "nat_digits n") (simp_all add: split_sign_def)
  show ?thesis using ne by (simp add: parse_int_str_def nsp sg nat_digits_all_digits nat_digits_value)
qed

text \<open>\<open>parseFloat\<close> of white space, the digits of a number and a character
  that cannot continue a decimal literal (not a digit, point or exponent mark),
  followed by anything: the number.\<close>

lemma parse_float_digits_then:
  assumes "\<forall>w\<in>set ws. is_js_space w" "\<not> is_digit c" "c \<notin> {CHR ''.'', CHR ''e'', CHR ''E''}"
  shows "parse_float_str (ws @ nat_digits a @ c # s) = Some (real a)"
proof -
  have ne: "nat_digits a \<noteq> []" by (rule nat_digits_ne)
  have hd: "is_digit (hd (nat_digits a))" by (rule nat_digits_hd_digit)
  have "dropWhile is_js_space (nat_digits a @ c # s) = nat_digits a @ c # s"
    using ne hd by (simp add: dropWhile_hd_stop digit_not_space)
  then have sp: "dropWhile is_js_space (ws @ nat_digits a @ c # s) = nat_digits a @ c # s"
    using assms(1) by (simp add: dropWhile_append1 dropWhile_append2 dropWhile_eq_Nil_conv)
  have sg: "split_sign (nat_digits a @ c # s) = (1, nat_digits a @ c # s)"
    using ne hd digit_not_sign [OF hd] by (cases "nat_digits a") (simp_all add: split_sign_def)
  have tw: "takeWhile is_digit (nat_digits a @ c # s) = nat_digits a"
    using assms(2) nat_digits_digits [of _ a] by (simp add: takeWhile_append2)
  have dw: "dropWhile is_digit (nat_digits a @ c # s) = c # s"
    using assms(2) nat_digits_digits [of _ a] by (simp add: dropWhile_append2)
  have u: "parse_unsigned_decimal (nat_digits a @ c # s) = Some (real a, c # s)"
    using assms(3) ne by (simp add: parse_unsigned_decimal_def tw dw nat_digits_value)
  have e: "parse_exponent (c # s) = (0, c # s)" using assms(3) by (simp add: parse_exponent_def)
  show ?thesis by (simp add: parse_float_str_def sp parse_decimal_prefix_def sg u e scale10_def)
qed

text \<open>The decimal string of a natural number reads back as that number
  with \<open>parseInt\<close>, \<open>parseFloat\<close> and \<open>Number\<close>: the value of the
  projection slider and of typed whole numbers survives the string conversion.\<close>

theorem nat_digits_roundtrip:
  "parse_int_str (nat_digits n) = Some (int n) \<and>
   parse_float_str (nat_digits n) = Some (real n) \<and>
   string_to_number (nat_digits n) = Some (real n)"
proof -
  have ne: "nat_digits n \<noteq> []" by (rule nat_digits_ne)
  have hd: "is_digit (hd (nat_digits n))" by (rule nat_digits_hd_digit)
  have nsp: "dropWhile is_js_space (nat_digits n) = nat_digits n"
    using ne hd by (simp add: dropWhile_hd_stop digit_not_space)
  have pd: "parse_decimal_prefix (nat_digits n) = Some (real n, [])"
    using parse_decimal_prefix_unsigned(1) [OF ne hd nat_digits_parse_unsigned] .
  have last: "is_digit (last (nat_digits n))" using ne nat_digits_digits [of "last (nat_digits n)" n] by simp
  have "parse_int_str (nat_digits n) = Some (int n)" by (rule parse_int_nat_digits)
  moreover have "parse_float_str (nat_digits n) = Some (real n)"
    by (simp add: parse_float_str_def nsp pd)
  moreover have "string_to_number (nat_digits n) = Some (real n)"
    using string_to_number_trimmed [OF ne] hd last pd by (simp add: digit_not_space)
  ultimately show ?thesis by simp
qed

section \<open>Evaluation on literals\<close>

lemma digit_char_codes [js_eval]:
  "char_of (48::nat) = CHR ''0''" "char_of (49::nat) = CHR ''1''" "char_of (50::nat) = CHR ''2''"
  "char_of (51::nat) = CHR ''3''" "char_of (52::nat) = CHR ''4''" "char_of (53::nat) = CHR ''5''"
  "char_of (54::nat) = CHR ''6''" "char_of (55::nat) = CHR ''7''" "char_of (56::nat) = CHR ''8''"
  "char_of (57::nat) = CHR ''9''"
  by code_simp+

declare is_digit_def [js_eval] digit_value_def [js_eval] digits_value_def [js_eval]
  is_js_space_def [js_eval] split_sign_def [js_eval] parse_unsigned_decimal_def [js_eval]
  parse_exponent_def [js_eval] scale10_def [js_eval] parse_decimal_prefix_def [js_eval]
  parse_float_str_def [js_eval] string_to_number_def [js_eval] or_zero_def [js_eval]
  parse_or_zero_def [js_eval] js_number_def [js_eval] js_mult_def [js_eval] js_ge_def [js_eval]
  num_lt_def [js_eval] num_gt_def [js_eval] nat_digits.simps [js_eval] fixed_units_def [js_eval]
  fixed_digits_def [js_eval] js_toFixed_def [js_eval] round_fixed_def [js_eval]
  parse_int_str_def [js_eval]

section \<open>Coercions of values\<close>

lemma parse_or_zero_num [simp]: "parse_or_zero (JNum x) = x"
  by (simp add: parse_or_zero_def or_zero_def)

lemma parse_or_zero_nan [simp]: "parse_or_zero JNaN = 0" "parse_or_zero JUndefined = 0"
  by (simp_all add: parse_or_zero_def or_zero_def)

lemma js_mult_num [simp]: "js_mult (JNum x) (JNum y) = JNum (x * y)"
  by (simp add: js_mult_def)

lemma js_ge_num [simp]: "js_ge (JNum x) y \<longleftrightarrow> y \<le> x"
  by (simp add: js_ge_def)

end
