(* ===== verification/Allocation.thy ===== *)
theory Allocation
  imports Prelude
begin

text \<open>
  The allocation splitter, \<open>calculateAllocation\<close> of
  \<open>src/src/utils/calculations.js\<close>: the 10-5-85 rule. The result object is the
  record \<open>allocation\<close> with the source's keys (\<open>salary\<close>, \<open>development\<close>,
  \<open>investment\<close>). The lemmas show that the three parts always add up to the
  input, in the fixed ratios, for negative inputs too, and that the split is
  linear.
\<close>

record allocation =
  salary :: amount
  development :: amount
  investment :: amount

definition calculateAllocation :: "amount \<Rightarrow> allocation" where
  "calculateAllocation monthlyRevenue =
     \<lparr>salary = monthlyRevenue * 0.10,
      development = monthlyRevenue * 0.05,
      investment = monthlyRevenue * 0.85\<rparr>"

lemma calculateAllocation_fields [simp]:
  "salary (calculateAllocation r) = r * 0.10"
  "development (calculateAllocation r) = r * 0.05"
  "investment (calculateAllocation r) = r * 0.85"
  by (simp_all add: calculateAllocation_def)

text \<open>Claim C4. The 10-5-85 rule: the three parts of every monthly revenue,
  negative ones included, add up to it, and each part is its fixed share.\<close>

theorem calculateAllocation_split:
  "salary (calculateAllocation r) + development (calculateAllocation r)
     + investment (calculateAllocation r) = r \<and>
   salary (calculateAllocation r) = 0.10 * r \<and>
   development (calculateAllocation r) = 0.05 * r \<and>
   investment (calculateAllocation r) = 0.85 * r"
  by simp

text \<open>A non-negative revenue is split into non-negative parts, each
  at most the revenue.\<close>

theorem calculateAllocation_bounds:
  assumes "0 \<le> r"
  shows "0 \<le> salary (calculateAllocation r) \<and> salary (calculateAllocation r) \<le> r \<and>
         0 \<le> development (calculateAllocation r) \<and> development (calculateAllocation r) \<le> r \<and>
         0 \<le> investment (calculateAllocation r) \<and> investment (calculateAllocation r) \<le> r"
  using assms by simp

theorem calculateAllocation_bounds_witness:
  "0 \<le> salary (calculateAllocation 1710) \<and> salary (calculateAllocation 1710) \<le> 1710 \<and>
   investment (calculateAllocation 1710) \<le> 1710"
  using calculateAllocation_bounds [of 1710] by simp

text \<open>The worked example of the specification: 1710 splits into
  171, 85.5 and 1453.5.\<close>

theorem calculateAllocation_example:
  "calculateAllocation 1710 = \<lparr>salary = 171, development = 85.5, investment = 1453.5\<rparr>"
  by (simp add: calculateAllocation_def)

lemma calculateAllocation_linear:
  "calculateAllocation (a + b) =
     \<lparr>salary = salary (calculateAllocation a) + salary (calculateAllocation b),
      development = development (calculateAllocation a) + development (calculateAllocation b),
      investment = investment (calculateAllocation a) + investment (calculateAllocation b)\<rparr>"
  by (simp add: calculateAllocation_def algebra_simps)

end
