(* ===== verification/Investment.thy ===== *)
theory Investment
  imports Prelude
begin

text \<open>
  The growth projector, \<open>projectInvestment\<close> of \<open>src/src/utils/calculations.js\<close>.
  Its \<open>for\<close> loop over the months \<open>m = 1 .. totalMonths\<close> is the function
  \<open>invest_loop\<close> on the record \<open>invest_state\<close> of the loop's variables
  (\<open>m\<close>, \<open>currentValue\<close>, \<open>currentPrincipal\<close>, \<open>projections\<close>); one iteration
  is \<open>invest_body\<close>: add the contribution to the principal, add it to the value
  and multiply by \<open>1 + monthlyRate\<close>, and at each twelfth month push a
  \<open>snapshot\<close>. The loop bound \<open>totalMonths = years * 12\<close> is a real, as in
  JavaScript, so the loop runs \<open>nat \<lfloor>years * 12\<rfloor>\<close> times; termination is
  proved with that measure.

  The reference semantics is \<open>compound_value\<close> (the value after \<open>k\<close> months,
  by recursion on \<open>k\<close>) and \<open>projection_spec\<close> (one \<open>year_snapshot\<close> per
  whole year). The lemmas show that the loop after \<open>j\<close> iterations is in the
  state \<open>invest_after j\<close>, hence that \<open>projectInvestment\<close> refines the
  specification; from it follow the number and order of the snapshots, the
  annuity closed form of the values, their monotonicity and the zero cases.
\<close>

section \<open>The source\<close>

record snapshot =
  year :: nat
  principal :: amount
  value' :: amount
  returns :: amount
  monthlyPassiveIncome :: amount

record invest_state =
  m :: nat
  currentValue :: amount
  currentPrincipal :: amount
  projections :: "snapshot list"

definition invest_body :: "amount \<Rightarrow> real \<Rightarrow> invest_state \<Rightarrow> invest_state" where
  "invest_body monthlyInvestment monthlyRate s =
     (let principal' = currentPrincipal s + monthlyInvestment;
          value' = (currentValue s + monthlyInvestment) * (1 + monthlyRate)
      in s\<lparr>m := Suc (m s), currentValue := value', currentPrincipal := principal',
           projections :=
             (if m s mod 12 = 0
              then projections s @
                     [\<lparr>year = m s div 12, principal = principal', value' = value',
                       returns = value' - principal',
                       monthlyPassiveIncome = value' * 0.04 / 12\<rparr>]
              else projections s)\<rparr>)"

function invest_loop :: "amount \<Rightarrow> real \<Rightarrow> real \<Rightarrow> invest_state \<Rightarrow> invest_state" where
  "invest_loop monthlyInvestment monthlyRate totalMonths s =
     (if real (m s) \<le> totalMonths
      then invest_loop monthlyInvestment monthlyRate totalMonths
             (invest_body monthlyInvestment monthlyRate s)
      else s)"
  by pat_completeness auto
termination
  by (relation "measure (\<lambda>(c, r, t, s). nat (\<lfloor>t\<rfloor> + 1 - int (m s)))")
     (auto simp: invest_body_def Let_def le_floor_iff)

declare invest_loop.simps [simp del]

definition invest_init :: invest_state where
  "invest_init = \<lparr>m = 1, currentValue = 0, currentPrincipal = 0, projections = []\<rparr>"

definition projectInvestment :: "amount \<Rightarrow> real \<Rightarrow> real \<Rightarrow> snapshot list" where
  "projectInvestment monthlyInvestment years annualReturn =
     projections (invest_loop monthlyInvestment (annualReturn / 12) (years * 12) invest_init)"

text \<open>The default argument \<open>annualReturn = 0.07\<close>.\<close>

definition projectInvestment_default :: "amount \<Rightarrow> real \<Rightarrow> snapshot list" where
  "projectInvestment_default monthlyInvestment years = projectInvestment monthlyInvestment years 0.07"

section \<open>The specification\<close>

text \<open>The value after \<open>k\<close> months of contributions \<open>c\<close> compounding at the
  monthly factor \<open>g\<close>: each month the contribution is added, then the whole
  balance grows.\<close>

primrec compound_value :: "amount \<Rightarrow> real \<Rightarrow> nat \<Rightarrow> amount" where
  "compound_value c g 0 = 0"
| "compound_value c g (Suc k) = (compound_value c g k + c) * g"

definition year_snapshot :: "amount \<Rightarrow> real \<Rightarrow> nat \<Rightarrow> snapshot" where
  "year_snapshot c g y =
     (let v = compound_value c g (12 * y); p = real (12 * y) * c
      in \<lparr>year = y, principal = p, value' = v, returns = v - p,
          monthlyPassiveIncome = v * 0.04 / 12\<rparr>)"

definition projection_spec :: "amount \<Rightarrow> real \<Rightarrow> nat \<Rightarrow> snapshot list" where
  "projection_spec c annualReturn n = map (year_snapshot c (1 + annualReturn / 12)) [1..<Suc n]"

text \<open>The loop state after \<open>j\<close> iterations.\<close>

definition invest_after :: "amount \<Rightarrow> real \<Rightarrow> nat \<Rightarrow> invest_state" where
  "invest_after c r j =
     \<lparr>m = Suc j, currentValue = compound_value c (1 + r) j, currentPrincipal = real j * c,
      projections = map (year_snapshot c (1 + r)) [1..<Suc (j div 12)]\<rparr>"

section \<open>The loop implements the specification\<close>

lemma div_12_Suc:
  "Suc j div 12 = (if Suc j mod 12 = 0 then Suc (j div 12) else j div 12)"
  by (simp add: div_Suc mod_Suc)

lemma invest_body_after: "invest_body c r (invest_after c r j) = invest_after c r (Suc j)"
proof -
  have p: "real j * c + c = real (Suc j) * c" by (simp add: algebra_simps)
  have v: "(compound_value c (1 + r) j + c) * (1 + r) = compound_value c (1 + r) (Suc j)" by simp
  show ?thesis
  proof (cases "Suc j mod 12 = 0")
    case True
    then have y: "12 * (Suc j div 12) = Suc j" by presburger
    have l: "[Suc 0..<Suc (Suc j div 12)] = [Suc 0..<Suc (j div 12)] @ [Suc j div 12]"
      using True div_12_Suc [of j] by simp
    have ys: "year_snapshot c (1 + r) (Suc j div 12) =
        \<lparr>year = Suc j div 12, principal = real (Suc j) * c,
         value' = compound_value c (1 + r) (Suc j),
         returns = compound_value c (1 + r) (Suc j) - real (Suc j) * c,
         monthlyPassiveIncome = compound_value c (1 + r) (Suc j) * 0.04 / 12\<rparr>"
      by (simp only: year_snapshot_def Let_def y)
    show ?thesis
      using True by (simp add: invest_body_def invest_after_def Let_def p v l ys
                       del: compound_value.simps of_nat_Suc upt_Suc)
  next
    case False
    then have "Suc j div 12 = j div 12" using div_12_Suc [of j] by simp
    with False show ?thesis
      by (simp add: invest_body_def invest_after_def Let_def p v del: compound_value.simps of_nat_Suc upt_Suc)
  qed
qed

lemma invest_loop_after:
  "invest_loop c r t (invest_after c r j) = invest_after c r (max j (nat \<lfloor>t\<rfloor>))"
proof (induction "nat \<lfloor>t\<rfloor> - j" arbitrary: j)
  case 0
  have mj: "m (invest_after c r j) = Suc j" by (simp add: invest_after_def)
  have "\<not> Suc j \<le> nat \<lfloor>t\<rfloor>" using "0" by arith
  then have "\<not> real (m (invest_after c r j)) \<le> t"
    unfolding mj real_Suc_le_iff_nat_floor .
  then have "invest_loop c r t (invest_after c r j) = invest_after c r j"
    by (subst invest_loop.simps) simp
  moreover have "max j (nat \<lfloor>t\<rfloor>) = j" using "0" by simp
  ultimately show ?case by simp
next
  case (Suc d)
  have mj: "m (invest_after c r j) = Suc j" by (simp add: invest_after_def)
  have "Suc j \<le> nat \<lfloor>t\<rfloor>" using Suc.hyps(2) by arith
  then have g: "real (m (invest_after c r j)) \<le> t"
    unfolding mj real_Suc_le_iff_nat_floor .
  from Suc.hyps(2) have "d = nat \<lfloor>t\<rfloor> - Suc j" by arith
  then have ih: "invest_loop c r t (invest_after c r (Suc j)) =
      invest_after c r (max (Suc j) (nat \<lfloor>t\<rfloor>))"
    by (rule Suc.hyps(1))
  have "invest_loop c r t (invest_after c r j) = invest_loop c r t (invest_after c r (Suc j))"
    using g by (subst invest_loop.simps) (simp add: invest_body_after)
  moreover have "max (Suc j) (nat \<lfloor>t\<rfloor>) = max j (nat \<lfloor>t\<rfloor>)" using Suc.hyps(2) by arith
  ultimately show ?case using ih by simp
qed

lemma invest_init_after: "invest_init = invest_after c r 0"
  by (simp add: invest_init_def invest_after_def)

lemma invest_loop_init:
  "invest_loop c r t invest_init = invest_after c r (nat \<lfloor>t\<rfloor>)"
  using invest_loop_after [of c r t 0] by (simp add: invest_init_after [of c r])

lemma projectInvestment_unfold:
  "projectInvestment c years ar = map (year_snapshot c (1 + ar / 12)) [1..<Suc (nat \<lfloor>years\<rfloor>)]"
  by (simp add: projectInvestment_def invest_loop_init invest_after_def nat_floor_months_div_12)

section \<open>The compounded value\<close>

lemma compound_value_closed:
  "g \<noteq> 1 \<Longrightarrow> compound_value c g k = c * g * (g ^ k - 1) / (g - 1)"
proof (induction k)
  case 0
  then show ?case by simp
next
  case (Suc k)
  then have "g - 1 \<noteq> 0" by simp
  with Suc show ?case by (simp add: field_simps)
qed

lemma compound_value_one: "compound_value c 1 k = real k * c"
  by (induction k) (simp_all add: algebra_simps)

lemma compound_value_zero [simp]: "compound_value 0 g k = 0"
  by (induction k) simp_all

lemma compound_value_ge_principal:
  assumes "0 \<le> c" "1 \<le> g"
  shows "real k * c \<le> compound_value c g k"
proof (induction k)
  case 0
  then show ?case by simp
next
  case (Suc k)
  have "0 \<le> real k * c" using assms(1) by simp
  then have "0 \<le> compound_value c g k + c" using Suc.IH assms(1) by linarith
  then have "compound_value c g k + c \<le> (compound_value c g k + c) * g"
    using assms(2) by (simp add: mult_le_cancel_left1)
  with Suc show ?case by (simp add: algebra_simps)
qed

lemma compound_value_step_mono:
  assumes "0 \<le> c" "1 \<le> g"
  shows "compound_value c g k \<le> compound_value c g (Suc k)"
proof -
  have "0 \<le> real k * c" using assms(1) by simp
  then have "0 \<le> compound_value c g k"
    using compound_value_ge_principal [OF assms, of k] by linarith
  then have "compound_value c g k \<le> compound_value c g k + c" using assms(1) by simp
  also have "\<dots> \<le> (compound_value c g k + c) * g"
    using \<open>0 \<le> compound_value c g k\<close> assms by (simp add: mult_le_cancel_left1)
  finally show ?thesis by simp
qed

lemma compound_value_mono:
  assumes "0 \<le> c" "1 \<le> g" "i \<le> k"
  shows "compound_value c g i \<le> compound_value c g k"
  using lift_Suc_mono_le [of "compound_value c g", OF compound_value_step_mono [OF assms(1,2)] assms(3)] .

lemma year_snapshot_fields [simp]:
  "year (year_snapshot c g y) = y"
  "principal (year_snapshot c g y) = 12 * real y * c"
  "value' (year_snapshot c g y) = compound_value c g (12 * y)"
  "returns (year_snapshot c g y) = compound_value c g (12 * y) - 12 * real y * c"
  "monthlyPassiveIncome (year_snapshot c g y) = compound_value c g (12 * y) * 0.04 / 12"
  by (simp_all add: year_snapshot_def Let_def)

lemma length_projectInvestment: "length (projectInvestment c years ar) = nat \<lfloor>years\<rfloor>"
  by (simp add: projectInvestment_unfold del: upt_Suc)

lemma set_projectInvestment:
  "s \<in> set (projectInvestment c years ar) \<longleftrightarrow>
     (\<exists>y. 1 \<le> y \<and> y \<le> nat \<lfloor>years\<rfloor> \<and> s = year_snapshot c (1 + ar / 12) y)"
  by (auto simp: projectInvestment_unfold)

section \<open>Properties of the projection\<close>

text \<open>Claim C1. The month-by-month loop of \<open>projectInvestment\<close> implements the
  specification of the growth projector: one snapshot per completed year, in
  order, each taken from the compounded value after twelve months per year.\<close>

theorem projectInvestment_refines_spec:
  "projectInvestment c years ar = projection_spec c ar (nat \<lfloor>years\<rfloor>)"
  by (simp add: projection_spec_def projectInvestment_unfold)

text \<open>Claim C18. The loop of \<open>projectInvestment\<close> stops, after exactly
  \<open>\<lfloor>12 \<cdot> years\<rfloor>\<close> iterations (none for a horizon below one month), with the
  contributions of those months as its principal.\<close>

theorem projectInvestment_loop_iterations:
  "m (invest_loop c (ar / 12) (years * 12) invest_init) = Suc (nat \<lfloor>years * 12\<rfloor>) \<and>
   currentPrincipal (invest_loop c (ar / 12) (years * 12) invest_init) =
     real (nat \<lfloor>years * 12\<rfloor>) * c"
  by (simp add: invest_loop_init invest_after_def)

text \<open>Claim C16. \<open>projectInvestment\<close> returns one snapshot per whole year of the
  horizon, with year indices 1, 2, ... in order; a horizon below one year gives the
  empty list.\<close>

theorem projectInvestment_years:
  "length (projectInvestment c years ar) = nat \<lfloor>years\<rfloor> \<and>
   map year (projectInvestment c years ar) = [1..<Suc (nat \<lfloor>years\<rfloor>)]"
  by (simp add: projectInvestment_unfold comp_def del: upt_Suc)

text \<open>Claim C15. For a non-zero yearly return \<open>ar\<close>, the value in year \<open>y\<close> is the
  future value of an annuity due: \<open>c \<cdot> g \<cdot> (g^(12y) - 1) / (g - 1)\<close> with the
  monthly growth factor \<open>g = 1 + ar/12\<close>.\<close>

theorem projectInvestment_closed_form:
  assumes "ar \<noteq> 0"
  shows "map value' (projectInvestment c years ar) =
           map (\<lambda>y. c * (1 + ar / 12) * ((1 + ar / 12) ^ (12 * y) - 1) / (ar / 12))
             [1..<Suc (nat \<lfloor>years\<rfloor>)]"
proof -
  have "1 + ar / 12 \<noteq> 1" using assms by simp
  then show ?thesis by (simp add: projectInvestment_unfold compound_value_closed)
qed

theorem projectInvestment_closed_form_witness:
  "(0.07::real) \<noteq> 0 \<and>
   map value' (projectInvestment 1453.5 1 0.07) =
     map (\<lambda>y. 1453.5 * (1 + 0.07 / 12) * ((1 + 0.07 / 12) ^ (12 * y) - 1) / (0.07 / 12))
       [1..<Suc (nat \<lfloor>1::real\<rfloor>)]"
proof -
  have h: "(0.07::real) \<noteq> 0" by simp
  show ?thesis by (rule conjI [OF h projectInvestment_closed_form [OF h]])
qed

text \<open>With a zero return the value is the sum of the contributions:
  year \<open>y\<close> holds \<open>12 y c\<close> and no returns.\<close>

theorem projectInvestment_zero_return:
  "map value' (projectInvestment c years 0) = map (\<lambda>y. 12 * real y * c) [1..<Suc (nat \<lfloor>years\<rfloor>)] \<and>
   map returns (projectInvestment c years 0) = replicate (nat \<lfloor>years\<rfloor>) 0"
  by (simp add: projectInvestment_unfold compound_value_one comp_def map_replicate_const del: upt_Suc)

text \<open>Claim C19. With no contribution every snapshot is zero: principal, value,
  returns and passive income.\<close>

theorem projectInvestment_zero_contribution:
  "map principal (projectInvestment 0 years ar) = replicate (nat \<lfloor>years\<rfloor>) 0 \<and>
   map value' (projectInvestment 0 years ar) = replicate (nat \<lfloor>years\<rfloor>) 0 \<and>
   map returns (projectInvestment 0 years ar) = replicate (nat \<lfloor>years\<rfloor>) 0 \<and>
   map monthlyPassiveIncome (projectInvestment 0 years ar) = replicate (nat \<lfloor>years\<rfloor>) 0"
  by (simp add: projectInvestment_unfold comp_def map_replicate_const del: upt_Suc)

text \<open>Claim C17. For a non-negative contribution and return, the compounded values
  of successive snapshots never decrease.\<close>

theorem projectInvestment_monotone:
  assumes "0 \<le> c" "0 \<le> ar"
  shows "sorted (map value' (projectInvestment c years ar))"
proof -
  have g: "1 \<le> 1 + ar / 12" using assms(2) by simp
  have "\<And>k. compound_value c (1 + ar / 12) (12 * k) \<le> compound_value c (1 + ar / 12) (12 * Suc k)"
    by (rule compound_value_mono [OF assms(1) g]) simp
  then have "sorted (map (\<lambda>y. compound_value c (1 + ar / 12) (12 * y)) [1..<Suc (nat \<lfloor>years\<rfloor>)])"
    by (rule sorted_map_upt_mono)
  then show ?thesis by (simp add: projectInvestment_unfold comp_def del: upt_Suc)
qed

theorem projectInvestment_monotone_witness:
  "0 \<le> (1453.5::real) \<and> 0 \<le> (0.07::real) \<and> sorted (map value' (projectInvestment 1453.5 30 0.07))"
proof -
  have h: "0 \<le> (1453.5::real)" "0 \<le> (0.07::real)" by simp_all
  show ?thesis using h projectInvestment_monotone [OF h] by blast
qed

text \<open>Claim C20. Each snapshot records the contributions of its years as
  principal, the value minus the principal as returns, and a twelfth of 4 percent of
  the value as monthly passive income; with a non-negative contribution and return
  the returns are never negative.\<close>

theorem projectInvestment_snapshot_fields:
  assumes "s \<in> set (projectInvestment c years ar)"
  shows "principal s = 12 * real (year s) * c \<and> returns s = value' s - principal s \<and>
         monthlyPassiveIncome s = value' s * 0.04 / 12 \<and> 1 \<le> year s \<and> real (year s) \<le> years \<and>
         (0 \<le> c \<longrightarrow> 0 \<le> ar \<longrightarrow> 0 \<le> returns s)"
proof -
  obtain y where y: "1 \<le> y" "y \<le> nat \<lfloor>years\<rfloor>" "s = year_snapshot c (1 + ar / 12) y"
    using assms set_projectInvestment by blast
  have "real y \<le> years" using y(1,2) by linarith
  moreover have "0 \<le> c \<longrightarrow> 0 \<le> ar \<longrightarrow> 0 \<le> returns s"
  proof (intro impI)
    assume "0 \<le> c" "0 \<le> ar"
    then have "real (12 * y) * c \<le> compound_value c (1 + ar / 12) (12 * y)"
      by (intro compound_value_ge_principal) simp_all
    then show "0 \<le> returns s" using y(3) by simp
  qed
  ultimately show ?thesis using y by simp
qed

theorem projectInvestment_snapshot_fields_witness:
  "principal (hd (projectInvestment 1453.5 1 0.07)) = 17442 \<and>
   year (hd (projectInvestment 1453.5 1 0.07)) = 1"
proof -
  have "projectInvestment 1453.5 1 0.07 \<noteq> []"
    using length_projectInvestment [of "1453.5" 1 "0.07"] by auto
  then have "hd (projectInvestment 1453.5 1 0.07) \<in> set (projectInvestment 1453.5 1 0.07)"
    by (rule hd_in_set)
  from projectInvestment_snapshot_fields [OF this]
  have "principal (hd (projectInvestment 1453.5 1 0.07)) =
          12 * real (year (hd (projectInvestment 1453.5 1 0.07))) * 1453.5"
   and "1 \<le> year (hd (projectInvestment 1453.5 1 0.07))"
   and "real (year (hd (projectInvestment 1453.5 1 0.07))) \<le> 1"
    by simp_all
  then show ?thesis by simp
qed

end
