(* ===== verification/Format.thy ===== *)
theory Format
  imports JsValue
begin

text \<open>
  The two formatters of \<open>src/src/utils/calculations.js\<close> (lines 9-26), thin
  wrappers over \<open>Intl.NumberFormat\<close>. Their behaviour is that of ECMA-402 for
  the options the code passes: the number is rounded to at most
  \<open>maximumFractionDigits\<close> decimals, half away from zero (ToRawFixed, the same
  digits as \<open>toFixed\<close>), trailing zeros of the fraction are cut down to
  \<open>minimumFractionDigits\<close>, the integer digits are grouped by three with commas
  (the pattern of both \<open>en-US\<close> and \<open>th-TH\<close>), and a negative number gets a
  leading minus sign before the currency symbol. \<open>formatNumber\<close> uses the
  defaults 0 and 3; \<open>formatCurrency\<close> uses 2 and 2 with the symbol of the
  currency: \<open>$\<close> for \<open>USD\<close> in \<open>en-US\<close>, and for \<open>THB\<close> in \<open>th-TH\<close> the baht
  sign U+0E3F, which the model writes as its three UTF-8 bytes since HOL
  characters are bytes. The non-finite numbers are not modelled: they reach
  the formatters only from an input beyond the range of doubles (see the root
  theory), which the model reads as an exact real.
\<close>

datatype currency = THB | USD

text \<open>Insert a comma before every group of three digits counted from the right.\<close>

fun group3 :: "string \<Rightarrow> string" where
  "group3 ds =
     (if length ds \<le> 3 then ds
      else group3 (take (length ds - 3) ds) @ CHR '','' # drop (length ds - 3) ds)"

declare group3.simps [simp del]

text \<open>The integer and fraction digits of \<open>n / 10^f\<close>, as \<open>toFixed\<close> lays them out.\<close>

definition intl_parts :: "nat \<Rightarrow> nat \<Rightarrow> string \<times> string" where
  "intl_parts f n =
     (let ds = nat_digits n;
          ds' = replicate (Suc f - length ds) CHR ''0'' @ ds;
          k = length ds'
      in (take (k - f) ds', drop (k - f) ds'))"

definition strip_zeros :: "string \<Rightarrow> string" where
  "strip_zeros s = rev (dropWhile (\<lambda>c. c = CHR ''0'') (rev s))"

text \<open>\<open>Intl.NumberFormat(..., {minimumFractionDigits: mn, maximumFractionDigits: mx})\<close>
  with the prefix \<open>pre\<close> (the currency symbol, or nothing).\<close>

definition intl_format :: "nat \<Rightarrow> nat \<Rightarrow> string \<Rightarrow> real \<Rightarrow> string" where
  "intl_format mn mx pre x =
     (let (i, f) = intl_parts mx (fixed_units mx \<bar>x\<bar>);
          f' = take (max mn (length (strip_zeros f))) f
      in (if x < 0 then ''-'' else []) @ pre @ group3 i @ (if f' = [] then [] else CHR ''.'' # f'))"

definition formatNumber :: "real \<Rightarrow> string" where
  "formatNumber x = intl_format 0 3 [] x"

text \<open>\<open>currency === 'THB' ? 'th-TH' : 'en-US'\<close> and the symbol each locale shows.\<close>

definition currency_symbol :: "currency \<Rightarrow> string" where
  "currency_symbol c =
     (case c of THB \<Rightarrow> map char_of [224::nat, 184, 191] | USD \<Rightarrow> ''$'')"

definition formatCurrency :: "real \<Rightarrow> currency \<Rightarrow> string" where
  "formatCurrency x c = intl_format 2 2 (currency_symbol c) x"

text \<open>A \<open>toFixed\<close> string with its integer digits grouped.\<close>

definition group_int :: "string \<Rightarrow> string" where
  "group_int s = group3 (takeWhile (\<lambda>c. c \<noteq> CHR ''.'') s) @ dropWhile (\<lambda>c. c \<noteq> CHR ''.'') s"

section \<open>Grouping\<close>

lemma group3_short [simp]: "length ds \<le> 3 \<Longrightarrow> group3 ds = ds"
  by (simp add: group3.simps)

lemma group3_filter:
  "CHR '','' \<notin> set ds \<Longrightarrow> filter (\<lambda>c. c \<noteq> CHR '','') (group3 ds) = ds"
proof (induction ds rule: group3.induct)
  case (1 ds)
  show ?case
  proof (cases "length ds \<le> 3")
    case True
    then show ?thesis using "1.prems" by (auto simp: filter_id_conv)
  next
    case False
    have t: "CHR '','' \<notin> set (take (length ds - 3) ds)"
      using "1.prems" by (meson in_set_takeD)
    have d: "filter (\<lambda>c. c \<noteq> CHR '','') (drop (length ds - 3) ds) = drop (length ds - 3) ds"
      using "1.prems" by (auto simp: filter_id_conv dest: in_set_dropD)
    show ?thesis using False "1.IH" [OF False t] d by (subst group3.simps) simp
  qed
qed

lemma group3_shape:
  "ds \<noteq> [] \<Longrightarrow> \<exists>g gs. group3 ds = g @ concat (map (Cons CHR '','') gs) \<and>
     g \<noteq> [] \<and> length g \<le> 3 \<and> (\<forall>h\<in>set gs. length h = 3) \<and> g @ concat gs = ds"
proof (induction ds rule: group3.induct)
  case (1 ds)
  show ?case
  proof (cases "length ds \<le> 3")
    case True
    then show ?thesis using "1.prems" by (intro exI [of _ ds] exI [of _ "[]"]) simp
  next
    case False
    then have "take (length ds - 3) ds \<noteq> []" by (cases ds) auto
    from "1.IH" [OF False this] obtain g gs where
      h: "group3 (take (length ds - 3) ds) = g @ concat (map (Cons CHR '','') gs)"
         "g \<noteq> []" "length g \<le> 3" "\<forall>h\<in>set gs. length h = 3" "g @ concat gs = take (length ds - 3) ds"
      by blast
    have "group3 ds = g @ concat (map (Cons CHR '','') (gs @ [drop (length ds - 3) ds]))"
      using False h(1) by (subst group3.simps) simp
    moreover have "(g @ concat gs) @ drop (length ds - 3) ds = ds"
      using h(5) by simp
    then have "g @ concat (gs @ [drop (length ds - 3) ds]) = ds" by simp
    ultimately show ?thesis using h(2-4) False
      by (intro exI [of _ g] exI [of _ "gs @ [drop (length ds - 3) ds]"]) auto
  qed
qed

section \<open>The formatters and \<open>toFixed\<close>\<close>

lemma intl_parts_digits:
  "fst (intl_parts f n) \<noteq> [] \<and> length (snd (intl_parts f n)) = f \<and>
   (\<forall>c\<in>set (fst (intl_parts f n) @ snd (intl_parts f n)). is_digit c) \<and>
   fixed_digits f n = (if f = 0 then fst (intl_parts f n)
                       else fst (intl_parts f n) @ CHR ''.'' # snd (intl_parts f n))"
proof -
  define ds' where "ds' = replicate (Suc f - length (nat_digits n)) CHR ''0'' @ nat_digits n"
  have dig: "\<forall>c\<in>set ds'. is_digit c"
    by (auto simp: ds'_def is_digit_def dest: nat_digits_digits)
  have len: "Suc f \<le> length ds'" by (simp add: ds'_def)
  have p: "intl_parts f n = (take (length ds' - f) ds', drop (length ds' - f) ds')"
    by (simp add: intl_parts_def ds'_def Let_def)
  have "fixed_digits f n = (if f = 0 then ds' else take (length ds' - f) ds' @ ''.'' @ drop (length ds' - f) ds')"
    by (simp add: fixed_digits_def ds'_def Let_def)
  moreover have "\<forall>c\<in>set (take (length ds' - f) ds' @ drop (length ds' - f) ds'). is_digit c"
    using dig by simp
  moreover have "take (length ds' - f) ds' \<noteq> []" using len by (cases ds') auto
  ultimately show ?thesis using len unfolding p by simp
qed

lemma no_dot_digits: "\<forall>c\<in>set s. is_digit c \<Longrightarrow> CHR ''.'' \<notin> set s \<and> CHR '','' \<notin> set s"
  by (auto simp: is_digit_def)

lemma group_int_toFixed:
  assumes "0 < f"
  shows "group_int (fixed_digits f n) = group3 (fst (intl_parts f n)) @ CHR ''.'' # snd (intl_parts f n)"
proof -
  have "\<forall>c\<in>set (fst (intl_parts f n)). c \<noteq> CHR ''.''"
    using intl_parts_digits [of f n] no_dot_digits by auto
  then have "takeWhile (\<lambda>c. c \<noteq> CHR ''.'') (fst (intl_parts f n) @ CHR ''.'' # snd (intl_parts f n)) =
               fst (intl_parts f n)"
    and "dropWhile (\<lambda>c. c \<noteq> CHR ''.'') (fst (intl_parts f n) @ CHR ''.'' # snd (intl_parts f n)) =
               CHR ''.'' # snd (intl_parts f n)"
    by (simp_all add: takeWhile_append2 dropWhile_append2)
  then show ?thesis using intl_parts_digits [of f n] assms by (simp add: group_int_def)
qed

lemma formatCurrency_grouped:
  "formatCurrency x c =
     (if x < 0 then ''-'' else []) @ currency_symbol c @ group_int (js_toFixed 2 \<bar>x\<bar>)"
proof -
  have l: "length (snd (intl_parts 2 (fixed_units 2 \<bar>x\<bar>))) = 2"
    using intl_parts_digits by blast
  have "js_toFixed 2 \<bar>x\<bar> = fixed_digits 2 (fixed_units 2 \<bar>x\<bar>)" by (simp add: js_toFixed_def)
  moreover have "snd (intl_parts 2 (fixed_units 2 \<bar>x\<bar>)) \<noteq> []" using l by auto
  ultimately show ?thesis using l
    by (simp add: formatCurrency_def intl_format_def group_int_toFixed split_beta Let_def)
qed

lemma group_int_filter:
  assumes "\<forall>c\<in>set s. is_digit c \<or> c = CHR ''.''"
  shows "filter (\<lambda>c. c \<noteq> CHR '','') (group_int s) = s"
proof -
  have nc: "CHR '','' \<notin> set s" using assms by (auto simp: is_digit_def)
  then have "CHR '','' \<notin> set (takeWhile (\<lambda>c. c \<noteq> CHR ''.'') s)"
    by (meson set_takeWhileD)
  moreover have "CHR '','' \<notin> set (dropWhile (\<lambda>c. c \<noteq> CHR ''.'') s)"
    using nc by (meson set_dropWhileD)
  then have "filter (\<lambda>c. c \<noteq> CHR '','') (dropWhile (\<lambda>c. c \<noteq> CHR ''.'') s) =
               dropWhile (\<lambda>c. c \<noteq> CHR ''.'') s"
    by (auto simp: filter_id_conv)
  ultimately show ?thesis by (simp add: group_int_def group3_filter)
qed

lemma fixed_digits_chars: "c \<in> set (fixed_digits f n) \<Longrightarrow> is_digit c \<or> c = CHR ''.''"
  using intl_parts_digits [of f n] by (auto split: if_splits)

lemma signed_toFixed: "(if x < 0 then ''-'' else []) @ js_toFixed f \<bar>x\<bar> = js_toFixed f x"
  by (simp add: js_toFixed_def)

lemma nat_digits_times_pow10:
  "0 < n \<Longrightarrow> nat_digits (n * 10 ^ f) = nat_digits n @ replicate f CHR ''0''"
proof (induction f)
  case 0
  then show ?case by simp
next
  case (Suc f)
  have "nat_digits (n * 10 ^ Suc f) = nat_digits (n * 10 ^ f * 10)" by (simp add: ac_simps)
  also have "\<dots> = nat_digits (n * 10 ^ f) @ ''0''"
    using Suc.prems by (subst nat_digits.simps) (simp add: digit_char_codes)
  finally show ?case using Suc by (simp add: replicate_append_same)
qed

lemma fixed_units_nat: "fixed_units f (real n) = n * 10 ^ f"
proof -
  have "real n * 10 ^ f + 1/2 = real (n * 10 ^ f) + 1/2" by simp
  then have "\<lfloor>real n * 10 ^ f + 1/2\<rfloor> = int (n * 10 ^ f)" by linarith
  then show ?thesis unfolding fixed_units_def by (metis nat_int)
qed

lemma formatNumber_nat: "formatNumber (real n) = group3 (nat_digits n)"
proof (cases "n = 0")
  case True
  have "nat_digits 0 = ''0''" by (simp add: nat_digits.simps digit_char_codes)
  then show ?thesis using True
    by (simp add: formatNumber_def intl_format_def intl_parts_def fixed_units_def strip_zeros_def
        numeral_eq_Suc Let_def)
next
  case False
  have e: "nat_digits (fixed_units 3 (real n)) = nat_digits n @ ''000''"
    using nat_digits_times_pow10 [of n 3] False by (simp add: fixed_units_nat numeral_3_eq_3)
  have l: "1 \<le> length (nat_digits n)" using nat_digits_ne [of n] by (cases "nat_digits n") auto
  have p: "intl_parts 3 (fixed_units 3 (real n)) = (nat_digits n, ''000'')"
    using l by (simp add: intl_parts_def e Let_def)
  show ?thesis by (simp add: formatNumber_def intl_format_def p strip_zeros_def)
qed

text \<open>Claim C28. \<open>formatNumber\<close> of a whole number (the view counts of the results
  table) is a run of digit groups separated by commas: a first group of one to
  three digits, then groups of exactly three, whose digits spell the number.\<close>

theorem formatNumber_grouping:
  "\<exists>g gs. formatNumber (real n) = g @ concat (map (Cons CHR '','') gs) \<and>
     g \<noteq> [] \<and> length g \<le> 3 \<and> (\<forall>h\<in>set gs. length h = 3) \<and>
     (\<forall>c\<in>set (g @ concat gs). is_digit c) \<and> digits_value (g @ concat gs) = n"
proof -
  obtain g gs where h: "group3 (nat_digits n) = g @ concat (map (Cons CHR '','') gs)"
    "g \<noteq> []" "length g \<le> 3" "\<forall>h\<in>set gs. length h = 3" "g @ concat gs = nat_digits n"
    using group3_shape [OF nat_digits_ne] by blast
  have "\<forall>c\<in>set (g @ concat gs). is_digit c" using h(5) nat_digits_digits by metis
  then show ?thesis using h by (intro exI [of _ g] exI [of _ gs]) (simp add: formatNumber_nat nat_digits_value)
qed

theorem formatNumber_grouping_witness:
  "formatNumber (real 1234567) = ''1,234,567'' \<and>
   (\<exists>g gs. ''1,234,567'' = g @ concat (map (Cons CHR '','') gs) \<and> g \<noteq> [] \<and> length g \<le> 3 \<and>
      (\<forall>h\<in>set gs. length h = 3) \<and> digits_value (g @ concat gs) = 1234567)"
proof -
  have d: "nat_digits 1234567 = ''1234567''"
    by (simp add: nat_digits.simps digit_char_codes)
  have g: "group3 ''1234567'' = ''1,234,567''" by (simp add: group3.simps)
  have e: "formatNumber (real 1234567) = ''1,234,567''"
    using formatNumber_nat [of 1234567] by (simp only: d g)
  from formatNumber_grouping [of 1234567] obtain g gs where
    "formatNumber (real 1234567) = g @ concat (map (Cons CHR '','') gs)" "g \<noteq> []" "length g \<le> 3"
    "\<forall>h\<in>set gs. length h = 3" "digits_value (g @ concat gs) = 1234567"
    by blast
  moreover have "''1,234,567'' = g @ concat (map (Cons CHR '','') gs)"
    using e calculation(1) by simp
  ultimately show ?thesis using e by blast
qed

text \<open>The grouping is only presentation: with its commas removed,
  \<open>formatNumber\<close> of a whole number reads back as that number with \<open>Number\<close>
  and \<open>parseInt\<close>.\<close>

theorem formatNumber_roundtrip:
  "string_to_number (filter (\<lambda>c. c \<noteq> CHR '','') (formatNumber (real n))) = Some (real n) \<and>
   parse_int_str (filter (\<lambda>c. c \<noteq> CHR '','') (formatNumber (real n))) = Some (int n)"
proof -
  have "CHR '','' \<notin> set (nat_digits n)" using nat_digits_digits no_dot_digits by blast
  then have "filter (\<lambda>c. c \<noteq> CHR '','') (formatNumber (real n)) = nat_digits n"
    by (simp add: formatNumber_nat group3_filter)
  then show ?thesis using nat_digits_roundtrip [of n] by simp
qed

text \<open>Claim C29. Every amount the page shows through \<open>formatCurrency\<close> is the
  sign, the currency symbol and the \<open>toFixed(2)\<close> digits of the value with
  grouping commas; without the symbol and the commas it reads back with
  \<open>Number\<close> as the value rounded to cents, within half a cent of it.\<close>

theorem formatCurrency_reads_back:
  "\<exists>s. formatCurrency x c = (if x < 0 then ''-'' else []) @ currency_symbol c @ s \<and>
       string_to_number ((if x < 0 then ''-'' else []) @ filter (\<lambda>c. c \<noteq> CHR '','') s) =
         Some (round_fixed 2 x) \<and>
       \<bar>round_fixed 2 x - x\<bar> \<le> 1 / 200"
proof -
  have "\<forall>c\<in>set (js_toFixed 2 \<bar>x\<bar>). is_digit c \<or> c = CHR ''.''"
    by (auto simp: js_toFixed_def dest: fixed_digits_chars)
  then have "filter (\<lambda>c. c \<noteq> CHR '','') (group_int (js_toFixed 2 \<bar>x\<bar>)) = js_toFixed 2 \<bar>x\<bar>"
    by (rule group_int_filter)
  moreover have "\<bar>round_fixed 2 x - x\<bar> \<le> 1 / 200" using round_fixed_dist [of 2 x] by simp
  ultimately show ?thesis
    by (intro exI [of _ "group_int (js_toFixed 2 \<bar>x\<bar>)"])
       (simp add: formatCurrency_grouped signed_toFixed string_to_number_toFixed)
qed

end
