(* ===== verification/Calculator.thy ===== *)
theory Calculator
  imports Revenue Format
begin

text \<open>
  The calculator form, \<open>src/src/components/Calculator.jsx\<close>, together with the
  state it lifts into \<open>src/src/App.jsx\<close> (\<open>results\<close>, \<open>currency\<close>). The
  state of the running page is the record \<open>app_state\<close>: the form's
  \<open>inputs\<close> (JavaScript values: numbers initially, strings after an edit), its
  \<open>errors\<close> object, the App's \<open>currency\<close> and its \<open>results\<close> (\<open>null\<close> is
  \<open>None\<close>). The handlers are \<open>validate\<close>, \<open>handleChange\<close>,
  \<open>handleCurrencyToggle\<close> and the Reset button; after each handler that sets
  state, React re-renders and runs the effect of lines 103-119, modelled as
  \<open>calc_effect\<close>, which recomputes the results when the inputs are valid and
  leaves them as they were otherwise. \<open>app_step\<close> is one user event followed by
  that effect, \<open>app_run\<close> a sequence of events, and \<open>reachable\<close> the states
  of the page after mounting.
\<close>

section \<open>State\<close>

definition USD_TO_THB :: real where
  "USD_TO_THB = 31.59"

datatype field = VideosPerDay | AverageViews | Rpm

record calc_inputs =
  videosPerDay :: jsval
  averageViews :: jsval
  rpm :: jsval

record app_state =
  inputs :: calc_inputs
  errors :: "field \<Rightarrow> string option"
  currency :: currency
  results :: "revenue option"

definition default_inputs :: calc_inputs where
  "default_inputs = \<lparr>videosPerDay = JNum 1, averageViews = JNum 10000, rpm = JNum 5.7\<rparr>"

definition app_init :: app_state where
  "app_init = \<lparr>inputs = default_inputs, errors = Map.empty, currency = THB, results = None\<rparr>"

text \<open>\<open>{...prev, [name]: value}\<close>.\<close>

definition set_input :: "field \<Rightarrow> jsval \<Rightarrow> calc_inputs \<Rightarrow> calc_inputs" where
  "set_input name v i =
     (case name of
        VideosPerDay \<Rightarrow> i\<lparr>videosPerDay := v\<rparr>
      | AverageViews \<Rightarrow> i\<lparr>averageViews := v\<rparr>
      | Rpm \<Rightarrow> i\<lparr>rpm := v\<rparr>)"

section \<open>Handlers\<close>

text \<open>The message \<open>validate\<close> computes: the two checks of a field run in
  order, so the second overrides the first; a comparison with NaN is false.\<close>

definition validate_error :: "field \<Rightarrow> string \<Rightarrow> string" where
  "validate_error name value =
     (let val = parse_float_str value in
      case name of
        VideosPerDay \<Rightarrow>
          (let e = (if num_lt val 0 then ''Negative videos? Interesting!'' else '''')
           in if num_gt val 100 then ''Take some rest, creator!'' else e)
      | AverageViews \<Rightarrow> (if num_lt val 0 then ''Views cannot be negative'' else '''')
      | Rpm \<Rightarrow>
          (let e = (if num_lt val 0 then ''RPM cannot be negative'' else '''')
           in if num_gt val 1000 then ''RPM limit exceeded'' else e))"

definition validate :: "field \<Rightarrow> string \<Rightarrow> app_state \<Rightarrow> app_state \<times> bool" where
  "validate name value st =
     (let error = validate_error name value
      in (st\<lparr>errors := (errors st)(name \<mapsto> error)\<rparr>, error = ''''))"

definition handleChange :: "field \<Rightarrow> string \<Rightarrow> app_state \<Rightarrow> app_state" where
  "handleChange name value st =
     fst (validate name value (st\<lparr>inputs := set_input name (JStr value) (inputs st)\<rparr>))"

text \<open>The conversion of lines 90-97: multiply by the rate from USD to THB,
  divide from THB to USD.\<close>

definition convert_rpm :: "currency \<Rightarrow> currency \<Rightarrow> real \<Rightarrow> real" where
  "convert_rpm newCurr fromCurr currentRpm =
     (if newCurr = THB \<and> fromCurr = USD then currentRpm * USD_TO_THB
      else if newCurr = USD \<and> fromCurr = THB then currentRpm / USD_TO_THB
      else currentRpm)"

definition handleCurrencyToggle :: "currency \<Rightarrow> app_state \<Rightarrow> app_state" where
  "handleCurrencyToggle newCurr st =
     (if newCurr = currency st then st
      else
        (let currentRpm = parse_or_zero (rpm (inputs st));
             newRpm = convert_rpm newCurr (currency st) currentRpm
         in st\<lparr>inputs := (inputs st)\<lparr>rpm := js_number (string_to_number (js_toFixed 2 newRpm))\<rparr>,
               currency := newCurr\<rparr>))"

definition handleReset :: "app_state \<Rightarrow> app_state" where
  "handleReset st = st\<lparr>inputs := default_inputs\<rparr>"

section \<open>The effect\<close>

text \<open>\<open>Object.values(errors).every(e => !e)\<close>: every message present is empty.\<close>

definition errors_clear :: "(field \<Rightarrow> string option) \<Rightarrow> bool" where
  "errors_clear errs =
     list_all (\<lambda>f. case errs f of None \<Rightarrow> True | Some e \<Rightarrow> e = '''') [VideosPerDay, AverageViews, Rpm]"

definition inputs_valid :: "app_state \<Rightarrow> bool" where
  "inputs_valid st \<longleftrightarrow>
     errors_clear (errors st) \<and> js_ge (videosPerDay (inputs st)) 0 \<and>
     js_ge (averageViews (inputs st)) 0 \<and> js_ge (rpm (inputs st)) 0"

text \<open>\<open>calculateRevenue(inputs.videosPerDay * 30, inputs.averageViews, inputs.rpm)\<close>.\<close>

definition revenue_of_inputs :: "calc_inputs \<Rightarrow> revenue" where
  "revenue_of_inputs i = calculateRevenue (js_mult (videosPerDay i) (JNum 30)) (averageViews i) (rpm i)"

definition calc_effect :: "app_state \<Rightarrow> app_state" where
  "calc_effect st =
     (if inputs_valid st then st\<lparr>results := Some (revenue_of_inputs (inputs st))\<rparr> else st)"

section \<open>Events and runs\<close>

datatype calc_event = Change field string | ToggleCurrency currency | ResetDefaults

text \<open>An event handler followed by the effect; a toggle to the current currency
  returns before setting any state, so nothing re-renders.\<close>

fun app_step :: "app_state \<Rightarrow> calc_event \<Rightarrow> app_state" where
  "app_step st (Change name value) = calc_effect (handleChange name value st)"
| "app_step st (ToggleCurrency c) =
     (if c = currency st then st else calc_effect (handleCurrencyToggle c st))"
| "app_step st ResetDefaults = calc_effect (handleReset st)"

definition app_mounted :: app_state where
  "app_mounted = calc_effect app_init"

fun app_run :: "app_state \<Rightarrow> calc_event list \<Rightarrow> app_state" where
  "app_run st [] = st"
| "app_run st (e # es) = app_run (app_step st e) es"

inductive reachable :: "app_state \<Rightarrow> bool" where
  mounted: "reachable app_mounted"
| step: "reachable st \<Longrightarrow> reachable (app_step st e)"

declare USD_TO_THB_def [calc_eval] default_inputs_def [calc_eval] app_init_def [calc_eval]
  set_input_def [calc_eval] validate_error_def [calc_eval] validate_def [calc_eval]
  handleChange_def [calc_eval] convert_rpm_def [calc_eval] handleCurrencyToggle_def [calc_eval]
  handleReset_def [calc_eval] errors_clear_def [calc_eval] inputs_valid_def [calc_eval]
  revenue_of_inputs_def [calc_eval] calc_effect_def [calc_eval] app_mounted_def [calc_eval]
  calculateRevenue_def [calc_eval]

section \<open>Frame lemmas\<close>

lemma handlers_keep_results [simp]:
  "results (handleChange n v st) = results st"
  "results (handleCurrencyToggle c st) = results st"
  "results (handleReset st) = results st"
  by (simp_all add: handleChange_def validate_def handleCurrencyToggle_def handleReset_def Let_def)

lemma handlers_errors:
  "errors (handleCurrencyToggle c st) = errors st"
  "errors (handleReset st) = errors st"
  "inputs (handleReset st) = default_inputs"
  by (simp_all add: handleCurrencyToggle_def handleReset_def Let_def)

lemma calc_effect_frame [simp]:
  "inputs (calc_effect st) = inputs st"
  "errors (calc_effect st) = errors st"
  "currency (calc_effect st) = currency st"
  by (simp_all add: calc_effect_def)

lemma calc_effect_valid:
  "inputs_valid st \<Longrightarrow> results (calc_effect st) = Some (revenue_of_inputs (inputs st))"
  by (simp add: calc_effect_def)

lemma calc_effect_invalid: "\<not> inputs_valid st \<Longrightarrow> calc_effect st = st"
  by (simp add: calc_effect_def)

lemma inputs_valid_calc_effect [simp]: "inputs_valid (calc_effect st) = inputs_valid st"
  by (simp add: inputs_valid_def)

section \<open>The displayed results follow the inputs\<close>

definition results_inv :: "app_state \<Rightarrow> bool" where
  "results_inv st \<longleftrightarrow>
     results st \<noteq> None \<and> (inputs_valid st \<longrightarrow> results st = Some (revenue_of_inputs (inputs st)))"

lemma calc_effect_results_inv: "results st \<noteq> None \<Longrightarrow> results_inv (calc_effect st)"
  by (cases "inputs_valid st") (simp_all add: results_inv_def calc_effect_valid calc_effect_invalid)

lemma app_step_results_inv:
  assumes "results_inv st"
  shows "results_inv (app_step st e)"
proof -
  have r: "results st \<noteq> None" using assms by (simp add: results_inv_def)
  show ?thesis
  proof (cases e)
    case (Change n v)
    then show ?thesis using r by (simp add: calc_effect_results_inv)
  next
    case (ToggleCurrency c)
    then show ?thesis using r assms by (simp add: calc_effect_results_inv)
  next
    case ResetDefaults
    then show ?thesis using r by (simp add: calc_effect_results_inv)
  qed
qed

lemma app_init_valid: "inputs_valid app_init"
  by (simp add: calc_eval js_eval)

lemma app_mounted_valid: "inputs_valid app_mounted"
  by (simp add: app_mounted_def app_init_valid)

lemma app_mounted_results: "results app_mounted = Some (revenue_of_inputs default_inputs)"
  by (simp add: app_mounted_def calc_effect_valid app_init_valid) (simp add: app_init_def)

lemma reachable_results_inv: "reachable st \<Longrightarrow> results_inv st"
proof (induction rule: reachable.induct)
  case mounted
  show ?case using app_mounted_valid app_mounted_results
    by (simp add: results_inv_def app_mounted_def app_init_def)
next
  case (step st e)
  from step.IH show ?case by (rule app_step_results_inv)
qed

lemma reachable_app_run: "reachable st \<Longrightarrow> reachable (app_run st es)"
  by (induction es arbitrary: st) (simp_all add: reachable.step)

text \<open>Claim C2. In every state of the page, whenever the inputs are valid the
  displayed results are exactly \<open>calculateRevenue\<close> of the current inputs (with
  thirty days of videos per month).\<close>

theorem results_match_valid_inputs:
  assumes "reachable st" "inputs_valid st"
  shows "results st = Some (revenue_of_inputs (inputs st))"
  using reachable_results_inv [OF assms(1)] assms(2) by (simp add: results_inv_def)

theorem results_match_valid_inputs_witness:
  "reachable app_mounted \<and> inputs_valid app_mounted \<and>
   results app_mounted = Some (revenue_of_inputs (inputs app_mounted))"
  using results_match_valid_inputs [OF reachable.mounted app_mounted_valid]
    reachable.mounted app_mounted_valid by blast

text \<open>Once mounted, the page always has results to display: no
  sequence of edits, toggles and resets brings \<open>results\<close> back to \<open>null\<close>.\<close>

theorem results_always_present:
  assumes "reachable st"
  shows "\<exists>r. results st = Some r"
  using reachable_results_inv [OF assms] by (auto simp: results_inv_def)

theorem results_always_present_witness:
  "reachable (app_run app_mounted [Change Rpm ''-1'']) \<and>
   (\<exists>r. results (app_run app_mounted [Change Rpm ''-1'']) = Some r)"
proof -
  have h: "reachable (app_run app_mounted [Change Rpm ''-1''])"
    by (rule reachable_app_run [OF reachable.mounted])
  show ?thesis using h results_always_present [OF h] by blast
qed

section \<open>Reset and currency toggle\<close>

lemma app_step_reset_blocked:
  assumes "\<not> errors_clear (errors st)"
  shows "app_step st ResetDefaults = handleReset st"
proof -
  have "\<not> inputs_valid (handleReset st)"
    using assms by (simp add: inputs_valid_def handlers_errors)
  then show ?thesis by (simp add: calc_effect_invalid)
qed

text \<open>Claim C6. Reset Defaults restores the default inputs but keeps the errors
  object: after an invalid entry, the page shows the default inputs with the old
  error still set and the results of the earlier inputs, which no longer match
  the form.\<close>

theorem reset_keeps_stale_results:
  assumes "\<not> errors_clear (errors st)"
  shows "inputs (app_step st ResetDefaults) = default_inputs \<and>
         errors (app_step st ResetDefaults) = errors st \<and>
         results (app_step st ResetDefaults) = results st"
  using app_step_reset_blocked [OF assms] by (simp add: handlers_errors)

theorem reset_keeps_stale_results_witness:
  "\<not> errors_clear (errors (app_run app_mounted [Change VideosPerDay ''2'', Change VideosPerDay ''200''])) \<and>
   inputs (app_step (app_run app_mounted [Change VideosPerDay ''2'', Change VideosPerDay ''200'']) ResetDefaults)
     = default_inputs \<and>
   results (app_step (app_run app_mounted [Change VideosPerDay ''2'', Change VideosPerDay ''200'']) ResetDefaults)
     \<noteq> Some (revenue_of_inputs default_inputs)"
proof -
  let ?st = "app_run app_mounted [Change VideosPerDay ''2'', Change VideosPerDay ''200'']"
  have h: "\<not> errors_clear (errors ?st)" by (simp add: calc_eval js_eval Let_def)
  have r: "results ?st \<noteq> Some (revenue_of_inputs default_inputs)"
    by (simp add: calc_eval js_eval Let_def)
  show ?thesis using h r reset_keeps_stale_results [OF h] by simp
qed

lemma app_step_toggle:
  assumes "c \<noteq> currency st"
  shows "rpm (inputs (app_step st (ToggleCurrency c))) =
           JNum (round_fixed 2 (convert_rpm c (currency st) (parse_or_zero (rpm (inputs st))))) \<and>
         currency (app_step st (ToggleCurrency c)) = c \<and>
         errors (app_step st (ToggleCurrency c)) = errors st"
  using assms by (simp add: handleCurrencyToggle_def Let_def string_to_number_toFixed js_number_def)

text \<open>Claim C8. The currency toggle converts the RPM without validating it:
  entering 999 in USD (within the limit of 1000) and switching to THB shows
  results for an RPM of 31558.41 with no error, although \<open>validate\<close> rejects
  that value when typed.\<close>

theorem toggle_bypasses_rpm_limit:
  "reachable (app_run app_mounted [ToggleCurrency USD, Change Rpm ''999'', ToggleCurrency THB]) \<and>
   inputs_valid (app_run app_mounted [ToggleCurrency USD, Change Rpm ''999'', ToggleCurrency THB]) \<and>
   map_option effectiveRPM
     (results (app_run app_mounted [ToggleCurrency USD, Change Rpm ''999'', ToggleCurrency THB]))
     = Some 31558.41 \<and>
   validate_error Rpm ''999'' = '''' \<and>
   validate_error Rpm ''31558.41'' = ''RPM limit exceeded''"
proof -
  let ?st = "app_run app_mounted [ToggleCurrency USD, Change Rpm ''999'', ToggleCurrency THB]"
  have v: "inputs_valid ?st" by (simp add: calc_eval js_eval Let_def)
  have "rpm (inputs ?st) = JNum 31558.41" by (simp add: calc_eval js_eval Let_def)
  moreover have "results_inv ?st"
    by (rule reachable_results_inv [OF reachable_app_run [OF reachable.mounted]])
  then have "results ?st = Some (revenue_of_inputs (inputs ?st))"
    using v unfolding results_inv_def by blast
  ultimately have "map_option effectiveRPM (results ?st) = Some 31558.41"
    by (simp add: revenue_of_inputs_def calculateRevenue_fields)
  moreover have "validate_error Rpm ''999'' = ''''" "validate_error Rpm ''31558.41'' = ''RPM limit exceeded''"
    by (simp_all add: calc_eval js_eval Let_def)
  ultimately show ?thesis using v reachable_app_run [OF reachable.mounted] by blast
qed

text \<open>Claim C22. Toggling THB to USD and back does not restore the RPM: the
  conversion itself is invertible, but each toggle rounds to two decimals, so the
  default 5.7 becomes 5.69.\<close>

theorem currency_round_trip_drift:
  "convert_rpm THB USD (convert_rpm USD THB x) = x \<and>
   rpm (inputs (app_run app_mounted [ToggleCurrency USD, ToggleCurrency THB])) = JNum 5.69"
proof -
  have "convert_rpm THB USD (convert_rpm USD THB x) = x"
    by (simp add: convert_rpm_def USD_TO_THB_def)
  moreover have "rpm (inputs (app_run app_mounted [ToggleCurrency USD, ToggleCurrency THB])) = JNum 5.69"
    by (simp add: calc_eval js_eval Let_def)
  ultimately show ?thesis by simp
qed

text \<open>Claim C23. The drift is bounded: toggling from THB to USD and back moves
  the RPM by at most \<open>(1 + USD_TO_THB) / 200\<close>, about 0.163.\<close>

theorem currency_round_trip_bound:
  assumes "currency st = THB"
  shows "\<exists>y. rpm (inputs (app_run st [ToggleCurrency USD, ToggleCurrency THB])) = JNum y \<and>
             \<bar>y - parse_or_zero (rpm (inputs st))\<bar> \<le> (1 + USD_TO_THB) / 200"
proof -
  let ?x = "parse_or_zero (rpm (inputs st))"
  let ?R = "USD_TO_THB"
  let ?st1 = "app_step st (ToggleCurrency USD)"
  define y1 where "y1 = round_fixed 2 (?x / ?R)"
  define y2 where "y2 = round_fixed 2 (y1 * ?R)"
  have R: "?R = 31.59" by (simp add: USD_TO_THB_def)
  have s1: "rpm (inputs ?st1) = JNum y1" "currency ?st1 = USD"
    using app_step_toggle [of USD st] assms by (simp_all add: y1_def convert_rpm_def)
  have s2: "rpm (inputs (app_step ?st1 (ToggleCurrency THB))) = JNum y2"
    using app_step_toggle [of THB ?st1] s1 by (simp add: y2_def convert_rpm_def)
  have d1: "\<bar>y1 - ?x / ?R\<bar> \<le> 1 / 200" using round_fixed_dist [of 2 "?x / ?R"] by (simp add: y1_def)
  have d2: "\<bar>y2 - y1 * ?R\<bar> \<le> 1 / 200" using round_fixed_dist [of 2 "y1 * ?R"] by (simp add: y2_def)
  have "\<bar>y1 * ?R - ?x\<bar> = ?R * \<bar>y1 - ?x / ?R\<bar>" by (simp add: R abs_mult field_simps)
  also have "\<dots> \<le> ?R / 200" using d1 by (simp add: R)
  finally have "\<bar>y1 * ?R - ?x\<bar> \<le> ?R / 200" .
  moreover have "\<bar>y2 - ?x\<bar> \<le> \<bar>y2 - y1 * ?R\<bar> + \<bar>y1 * ?R - ?x\<bar>"
    using abs_triangle_ineq [of "y2 - y1 * ?R" "y1 * ?R - ?x"] by simp
  moreover have "(1 + ?R) / 200 = 1 / 200 + ?R / 200" by (simp add: add_divide_distrib)
  ultimately have "\<bar>y2 - ?x\<bar> \<le> (1 + ?R) / 200" using d2 by linarith
  with s2 show ?thesis by auto
qed

theorem currency_round_trip_bound_witness:
  "currency app_mounted = THB \<and>
   (\<exists>y. rpm (inputs (app_run app_mounted [ToggleCurrency USD, ToggleCurrency THB])) = JNum y \<and>
        \<bar>y - parse_or_zero (rpm (inputs app_mounted))\<bar> \<le> (1 + USD_TO_THB) / 200)"
proof -
  have h: "currency app_mounted = THB" by (simp add: app_mounted_def app_init_def)
  show ?thesis using h currency_round_trip_bound [OF h] by blast
qed

section \<open>Recovery\<close>

lemma app_step_change:
  "inputs (app_step st (Change f v)) = set_input f (JStr v) (inputs st)"
  "errors (app_step st (Change f v)) = (errors st)(f \<mapsto> validate_error f v)"
  by (simp_all add: handleChange_def validate_def Let_def)

lemma results_app_step_change:
  "inputs_valid (app_step st (Change f v)) \<Longrightarrow>
   results (app_step st (Change f v)) = Some (revenue_of_inputs (inputs (app_step st (Change f v))))"
  by (simp add: calc_effect_valid)

text \<open>Claim C9. The page can always recover: from any state whatever, typing
  the three default figures back into the form (1, 10000 and 5.7) brings back
  the results shown when the page was loaded. (The Reset button alone does not:
  it leaves stale error messages that block the recalculation.)\<close>

theorem retyping_defaults_recovers:
  "results (app_run st [Change VideosPerDay ''1'', Change AverageViews ''10000'', Change Rpm ''5.7'']) =
   results app_mounted"
proof -
  define s1 where "s1 = app_step st (Change VideosPerDay ''1'')"
  define s2 where "s2 = app_step s1 (Change AverageViews ''10000'')"
  define s3 where "s3 = app_step s2 (Change Rpm ''5.7'')"
  have ve: "validate_error VideosPerDay ''1'' = []" "validate_error AverageViews ''10000'' = []"
      "validate_error Rpm ''5.7'' = []"
    by (simp_all add: validate_error_def num_lt_def num_gt_def js_eval)
  have inp: "videosPerDay (inputs s3) = JStr ''1''" "averageViews (inputs s3) = JStr ''10000''"
      "rpm (inputs s3) = JStr ''5.7''"
    by (simp_all add: s1_def s2_def s3_def app_step_change set_input_def del: app_step.simps)
  have err: "errors s3 = (((errors st)(VideosPerDay \<mapsto> []))(AverageViews \<mapsto> []))(Rpm \<mapsto> [])"
    by (simp add: s1_def s2_def s3_def app_step_change ve del: app_step.simps)
  have num: "string_to_number ''1'' = Some 1" "string_to_number ''10000'' = Some 10000"
      "string_to_number ''5.7'' = Some 5.7"
    by (simp_all add: js_eval)
  have valid: "inputs_valid s3"
    by (simp add: inputs_valid_def errors_clear_def err inp js_ge_def num)
  have pz: "parse_or_zero (JStr ''10000'') = 10000" "parse_or_zero (JStr ''5.7'') = 5.7"
    by (simp_all add: js_eval)
  have r: "results s3 = Some (revenue_of_inputs (inputs s3))"
    using results_app_step_change [of s2 Rpm "''5.7''"] valid unfolding s3_def by blast
  have "revenue_of_inputs (inputs s3) = calculateRevenue (JNum 30) (JNum 10000) (JNum 5.7)"
    by (simp add: revenue_of_inputs_def inp js_mult_def num) (simp only: calculateRevenue_def pz parse_or_zero_num)
  then have "results s3 = Some (calculateRevenue (JNum 30) (JNum 10000) (JNum 5.7))" using r by simp
  moreover have "results app_mounted = Some (calculateRevenue (JNum 30) (JNum 10000) (JNum 5.7))"
    by (simp add: app_mounted_results revenue_of_inputs_def default_inputs_def)
  ultimately show ?thesis by (simp add: s1_def s2_def s3_def)
qed

end
