(* ===== verification/Dashboard.thy ===== *)
theory Dashboard
  imports Investment Allocation Revenue Format
begin

text \<open>
  The two result panels. \<open>src/src/components/RevenueAllocation.jsx\<close> keeps one
  piece of state, \<open>projectionYears\<close> (10 initially, set by the range slider
  through \<open>parseInt\<close>, so a JavaScript number or NaN: \<open>real option\<close> here),
  and derives from its \<open>monthlyRevenue\<close> prop the allocation, the projection
  (\<open>projections_for\<close>: \<open>projectInvestment\<close> with the default 7 percent; a NaN
  horizon makes the loop condition false and gives no snapshot), the latest
  snapshot with its fallback object, the growth percentage, the three allocation
  cards and the three series of the area chart with the tooltip's labels.
  \<open>src/src/components/ResultsDisplay.jsx\<close> lists the four stat cards (title,
  value, subtitle) and the four rows of its breakdown table, whose values are
  formatted with \<open>formatNumber\<close> and \<open>formatCurrency\<close> of theory \<open>Format\<close>.
\<close>

section \<open>RevenueAllocation\<close>

record alloc_panel =
  projectionYears :: "real option"

definition alloc_panel_init :: alloc_panel where
  "alloc_panel_init = \<lparr>projectionYears = Some 10\<rparr>"

datatype panel_event = SetProjectionYears string

text \<open>\<open>setProjectionYears(parseInt(e.target.value))\<close>.\<close>

fun panel_step :: "alloc_panel \<Rightarrow> panel_event \<Rightarrow> alloc_panel" where
  "panel_step st (SetProjectionYears v) =
     st\<lparr>projectionYears := map_option real_of_int (parse_int_str v)\<rparr>"

definition projections_for :: "amount \<Rightarrow> real option \<Rightarrow> snapshot list" where
  "projections_for monthlyRev years =
     (case years of
        None \<Rightarrow> []
      | Some y \<Rightarrow> projectInvestment_default (investment (calculateAllocation monthlyRev)) y)"

text \<open>The fields of \<open>latestProjection\<close> the panel reads.\<close>

record projection_summary =
  sumPrincipal :: amount
  sumValue :: amount
  sumReturns :: amount
  sumPassive :: amount

definition summary_of :: "snapshot \<Rightarrow> projection_summary" where
  "summary_of s =
     \<lparr>sumPrincipal = principal s, sumValue = value' s, sumReturns = returns s,
      sumPassive = monthlyPassiveIncome s\<rparr>"

definition latestProjection :: "snapshot list \<Rightarrow> projection_summary" where
  "latestProjection ps =
     (case ps of
        [] \<Rightarrow> \<lparr>sumPrincipal = 0, sumValue = 0, sumReturns = 0, sumPassive = 0\<rparr>
      | _ \<Rightarrow> summary_of (last ps))"

definition returnPercentage :: "projection_summary \<Rightarrow> jsval" where
  "returnPercentage l =
     (if 0 < sumPrincipal l then JStr (js_toFixed 0 ((sumReturns l / sumPrincipal l) * 100))
      else JNum 0)"

record alloc_card =
  title :: string
  percentage :: nat
  amount :: amount
  annualAmount :: amount
  description :: string

definition allocation_cards :: "allocation \<Rightarrow> alloc_card list" where
  "allocation_cards a =
     [\<lparr>title = ''Executive Salary'', percentage = 10, amount = salary a, annualAmount = salary a * 12,
       description = ''Personal living expenses, lifestyle maintenance, and immediate rewards.''\<rparr>,
      \<lparr>title = ''System Growth'', percentage = 5, amount = development a,
         annualAmount = development a * 12,
       description = ''Infrastructure, equipment upgrades, production software, and skill acquisition.''\<rparr>,
      \<lparr>title = ''Wealth Engine'', percentage = 85, amount = investment a,
         annualAmount = investment a * 12,
       description = ''Maximum compounding in diversified S&P 500 funds for generational wealth.''\<rparr>]"

text \<open>The three \<open>Area\<close> series: their data key and their name (the
  \<open>name\<close> prop, or the data key where the prop is absent, as recharts does).\<close>

record chart_series =
  dataKey :: string
  seriesName :: string

definition chart_areas :: "chart_series list" where
  "chart_areas =
     [\<lparr>dataKey = ''value'', seriesName = ''value''\<rparr>,
      \<lparr>dataKey = ''monthlyPassiveIncome'', seriesName = ''passive''\<rparr>,
      \<lparr>dataKey = ''principal'', seriesName = ''principal''\<rparr>]"

definition series_point :: "string \<Rightarrow> snapshot \<Rightarrow> amount option" where
  "series_point key s =
     (if key = ''value'' then Some (value' s)
      else if key = ''monthlyPassiveIncome'' then Some (monthlyPassiveIncome s)
      else if key = ''principal'' then Some (principal s)
      else None)"

text \<open>The label part of the tooltip's \<open>formatter\<close>.\<close>

definition tooltip_label :: "string \<Rightarrow> string" where
  "tooltip_label name = (if name = ''value'' then ''Total Wealth'' else ''Passive Income (4%)'')"

section \<open>ResultsDisplay\<close>

record stat_card =
  statTitle :: string
  numericValue :: amount
  subtitle :: string

definition stat_cards :: "revenue \<Rightarrow> stat_card list" where
  "stat_cards r =
     [\<lparr>statTitle = ''Daily Revenue'', numericValue = dailyRevenue r, subtitle = ''Avg. per day''\<rparr>,
      \<lparr>statTitle = ''Monthly Revenue'', numericValue = monthlyRevenue r, subtitle = ''Est. per month''\<rparr>,
      \<lparr>statTitle = ''Annual Revenue'', numericValue = annualRevenue r, subtitle = ''Yearly projection''\<rparr>,
      \<lparr>statTitle = ''Channel Value'', numericValue = totalChannelValue r,
         subtitle = ''Based on 2.5x annual''\<rparr>]"

text \<open>The rows of the table, with the values formatted as the code formats them.\<close>

definition breakdown_rows :: "currency \<Rightarrow> revenue \<Rightarrow> (string \<times> string) list" where
  "breakdown_rows cur r =
     [(''Total Monthly Views'', formatNumber (totalViews r)),
      (''Estimated Impressions'', formatNumber (impressions r)),
      (''Revenue per 1k Views'', formatCurrency (revenuePer1K r) cur),
      (''Effective RPM'', formatCurrency (effectiveRPM r) cur)]"

section \<open>Properties of the panels\<close>

lemma projections_for_unfold:
  "projections_for r (Some y) =
     map (year_snapshot (investment (calculateAllocation r)) (1 + 0.07 / 12)) [1..<Suc (nat \<lfloor>y\<rfloor>)]"
  by (simp add: projections_for_def projectInvestment_default_def projectInvestment_unfold)

lemma last_map_upt_Suc: "1 \<le> n \<Longrightarrow> last (map f [1..<Suc n]) = f n"
  by (simp add: last_map)

lemma latest_final_year:
  assumes "1 \<le> y"
  shows "latestProjection (projections_for r (Some y)) =
           summary_of (year_snapshot (investment (calculateAllocation r)) (1 + 0.07 / 12) (nat \<lfloor>y\<rfloor>))"
proof -
  have n: "1 \<le> nat \<lfloor>y\<rfloor>" using assms by linarith
  then have "projections_for r (Some y) \<noteq> []" by (simp add: projections_for_unfold)
  then have "latestProjection (projections_for r (Some y)) = summary_of (last (projections_for r (Some y)))"
    by (cases "projections_for r (Some y)") (simp_all add: latestProjection_def)
  then show ?thesis using n by (simp add: projections_for_unfold last_map_upt_Suc)
qed

text \<open>Claim C24. For a horizon of at least one year, the panel's figures (total
  capital, returns, passive income) are those of the snapshot of the last whole
  year: the compounded 85 percent of the monthly revenue at 7 percent.\<close>

theorem latestProjection_last_year:
  assumes "1 \<le> y"
  shows "latestProjection (projections_for r (Some y)) =
           \<lparr>sumPrincipal = 12 * real (nat \<lfloor>y\<rfloor>) * (r * 0.85),
            sumValue = compound_value (r * 0.85) (1 + 0.07 / 12) (12 * nat \<lfloor>y\<rfloor>),
            sumReturns = compound_value (r * 0.85) (1 + 0.07 / 12) (12 * nat \<lfloor>y\<rfloor>)
                           - 12 * real (nat \<lfloor>y\<rfloor>) * (r * 0.85),
            sumPassive = compound_value (r * 0.85) (1 + 0.07 / 12) (12 * nat \<lfloor>y\<rfloor>) * 0.04 / 12\<rparr>"
  using latest_final_year [OF assms] by (simp add: summary_of_def)

theorem latestProjection_last_year_witness:
  "sumPrincipal (latestProjection (projections_for 1710 (Some 10))) = 174420"
proof -
  have h: "(1::real) \<le> 10" by simp
  show ?thesis using latestProjection_last_year [OF h, of 1710] by simp
qed

text \<open>A horizon below one year, or a NaN horizon, leaves the panel on
  its fallback object: all figures zero and a growth of 0.\<close>

theorem latestProjection_fallback:
  assumes "years = None \<or> (\<exists>y. years = Some y \<and> y < 1)"
  shows "latestProjection (projections_for r years) =
           \<lparr>sumPrincipal = 0, sumValue = 0, sumReturns = 0, sumPassive = 0\<rparr> \<and>
         returnPercentage (latestProjection (projections_for r years)) = JNum 0"
proof -
  have "projections_for r years = []"
    using assms by (auto simp: projections_for_def projectInvestment_default_def projectInvestment_unfold)
  then show ?thesis by (simp add: latestProjection_def returnPercentage_def)
qed

theorem latestProjection_fallback_witness:
  "returnPercentage (latestProjection (projections_for 1710 (map_option real_of_int (parse_int_str ''abc''))))
     = JNum 0"
proof -
  have h: "map_option real_of_int (parse_int_str ''abc'') = None \<or>
           (\<exists>y. map_option real_of_int (parse_int_str ''abc'') = Some y \<and> y < 1)"
    by (simp add: js_eval)
  show ?thesis using latestProjection_fallback [OF h] by blast
qed

text \<open>For a positive monthly revenue and a horizon of a year or more,
  the \<open>GROWTH\<close> badge shows \<open>toFixed(0)\<close> of a non-negative percentage: the
  projection never reports a loss.\<close>

theorem returnPercentage_nonneg:
  assumes "0 < r" "1 \<le> y"
  shows "\<exists>p. 0 \<le> p \<and>
           returnPercentage (latestProjection (projections_for r (Some y))) = JStr (js_toFixed 0 p)"
proof -
  let ?c = "r * 0.85" and ?n = "nat \<lfloor>y\<rfloor>" and ?g = "1 + 0.07 / 12 :: real"
  have c: "0 < ?c" using assms(1) by simp
  have n: "1 \<le> ?n" using assms(2) by linarith
  have "0 < real ?n" using n by (subst of_nat_0_less_iff) (rule less_le_trans [OF zero_less_one])
  then have pp: "0 < 12 * real ?n * ?c" using c by simp
  have "real (12 * ?n) * ?c \<le> compound_value ?c ?g (12 * ?n)"
    using c by (intro compound_value_ge_principal) simp_all
  then have ret: "0 \<le> compound_value ?c ?g (12 * ?n) - 12 * real ?n * ?c" by simp
  have l: "latestProjection (projections_for r (Some y)) =
      summary_of (year_snapshot ?c ?g ?n)"
    using latest_final_year [OF assms(2), of r] by simp
  let ?p = "(compound_value ?c ?g (12 * ?n) - 12 * real ?n * ?c) / (12 * real ?n * ?c) * 100"
  show ?thesis
  proof (intro exI conjI)
    show "0 \<le> ?p" using pp ret by simp
    show "returnPercentage (latestProjection (projections_for r (Some y))) = JStr (js_toFixed 0 ?p)"
      using pp by (simp add: l summary_of_def returnPercentage_def del: compound_value.simps)
  qed
qed

theorem returnPercentage_nonneg_witness:
  "\<exists>p. 0 \<le> p \<and> returnPercentage (latestProjection (projections_for 1710 (Some 10))) = JStr (js_toFixed 0 p)"
proof -
  have h: "(0::real) < 1710" "(1::real) \<le> 10" by simp_all
  show ?thesis by (rule returnPercentage_nonneg [OF h])
qed

text \<open>The three allocation cards agree with their labels: their
  percentages add up to 100, each amount is its percentage of the monthly revenue,
  the amounts add up to the revenue and the annual amounts to twelve months of it.\<close>

theorem allocation_cards_consistent:
  "sum_list (map percentage (allocation_cards (calculateAllocation r))) = 100 \<and>
   map (\<lambda>c. 100 * amount c) (allocation_cards (calculateAllocation r)) =
     map (\<lambda>c. real (percentage c) * r) (allocation_cards (calculateAllocation r)) \<and>
   sum_list (map amount (allocation_cards (calculateAllocation r))) = r \<and>
   sum_list (map annualAmount (allocation_cards (calculateAllocation r))) = 12 * r"
  by (simp add: allocation_cards_def)

text \<open>Moving the slider to a whole number of years sets the horizon to
  it through \<open>parseInt\<close>, and the chart then has one point per year.\<close>

theorem slider_sets_horizon:
  "projectionYears (panel_step st (SetProjectionYears (nat_digits n))) = Some (real n) \<and>
   length (projections_for r (projectionYears (panel_step st (SetProjectionYears (nat_digits n))))) = n"
  by (simp add: parse_int_nat_digits projections_for_unfold)

text \<open>The four stat cards of the results show daily, monthly, annual
  revenue and channel value in the ratio 1 : 30 : 360 : 900, and the table's
  "Revenue per 1k Views" and "Effective RPM" rows always show the same text.\<close>

theorem stat_cards_ratios:
  "map numericValue (stat_cards (calculateRevenue a b c)) =
     map (\<lambda>k. k * dailyRevenue (calculateRevenue a b c)) [1, 30, 360, 900] \<and>
   snd (breakdown_rows cur (calculateRevenue a b c) ! 2) = snd (breakdown_rows cur (calculateRevenue a b c) ! 3)"
  by (simp add: stat_cards_def breakdown_rows_def calculateRevenue_fields)

end
