(* ===== verification/Theme.thy ===== *)
theory Theme
  imports Prelude
begin

text \<open>
  The colour theme of \<open>src/src/App.jsx\<close>. The component keeps one boolean,
  \<open>darkMode\<close>, initialised lazily from \<open>localStorage\<close> and the
  \<open>prefers-color-scheme\<close> media query (lines 11-17), mirrored into the class of
  the root element and back into \<open>localStorage\<close> by an effect (lines 19-27), and
  flipped by the header button (line 55). The browser is the record \<open>browser\<close>:
  the storage as a map from keys to strings, the operating-system preference,
  and whether the root element carries the class \<open>dark\<close>. Events are a click,
  a change of the operating-system preference (which the page does not listen
  to) and a reload of the page, which keeps the storage and starts a fresh
  document. The invariant \<open>theme_inv\<close> says that storage and class agree with
  \<open>darkMode\<close>; it holds in every reachable state, and from it follows that a
  reload restores the theme whatever the operating system prefers.
\<close>

record browser =
  storage :: "string \<rightharpoonup> string"
  prefersDark :: bool
  htmlDark :: bool

record theme_state =
  darkMode :: bool
  page :: browser

text \<open>\<open>!localStorage.getItem('theme')\<close>: \<open>null\<close> and the empty string are falsy.\<close>

definition item_falsy :: "string option \<Rightarrow> bool" where
  "item_falsy v = (v = None \<or> v = Some '''')"

text \<open>The lazy initialiser of \<open>useState\<close>; \<open>hasWindow\<close> is the test
  \<open>typeof window !== 'undefined'\<close>, false only when rendered outside a browser.\<close>

definition initial_darkMode :: "bool \<Rightarrow> browser \<Rightarrow> bool" where
  "initial_darkMode hasWindow b =
     (if hasWindow
      then storage b ''theme'' = Some ''dark'' \<or> (item_falsy (storage b ''theme'') \<and> prefersDark b)
      else False)"

text \<open>The effect on \<open>darkMode\<close>: \<open>classList.add/remove('dark')\<close>, then
  \<open>localStorage.setItem('theme', ...)\<close>.\<close>

definition theme_effect :: "theme_state \<Rightarrow> theme_state" where
  "theme_effect st =
     (if darkMode st
      then st\<lparr>page := (page st)\<lparr>htmlDark := True,
                                  storage := (storage (page st))(''theme'' \<mapsto> ''dark'')\<rparr>\<rparr>
      else st\<lparr>page := (page st)\<lparr>htmlDark := False,
                                  storage := (storage (page st))(''theme'' \<mapsto> ''light'')\<rparr>\<rparr>)"

text \<open>Mounting \<open>App\<close> in a fresh document: the root element has no class yet,
  the state is initialised, and the effect runs once after the first render.\<close>

definition theme_mount :: "browser \<Rightarrow> theme_state" where
  "theme_mount b =
     theme_effect \<lparr>darkMode = initial_darkMode True (b\<lparr>htmlDark := False\<rparr>),
                   page = b\<lparr>htmlDark := False\<rparr>\<rparr>"

text \<open>\<open>onClick={() => setDarkMode(!darkMode)}\<close>, followed by the effect.\<close>

definition toggle_dark :: "theme_state \<Rightarrow> theme_state" where
  "toggle_dark st = theme_effect (st\<lparr>darkMode := \<not> darkMode st\<rparr>)"

datatype theme_event = ToggleDark | SetOsPreference bool | Reload

fun theme_step :: "theme_state \<Rightarrow> theme_event \<Rightarrow> theme_state" where
  "theme_step st ToggleDark = toggle_dark st"
| "theme_step st (SetOsPreference d) = st\<lparr>page := (page st)\<lparr>prefersDark := d\<rparr>\<rparr>"
| "theme_step st Reload = theme_mount (page st)"

fun theme_run :: "theme_state \<Rightarrow> theme_event list \<Rightarrow> theme_state" where
  "theme_run st [] = st"
| "theme_run st (e # es) = theme_run (theme_step st e) es"

inductive theme_reachable :: "theme_state \<Rightarrow> bool" where
  mount: "theme_reachable (theme_mount b)"
| step: "theme_reachable st \<Longrightarrow> theme_reachable (theme_step st e)"

inductive_cases theme_reachable_cases: "theme_reachable st"

definition theme_inv :: "theme_state \<Rightarrow> bool" where
  "theme_inv st =
     (htmlDark (page st) = darkMode st \<and>
      storage (page st) ''theme'' = Some (if darkMode st then ''dark'' else ''light''))"

section \<open>Properties\<close>

lemma theme_effect_fields [simp]:
  "darkMode (theme_effect st) = darkMode st"
  "prefersDark (page (theme_effect st)) = prefersDark (page st)"
  "htmlDark (page (theme_effect st)) = darkMode st"
  "storage (page (theme_effect st)) ''theme'' = Some (if darkMode st then ''dark'' else ''light'')"
  by (simp_all add: theme_effect_def)

lemma theme_effect_inv: "theme_inv (theme_effect st)"
  by (simp add: theme_inv_def)

lemma theme_mount_inv: "theme_inv (theme_mount b)"
  by (simp add: theme_mount_def theme_effect_inv)

lemma theme_step_inv:
  assumes "theme_inv st"
  shows "theme_inv (theme_step st e)"
proof (cases e)
  case (SetOsPreference d)
  then show ?thesis using assms by (simp add: theme_inv_def)
qed (simp_all add: toggle_dark_def theme_effect_inv theme_mount_inv)

lemma theme_reachable_inv: "theme_reachable st \<Longrightarrow> theme_inv st"
  by (induction rule: theme_reachable.induct) (simp_all add: theme_mount_inv theme_step_inv)

lemma theme_mount_restores:
  "theme_inv st \<Longrightarrow> darkMode (theme_mount (page st)) = darkMode st"
  by (simp add: theme_inv_def theme_mount_def initial_darkMode_def item_falsy_def)

lemma theme_run_reachable: "theme_reachable st \<Longrightarrow> theme_reachable (theme_run st es)"
  by (induction es arbitrary: st) (simp_all add: theme_reachable.step)

lemmas theme_eval = theme_mount_def initial_darkMode_def item_falsy_def theme_effect_def
  toggle_dark_def theme_inv_def

lemma toggle_twice_inv:
  assumes "theme_inv st"
  shows "toggle_dark (toggle_dark st) = st"
proof -
  have s: "storage (page st) ''theme'' = Some (if darkMode st then ''dark'' else ''light'')"
    and h: "htmlDark (page st) = darkMode st" using assms by (simp_all add: theme_inv_def)
  have "(storage (page st))(''theme'' \<mapsto> (if darkMode st then ''dark'' else ''light'')) = storage (page st)"
    using s by (simp add: map_upd_triv)
  then show ?thesis using h
    by (cases "darkMode st") (simp_all add: toggle_dark_def theme_effect_def)
qed

text \<open>Claim C30. In every state reachable from a page load, by clicks, changes of
  the operating-system preference and reloads, the root element carries the class
  \<open>dark\<close> exactly when \<open>darkMode\<close> is set, and \<open>localStorage.theme\<close> holds
  \<open>'dark'\<close> or \<open>'light'\<close> accordingly.\<close>

theorem theme_mirrors_darkMode:
  assumes "theme_reachable st"
  shows "htmlDark (page st) = darkMode st \<and>
         storage (page st) ''theme'' = Some (if darkMode st then ''dark'' else ''light'')"
  using theme_reachable_inv [OF assms] by (simp add: theme_inv_def)

theorem theme_mirrors_darkMode_witness:
  "htmlDark (page (theme_run (theme_mount \<lparr>storage = Map.empty, prefersDark = True, htmlDark = False\<rparr>)
      [ToggleDark, Reload])) = False \<and>
   storage (page (theme_run (theme_mount \<lparr>storage = Map.empty, prefersDark = True, htmlDark = False\<rparr>)
      [ToggleDark, Reload])) ''theme'' = Some ''light''"
proof -
  let ?st = "theme_run (theme_mount \<lparr>storage = Map.empty, prefersDark = True, htmlDark = False\<rparr>)
      [ToggleDark, Reload]"
  have r: "theme_reachable ?st" by (intro theme_run_reachable theme_reachable.mount)
  have d: "darkMode ?st = False" by (simp add: theme_eval)
  show ?thesis using theme_mirrors_darkMode [OF r] d by simp
qed

text \<open>The theme survives a reload: whatever the operating-system
  preference becomes in between, the reloaded page starts in the mode the user
  left, since the effect has written it to \<open>localStorage\<close>.\<close>

theorem theme_reload_persists:
  assumes "theme_reachable st"
  shows "darkMode (theme_run st [SetOsPreference d, Reload]) = darkMode st"
proof -
  have "theme_inv (theme_step st (SetOsPreference d))"
    using theme_reachable_inv [OF assms] by (rule theme_step_inv)
  from theme_mount_restores [OF this] show ?thesis by simp
qed

theorem theme_reload_persists_witness:
  "darkMode (theme_run (theme_mount \<lparr>storage = Map.empty, prefersDark = False, htmlDark = False\<rparr>)
     [SetOsPreference True, Reload]) = False"
proof -
  have r: "theme_reachable (theme_mount \<lparr>storage = Map.empty, prefersDark = False, htmlDark = False\<rparr>)"
    by (rule theme_reachable.mount)
  show ?thesis using theme_reload_persists [OF r, of True] by (simp add: theme_eval)
qed

text \<open>On loading the page the theme is dark exactly when the stored
  value is \<open>'dark'\<close>, or when nothing (or the empty string) is stored and the
  operating system prefers dark; any other stored value, \<open>'light'\<close> or an
  unrecognised one, gives the light theme.\<close>

theorem theme_mount_darkMode:
  "darkMode (theme_mount b) =
     (case storage b ''theme'' of
        None \<Rightarrow> prefersDark b
      | Some v \<Rightarrow> v = ''dark'' \<or> (v = [] \<and> prefersDark b))"
  by (cases "storage b ''theme''") (auto simp: theme_mount_def initial_darkMode_def item_falsy_def)

text \<open>Clicking the theme button twice returns the page to exactly the
  state it was in, storage and root class included.\<close>

theorem theme_toggle_twice:
  assumes "theme_reachable st"
  shows "theme_run st [ToggleDark, ToggleDark] = st"
  using toggle_twice_inv [OF theme_reachable_inv [OF assms]] by simp

theorem theme_toggle_twice_witness:
  "theme_run (theme_mount \<lparr>storage = [''theme'' \<mapsto> ''dark''], prefersDark = False, htmlDark = True\<rparr>)
     [ToggleDark, ToggleDark] =
   theme_mount \<lparr>storage = [''theme'' \<mapsto> ''dark''], prefersDark = False, htmlDark = True\<rparr>"
  by (rule theme_toggle_twice [OF theme_reachable.mount])

end
