(* ===== verification/ServiceWorker.thy ===== *)
theory ServiceWorker
  imports Prelude "HOL-Library.AList"
begin

text \<open>
  The service worker \<open>src/public/sw.js\<close>. On \<open>install\<close> it opens the cache
  \<open>creatorcalc-v1\<close> and adds the six application-shell URLs of \<open>ASSETS\<close> with
  \<open>cache.addAll\<close>; on \<open>fetch\<close> it answers from any cache that holds the request
  (\<open>caches.match\<close>) and otherwise from the network. The network is a function
  from URLs to responses, \<open>None\<close> for a request that fails (offline); the origin's
  \<open>CacheStorage\<close> is an association list of named caches in creation order (the
  order in which \<open>caches.match\<close> searches them), each cache an association list
  from URLs to responses. \<open>addAll\<close> fetches every URL and stores all the
  responses only if each fetch succeeded with an ok status; otherwise it stores
  nothing and the install fails, so the worker never activates. The fetch handler
  never writes to a cache.
\<close>

type_synonym url = string

datatype response = Response (status: nat) (body: string)

type_synonym network = "url \<Rightarrow> response option"
type_synonym cache = "(url \<times> response) list"

record sw_state =
  caches :: "(string \<times> cache) list"
  active :: bool

definition CACHE_NAME :: string where
  "CACHE_NAME = ''creatorcalc-v1''"

definition ASSETS :: "url list" where
  "ASSETS = [''/'', ''/index.html'', ''/manifest.json'', ''/logo192.png'', ''/logo512.png'',
             ''/apple-touch-icon.png'']"

text \<open>\<open>response.ok\<close>: a status in the range 200-299.\<close>

definition resp_ok :: "response \<Rightarrow> bool" where
  "resp_ok r = (200 \<le> status r \<and> status r \<le> 299)"

text \<open>\<open>caches.open(name)\<close>: the named cache, created empty (at the end of the
  creation order) when absent.\<close>

definition caches_open :: "string \<Rightarrow> sw_state \<Rightarrow> sw_state" where
  "caches_open n st =
     (if n \<in> set (map fst (caches st)) then st else st\<lparr>caches := caches st @ [(n, [])]\<rparr>)"

text \<open>The fetches of \<open>cache.addAll\<close>: all responses, or \<open>None\<close> when one request
  fails or answers with a status that is not ok.\<close>

fun fetch_all :: "network \<Rightarrow> url list \<Rightarrow> response list option" where
  "fetch_all net [] = Some []"
| "fetch_all net (u # us) =
     (case net u of
        Some r \<Rightarrow> if resp_ok r then map_option (Cons r) (fetch_all net us) else None
      | None \<Rightarrow> None)"

text \<open>\<open>cache.put\<close> of every fetched response.\<close>

fun put_all :: "cache \<Rightarrow> url list \<Rightarrow> response list \<Rightarrow> cache" where
  "put_all c (u # us) (r # rs) = put_all (AList.update u r c) us rs"
| "put_all c _ _ = c"

definition cache_addAll :: "network \<Rightarrow> string \<Rightarrow> url list \<Rightarrow> sw_state \<Rightarrow> sw_state option" where
  "cache_addAll net n us st =
     (case fetch_all net us of
        None \<Rightarrow> None
      | Some rs \<Rightarrow> Some (st\<lparr>caches := AList.map_entry n (\<lambda>c. put_all c us rs) (caches st)\<rparr>))"

text \<open>The \<open>install\<close> listener with \<open>event.waitUntil\<close>: the worker activates only
  when the promise resolves; the cache opened before a failed \<open>addAll\<close> stays.\<close>

definition sw_install :: "network \<Rightarrow> sw_state \<Rightarrow> sw_state" where
  "sw_install net st =
     (let st1 = caches_open CACHE_NAME st in
      case cache_addAll net CACHE_NAME ASSETS st1 of
        None \<Rightarrow> st1
      | Some st2 \<Rightarrow> st2\<lparr>active := True\<rparr>)"

text \<open>\<open>caches.match(request)\<close>: the first cache, in creation order, holding it.\<close>

fun caches_match :: "(string \<times> cache) list \<Rightarrow> url \<Rightarrow> response option" where
  "caches_match [] u = None"
| "caches_match ((n, c) # cs) u = (case map_of c u of Some r \<Rightarrow> Some r | None \<Rightarrow> caches_match cs u)"

text \<open>The \<open>fetch\<close> listener: \<open>response || fetch(event.request)\<close>. A page request
  reaches it only once the worker is active; before, it goes to the network.\<close>

definition sw_fetch :: "network \<Rightarrow> sw_state \<Rightarrow> url \<Rightarrow> response option" where
  "sw_fetch net st u =
     (if active st then (case caches_match (caches st) u of Some r \<Rightarrow> Some r | None \<Rightarrow> net u)
      else net u)"

definition sw_init :: sw_state where
  "sw_init = \<lparr>caches = [], active = False\<rparr>"

text \<open>The origin's life: installs of the worker against the network of the
  moment, and page requests, which leave the caches as they are.\<close>

datatype sw_event = Install network | Request url

fun sw_step :: "sw_state \<Rightarrow> sw_event \<Rightarrow> sw_state" where
  "sw_step st (Install net) = sw_install net st"
| "sw_step st (Request u) = st"

inductive sw_reachable :: "sw_state \<Rightarrow> bool" where
  init: "sw_reachable sw_init"
| step: "sw_reachable st \<Longrightarrow> sw_reachable (sw_step st e)"

text \<open>Every asset answered, with an ok status.\<close>

definition all_ok :: "network \<Rightarrow> url list \<Rightarrow> bool" where
  "all_ok net us = (\<forall>u\<in>set us. \<exists>r. net u = Some r \<and> resp_ok r)"

definition sw_inv :: "sw_state \<Rightarrow> bool" where
  "sw_inv st =
     (caches st = [] \<and> \<not> active st \<or>
      (\<exists>c. caches st = [(CACHE_NAME, c)] \<and> fst ` set c \<subseteq> set ASSETS \<and>
           (active st \<longrightarrow> set ASSETS \<subseteq> fst ` set c)))"

section \<open>Properties\<close>

lemma fetch_all_ok: "all_ok net us \<Longrightarrow> fetch_all net us = Some (map (\<lambda>u. the (net u)) us)"
  by (induction us) (auto simp: all_ok_def)

lemma fetch_all_fail: "\<not> all_ok net us \<Longrightarrow> fetch_all net us = None"
  by (induction us) (auto simp: all_ok_def split: option.split)

lemma map_of_put_all:
  "map_of (put_all c us (map f us)) u = (if u \<in> set us then Some (f u) else map_of c u)"
  by (induction us arbitrary: c) (simp_all add: update_conv')

lemma keys_put_all: "fst ` set (put_all c us rs) \<subseteq> fst ` set c \<union> set us"
proof (induction c us rs rule: put_all.induct)
  case (1 c u us r rs)
  then show ?case using dom_update [of u r c] by auto
qed simp_all

lemma caches_open_inv:
  "sw_inv st \<Longrightarrow> \<exists>c. caches (caches_open CACHE_NAME st) = [(CACHE_NAME, c)] \<and>
     fst ` set c \<subseteq> set ASSETS \<and> (active st \<longrightarrow> set ASSETS \<subseteq> fst ` set c) \<and>
     active (caches_open CACHE_NAME st) = active st"
  by (auto simp: sw_inv_def caches_open_def)

lemma sw_install_ok:
  assumes "sw_inv st" "all_ok net ASSETS"
  shows "\<exists>c. caches (sw_install net st) = [(CACHE_NAME, put_all c ASSETS (map (\<lambda>u. the (net u)) ASSETS))] \<and>
             fst ` set c \<subseteq> set ASSETS \<and> active (sw_install net st)"
proof -
  obtain c where c: "caches (caches_open CACHE_NAME st) = [(CACHE_NAME, c)]" "fst ` set c \<subseteq> set ASSETS"
    using caches_open_inv [OF assms(1)] by blast
  show ?thesis using c
    by (intro exI [of _ c]) (simp add: sw_install_def cache_addAll_def fetch_all_ok [OF assms(2)])
qed

lemma sw_install_fail:
  "\<not> all_ok net ASSETS \<Longrightarrow> sw_install net st = caches_open CACHE_NAME st"
  by (simp add: sw_install_def cache_addAll_def fetch_all_fail)

lemma sw_install_inv:
  assumes "sw_inv st"
  shows "sw_inv (sw_install net st)"
proof (cases "all_ok net ASSETS")
  case True
  then obtain c where c: "caches (sw_install net st) = [(CACHE_NAME, put_all c ASSETS (map (\<lambda>u. the (net u)) ASSETS))]"
      "fst ` set c \<subseteq> set ASSETS" "active (sw_install net st)"
    using sw_install_ok [OF assms] by blast
  have "set ASSETS \<subseteq> fst ` set (put_all c ASSETS (map (\<lambda>u. the (net u)) ASSETS))"
  proof
    fix u assume "u \<in> set ASSETS"
    then have "map_of (put_all c ASSETS (map (\<lambda>u. the (net u)) ASSETS)) u \<noteq> None"
      by (simp add: map_of_put_all)
    then show "u \<in> fst ` set (put_all c ASSETS (map (\<lambda>u. the (net u)) ASSETS))"
      by (simp add: map_of_eq_None_iff)
  qed
  moreover have "fst ` set (put_all c ASSETS (map (\<lambda>u. the (net u)) ASSETS)) \<subseteq> set ASSETS"
    using keys_put_all [of c ASSETS] c(2) by blast
  ultimately show ?thesis using c by (simp add: sw_inv_def)
next
  case False
  then show ?thesis using caches_open_inv [OF assms] by (auto simp: sw_install_fail sw_inv_def)
qed

lemma sw_reachable_inv: "sw_reachable st \<Longrightarrow> sw_inv st"
proof (induction rule: sw_reachable.induct)
  case init
  then show ?case by (simp add: sw_inv_def sw_init_def)
next
  case (step st e)
  then show ?case by (cases e) (simp_all add: sw_install_inv)
qed

lemma caches_match_single: "caches_match [(n, c)] u = map_of c u"
  by (simp split: option.split)

lemma sw_fetch_cached:
  assumes "sw_inv st" "active st" "u \<in> set ASSETS"
  shows "\<exists>r. sw_fetch net st u = Some r \<and> caches_match (caches st) u = Some r"
proof -
  obtain c where c: "caches st = [(CACHE_NAME, c)]" "set ASSETS \<subseteq> fst ` set c"
    using assms(1,2) by (auto simp: sw_inv_def)
  then have "map_of c u \<noteq> None" using assms(3) by (auto simp: map_of_eq_None_iff)
  then show ?thesis using c assms(2) by (auto simp: sw_fetch_def caches_match_single)
qed

text \<open>Claim C31. An install whose six asset requests all succeed activates the
  worker, and from then on every asset is answered with the response fetched at
  install time, whatever the network does later: offline, or after a new
  deployment changed the files.\<close>

theorem sw_serves_installed_assets:
  assumes "sw_reachable st" "\<forall>u\<in>set ASSETS. \<exists>r. net u = Some r \<and> resp_ok r"
  shows "active (sw_install net st) \<and> (\<forall>u\<in>set ASSETS. sw_fetch net' (sw_install net st) u = net u)"
proof -
  have ok: "all_ok net ASSETS" using assms(2) by (simp add: all_ok_def)
  obtain c where c: "caches (sw_install net st) = [(CACHE_NAME, put_all c ASSETS (map (\<lambda>u. the (net u)) ASSETS))]"
      "active (sw_install net st)"
    using sw_install_ok [OF sw_reachable_inv [OF assms(1)] ok] by blast
  have "sw_fetch net' (sw_install net st) u = net u" if "u \<in> set ASSETS" for u
    using c that assms(2) by (auto simp: sw_fetch_def caches_match_single map_of_put_all)
  then show ?thesis using c(2) by blast
qed

theorem sw_serves_installed_assets_witness:
  "active (sw_install (\<lambda>u. Some (Response 200 u)) sw_init) \<and>
   sw_fetch (\<lambda>u. None) (sw_install (\<lambda>u. Some (Response 200 u)) sw_init) ''/index.html'' =
     Some (Response 200 ''/index.html'')"
proof -
  have h: "\<forall>u\<in>set ASSETS. \<exists>r. (\<lambda>u. Some (Response 200 u)) u = Some r \<and> resp_ok r"
    by (simp add: resp_ok_def)
  show ?thesis
    using sw_serves_installed_assets [OF sw_reachable.init h, of "\<lambda>u. None"] by (simp add: ASSETS_def)
qed

text \<open>Claim C32. \<open>addAll\<close> is atomic: when one asset request fails or is not ok,
  the install stores nothing (only the empty cache \<open>caches.open\<close> created
  remains) and the worker is not activated by it.\<close>

theorem sw_install_atomic:
  assumes "u \<in> set ASSETS" "\<not> (\<exists>r. net u = Some r \<and> resp_ok r)"
  shows "sw_install net st = caches_open CACHE_NAME st"
proof -
  have "\<not> all_ok net ASSETS" using assms by (auto simp: all_ok_def)
  then show ?thesis by (rule sw_install_fail)
qed

theorem sw_install_atomic_witness:
  "sw_install (\<lambda>u. if u = ''/logo512.png'' then Some (Response 404 []) else Some (Response 200 u)) sw_init =
   \<lparr>caches = [(CACHE_NAME, [])], active = False\<rparr>"
proof -
  let ?net = "\<lambda>u. if u = ''/logo512.png'' then Some (Response 404 []) else Some (Response 200 u)"
  have h: "''/logo512.png'' \<in> set ASSETS" "\<not> (\<exists>r. ?net ''/logo512.png'' = Some r \<and> resp_ok r)"
    by (simp_all add: ASSETS_def resp_ok_def)
  show ?thesis
    using sw_install_atomic [of "''/logo512.png''" ?net sw_init, OF h] by (simp add: caches_open_def sw_init_def)
qed

text \<open>Claim C33. Only the six listed URLs are ever cached: any other request,
  such as the script and style bundles the built \<open>index.html\<close> loads, goes to
  the network in every reachable state, so offline it fails.\<close>

theorem sw_other_requests_use_network:
  assumes "sw_reachable st" "u \<notin> set ASSETS"
  shows "sw_fetch net st u = net u"
proof -
  have "caches_match (caches st) u = None"
    using sw_reachable_inv [OF assms(1)] assms(2)
    by (auto simp: sw_inv_def map_of_eq_None_iff split: option.split)
  then show ?thesis by (simp add: sw_fetch_def)
qed

theorem sw_other_requests_use_network_witness:
  "sw_fetch (\<lambda>u. None) (sw_install (\<lambda>u. Some (Response 200 u)) sw_init) ''/assets/index.js'' = None"
proof -
  have r: "sw_reachable (sw_install (\<lambda>u. Some (Response 200 u)) sw_init)"
    using sw_reachable.step [OF sw_reachable.init, of "Install (\<lambda>u. Some (Response 200 u))"] by simp
  have u: "''/assets/index.js'' \<notin> set ASSETS" by (simp add: ASSETS_def)
  show ?thesis using sw_other_requests_use_network [OF r u] by simp
qed

text \<open>Claim C34. Once the worker is active, the answer to an asset request never
  depends on the network: it is the same online, offline or after a new
  deployment, for as long as the cache name stays \<open>creatorcalc-v1\<close>.\<close>

theorem sw_assets_ignore_network:
  assumes "sw_reachable st" "active st" "u \<in> set ASSETS"
  shows "sw_fetch net st u = sw_fetch net' st u \<and> sw_fetch net st u \<noteq> None"
  using sw_fetch_cached [OF sw_reachable_inv [OF assms(1)] assms(2,3), of net]
    sw_fetch_cached [OF sw_reachable_inv [OF assms(1)] assms(2,3), of net'] by auto

theorem sw_assets_ignore_network_witness:
  "sw_fetch (\<lambda>u. Some (Response 200 ''new'')) (sw_install (\<lambda>u. Some (Response 200 ''old'')) sw_init) ''/'' =
   Some (Response 200 ''old'')"
proof -
  let ?st = "sw_install (\<lambda>u. Some (Response 200 ''old'')) sw_init"
  have r: "sw_reachable ?st"
    using sw_reachable.step [OF sw_reachable.init, of "Install (\<lambda>u. Some (Response 200 ''old''))"] by simp
  have a: "active ?st" and u: "''/'' \<in> set ASSETS"
    by (simp_all add: sw_install_def cache_addAll_def caches_open_def sw_init_def ASSETS_def resp_ok_def)
  have "sw_fetch (\<lambda>u. None) ?st ''/'' = Some (Response 200 ''old'')"
    by (simp add: sw_fetch_def sw_install_def cache_addAll_def caches_open_def sw_init_def ASSETS_def
        resp_ok_def CACHE_NAME_def)
  then show ?thesis using sw_assets_ignore_network [OF r a u, of "\<lambda>u. Some (Response 200 ''new'')" "\<lambda>u. None"]
    by simp
qed

end
