(* ===== verification/View.thy ===== *)
theory View
  imports Calculator Dashboard Theme
begin

text \<open>
  What the page shows. The JSX of the components is translated into the texts
  and values each element renders, in document order; class names, icons,
  layout and animation are left out. The stat cards show
  \<open>formatter(value)\<close>: theory \<open>Counter\<close> shows that their \<open>AnimatedCounter\<close> is
  remounted on every new value and shows it from the first frame. The texts
  use the formatters of theory \<open>Format\<close>.
\<close>

section \<open>Calculator.jsx\<close>

definition currency_code :: "currency \<Rightarrow> string" where
  "currency_code c = (case c of THB \<Rightarrow> ''THB'' | USD \<Rightarrow> ''USD'')"

text \<open>\<open>{error && ...}\<close> in \<open>InputField\<close>: an absent or empty message shows nothing.\<close>

definition error_shown :: "string option \<Rightarrow> string option" where
  "error_shown e = (case e of None \<Rightarrow> None | Some msg \<Rightarrow> if msg = [] then None else Some msg)"

record field_view =
  fieldLabel :: string
  fieldValue :: jsval
  fieldError :: "string option"
  fieldMin :: "nat option"
  fieldMax :: "nat option"
  fieldStep :: "real option"

text \<open>\<open>InputField\<close> (lines 12-51) for the three inputs of lines 158-183: its
  label, the \<open>value\<close>, \<open>min\<close>, \<open>max\<close> and \<open>step\<close> of the \<open><input>\<close>, and the
  message shown under it.\<close>

definition form_view :: "app_state \<Rightarrow> field_view list" where
  "form_view st =
     [\<lparr>fieldLabel = ''Videos per Day'', fieldValue = videosPerDay (inputs st),
       fieldError = error_shown (errors st VideosPerDay), fieldMin = Some 0, fieldMax = None,
       fieldStep = None\<rparr>,
      \<lparr>fieldLabel = ''Avg Views per Video'', fieldValue = averageViews (inputs st),
       fieldError = error_shown (errors st AverageViews), fieldMin = Some 0, fieldMax = None,
       fieldStep = None\<rparr>,
      \<lparr>fieldLabel = ''RPM ('' @ currency_code (currency st) @ '')'', fieldValue = rpm (inputs st),
       fieldError = error_shown (errors st Rpm), fieldMin = Some 0, fieldMax = Some 1000,
       fieldStep = Some 0.01\<rparr>]"

text \<open>The two currency buttons (lines 139-153): their caption and whether they
  are highlighted as the current currency.\<close>

definition currency_buttons :: "currency \<Rightarrow> (string \<times> bool) list" where
  "currency_buttons cur = map (\<lambda>c. (currency_code c, c = cur)) [THB, USD]"

section \<open>ResultsDisplay.jsx\<close>

text \<open>\<open>StatCard\<close> (lines 7-50) at rest.\<close>

definition stat_card_view :: "currency \<Rightarrow> stat_card \<Rightarrow> string list" where
  "stat_card_view cur s = [statTitle s, formatCurrency (numericValue s) cur, ''GROWTH'', subtitle s]"

text \<open>\<open>ResultsDisplay\<close> (lines 52-120): \<open>null\<close> without results, otherwise the stat
  cards and the table.\<close>

definition results_display_view :: "currency \<Rightarrow> revenue option \<Rightarrow> string list option" where
  "results_display_view cur res =
     (case res of
        None \<Rightarrow> None
      | Some r \<Rightarrow>
          Some (concat (map (stat_card_view cur) (stat_cards r)) @
                [''Analytics Deep-Dive'', ''Metric Category'', ''Optimized Value''] @
                concat (map (\<lambda>(l, v). [l, v]) (breakdown_rows cur r))))"

section \<open>RevenueAllocation.jsx\<close>

text \<open>\<open>AllocationCard\<close> (lines 16-44): the percentage, the title, the
  description, the monthly amount with \<open>/mo\<close> and the annual amount with
  \<open>ANNUAL\<close>.\<close>

definition allocation_card_view :: "currency \<Rightarrow> alloc_card \<Rightarrow> string list" where
  "allocation_card_view cur c =
     [nat_digits (percentage c) @ ''%'', title c, description c, formatCurrency (amount c) cur @ ''/mo'',
      formatCurrency (annualAmount c) cur @ '' ANNUAL'']"

text \<open>\<open>+{returnPercentage}% GROWTH\<close>: \<open>returnPercentage\<close> is a \<open>toFixed\<close> string
  or the number 0, rendered \<open>0\<close>.\<close>

definition growth_text :: "jsval \<Rightarrow> string" where
  "growth_text v = (case v of JStr s \<Rightarrow> s | _ \<Rightarrow> ''0'')"

text \<open>The summary beside the chart (lines 215-238).\<close>

definition projection_panel_view :: "currency \<Rightarrow> projection_summary \<Rightarrow> string list" where
  "projection_panel_view cur l =
     [''Passive Income (4% Rule)'', formatCurrency (sumPassive l) cur @ ''/mo'',
      ''Market Performance (7% Yield)'', ''+'' @ formatCurrency (sumReturns l) cur,
      ''Total Capital Value'', ''+'' @ growth_text (returnPercentage l) @ ''% GROWTH'',
      formatCurrency (sumValue l) cur]"

text \<open>The time-horizon badge, \<open>{projectionYears} Years\<close> (line 132).\<close>

definition horizon_label :: "alloc_panel \<Rightarrow> string option" where
  "horizon_label st = map_option (\<lambda>s. s @ '' Years'') (js_string_of (projectionYears st))"

text \<open>The category labels of the \<open>XAxis\<close> with \<open>dataKey="year"\<close> (line 157):
  the \<open>year\<close> of each point, as a string.\<close>

definition xaxis_labels :: "snapshot list \<Rightarrow> string option list" where
  "xaxis_labels ps = map (\<lambda>s. js_number_string (real (year s))) ps"

text \<open>The \<open>YAxis\<close>'s \<open>tickFormatter\<close> (line 164), with the baht sign of the
  source as its UTF-8 bytes.\<close>

definition yaxis_tick :: "currency \<Rightarrow> real \<Rightarrow> string option" where
  "yaxis_tick cur val =
     map_option (\<lambda>s. (if cur = THB then map char_of [224::nat, 184, 191] else ''$'') @ s @ ''k'')
       (js_number_string (val / 1000))"

text \<open>The \<open>Tooltip\<close> (lines 166-182): \<open>labelFormatter\<close> gives its title,
  \<open>formatter\<close> one row per series, the formatted value and its label.\<close>

definition tooltip_item :: "currency \<Rightarrow> amount \<Rightarrow> string \<Rightarrow> string list" where
  "tooltip_item cur v name = [formatCurrency v cur, tooltip_label name]"

definition tooltip_title :: "nat \<Rightarrow> string option" where
  "tooltip_title y = map_option (\<lambda>s. ''Year '' @ s @ '' Projection'') (js_number_string (real y))"

definition tooltip_view :: "currency \<Rightarrow> snapshot \<Rightarrow> string option \<times> string list list" where
  "tooltip_view cur s =
     (tooltip_title (year s),
      map (\<lambda>a. case series_point (dataKey a) s of None \<Rightarrow> [] | Some v \<Rightarrow> tooltip_item cur v (seriesName a))
        chart_areas)"

section \<open>App.jsx\<close>

datatype panel = ShowResults revenue | ShowAllocation amount

text \<open>\<open>{results && (...)}\<close> (lines 100-119): the two result panels, the
  allocation panel fed with \<open>results.monthlyRevenue\<close>.\<close>

definition app_panels :: "app_state \<Rightarrow> panel list" where
  "app_panels st =
     (case results st of None \<Rightarrow> [] | Some r \<Rightarrow> [ShowResults r, ShowAllocation (monthlyRevenue r)])"

text \<open>The header's currency badge and theme button icon (lines 45-63).\<close>

definition header_view :: "currency \<Rightarrow> bool \<Rightarrow> string list" where
  "header_view cur dark = [''Live Rates: '' @ currency_code cur, if dark then ''Sun'' else ''Moon'']"

section \<open>Properties\<close>

lemma app_step_reset:
  "inputs (app_step st ResetDefaults) = default_inputs"
  "errors (app_step st ResetDefaults) = errors st"
  by (simp_all add: handlers_errors)

lemma results_calc_effect_invalid: "\<not> inputs_valid s \<Longrightarrow> results (calc_effect s) = results s"
  by (simp add: calc_effect_invalid)

lemma invalid_after_error:
  "validate_error f v \<noteq> [] \<Longrightarrow> errors s f = Some (validate_error f v) \<Longrightarrow> \<not> inputs_valid s"
  by (cases f) (simp_all add: inputs_valid_def errors_clear_def)

text \<open>Claim C5. Once the page is mounted it always shows its results: in every
  reachable state \<open>App\<close> renders \<open>ResultsDisplay\<close> (which does not return
  \<open>null\<close>) and \<open>RevenueAllocation\<close> fed with the displayed monthly revenue.\<close>

theorem page_always_shows_panels:
  assumes "reachable st"
  shows "\<exists>r. results st = Some r \<and> app_panels st = [ShowResults r, ShowAllocation (monthlyRevenue r)] \<and>
             results_display_view (currency st) (results st) \<noteq> None"
proof -
  obtain r where "results st = Some r"
    using reachable_results_inv [OF assms] by (auto simp: results_inv_def)
  then show ?thesis by (simp add: app_panels_def results_display_view_def)
qed

theorem page_always_shows_panels_witness:
  "app_panels (app_run app_mounted [Change Rpm ''-1'']) =
     [ShowResults (revenue_of_inputs default_inputs),
      ShowAllocation (monthlyRevenue (revenue_of_inputs default_inputs))]"
proof -
  have r: "reachable (app_run app_mounted [Change Rpm ''-1''])"
    by (simp add: reachable_app_run reachable.mounted del: app_run.simps)
  have e: "validate_error Rpm ''-1'' \<noteq> []"
    by (simp add: validate_error_def num_lt_def num_gt_def js_eval)
  have "errors (app_run app_mounted [Change Rpm ''-1'']) Rpm = Some (validate_error Rpm ''-1'')"
    by (simp add: app_step_change del: app_step.simps)
  then have "\<not> inputs_valid (app_step app_mounted (Change Rpm ''-1''))"
    using invalid_after_error [OF e] by simp
  then have "results (app_run app_mounted [Change Rpm ''-1'']) = Some (revenue_of_inputs default_inputs)"
    by (simp add: results_calc_effect_invalid app_mounted_results)
  then show ?thesis using page_always_shows_panels [OF r] by auto
qed

text \<open>Claim C7. After an invalid entry, Reset Defaults puts the default figures
  back into the form but the validation message stays under the field, and the
  results on screen are still those from before the invalid entry.\<close>

theorem reset_shows_stale_error:
  assumes "validate_error f v \<noteq> []"
  shows "map fieldValue (form_view (app_run st [Change f v, ResetDefaults])) = [JNum 1, JNum 10000, JNum 5.7] \<and>
         map fieldError (form_view (app_run st [Change f v, ResetDefaults])) =
           map (\<lambda>g. error_shown (((errors st)(f \<mapsto> validate_error f v)) g)) [VideosPerDay, AverageViews, Rpm] \<and>
         error_shown (errors (app_run st [Change f v, ResetDefaults]) f) = Some (validate_error f v) \<and>
         results (app_run st [Change f v, ResetDefaults]) = results st"
proof -
  define s1 where "s1 = app_step st (Change f v)"
  have e1: "errors s1 = (errors st)(f \<mapsto> validate_error f v)"
    by (simp add: s1_def app_step_change del: app_step.simps)
  have inv1: "\<not> inputs_valid s1" using invalid_after_error [OF assms] e1 by simp
  have r1: "results s1 = results st"
    using inv1 by (simp add: s1_def results_calc_effect_invalid)
  have "\<not> inputs_valid (handleReset s1)"
    using invalid_after_error [OF assms] e1 by (simp add: handlers_errors)
  then have s2: "app_run st [Change f v, ResetDefaults] = handleReset s1"
    by (simp add: s1_def [symmetric] calc_effect_invalid del: app_step.simps) (simp add: calc_effect_invalid)
  show ?thesis
    unfolding s2 using assms e1 r1
    by (simp add: form_view_def handlers_errors default_inputs_def error_shown_def)
qed

theorem reset_shows_stale_error_witness:
  "map fieldError (form_view (app_run app_mounted [Change Rpm ''-1'', ResetDefaults])) =
     [None, None, Some ''RPM cannot be negative''] \<and>
   map fieldValue (form_view (app_run app_mounted [Change Rpm ''-1'', ResetDefaults])) =
     [JNum 1, JNum 10000, JNum 5.7]"
proof -
  have e: "validate_error Rpm ''-1'' = ''RPM cannot be negative''"
    by (simp add: validate_error_def num_lt_def num_gt_def js_eval)
  then have h: "validate_error Rpm ''-1'' \<noteq> []" by simp
  have m: "errors app_mounted = Map.empty" by (simp add: app_mounted_def app_init_def)
  show ?thesis using reset_shows_stale_error [OF h, of app_mounted] e m by (simp add: error_shown_def)
qed

text \<open>Claim C27. The chart's value axis labels a tick with the currency's
  symbol, as \<open>formatCurrency\<close> writes it, followed by the tick in thousands and
  \<open>k\<close>; the number in the label reads back as the tick divided by 1000.\<close>

theorem yaxis_tick_reads_back:
  assumes "decimal_places (val / 1000) = Some k" "\<bar>val\<bar> < 10 ^ 24"
  shows "\<exists>s. yaxis_tick cur val = Some (currency_symbol cur @ s @ ''k'') \<and>
             parse_float_str s = Some (val / 1000)"
proof -
  have "\<bar>val / 1000\<bar> < 10 ^ 21" using assms(2) by simp
  then have j: "js_number_string (val / 1000) = Some (js_toFixed k (val / 1000))"
    using assms(1) by (simp add: js_number_string_def)
  then have "parse_float_str (js_toFixed k (val / 1000)) = Some (val / 1000)"
    by (rule js_number_string_reads_back)
  then show ?thesis using j by (cases cur) (auto simp: yaxis_tick_def currency_symbol_def)
qed

theorem yaxis_tick_reads_back_witness:
  "\<exists>s. yaxis_tick THB 2500 = Some (currency_symbol THB @ s @ ''k'') \<and> parse_float_str s = Some (2500 / 1000)"
proof -
  have d: "decimal_places (2500 / 1000) = Some 1" by (simp add: decimal_places_def upt_rec)
  show ?thesis using yaxis_tick_reads_back [OF d] by simp
qed

text \<open>Claim C25. Setting the slider to \<open>n\<close> years labels the horizon badge
  \<open>n Years\<close>, and the chart then has the points of years 1 to \<open>n\<close>: the axis
  labels them \<open>1\<close> to \<open>n\<close> and their tooltips are titled
  \<open>Year i Projection\<close>.\<close>

theorem chart_labels_follow_slider:
  assumes "n < 10 ^ 21"
  shows "horizon_label (panel_step st (SetProjectionYears (nat_digits n))) = Some (nat_digits n @ '' Years'') \<and>
    xaxis_labels (projections_for r (projectionYears (panel_step st (SetProjectionYears (nat_digits n))))) =
      map (\<lambda>i. Some (nat_digits i)) [1..<Suc n] \<and>
    map (\<lambda>s. fst (tooltip_view cur s)) (projections_for r (projectionYears (panel_step st (SetProjectionYears (nat_digits n))))) =
      map (\<lambda>i. Some (''Year '' @ nat_digits i @ '' Projection'')) [1..<Suc n]"
proof -
  have p: "projectionYears (panel_step st (SetProjectionYears (nat_digits n))) = Some (real n)"
    by (simp add: parse_int_nat_digits)
  have i: "\<And>i. i \<in> set [1..<Suc n] \<Longrightarrow> js_number_string (real i) = Some (nat_digits i)"
    using assms by (intro js_number_string_nat) auto
  have y: "\<And>c g i. year (year_snapshot c g i) = i" by (simp add: year_snapshot_def Let_def)
  have h: "horizon_label (panel_step st (SetProjectionYears (nat_digits n))) = Some (nat_digits n @ '' Years'')"
    using assms p by (simp add: horizon_label_def js_string_of_def js_number_string_nat del: panel_step.simps)
  have x: "xaxis_labels (projections_for r (Some (real n))) = map (\<lambda>i. Some (nat_digits i)) [1..<Suc n]"
    unfolding projections_for_unfold floor_of_nat nat_int xaxis_labels_def map_map
    by (rule map_cong [OF refl]) (simp add: y i del: upt_Suc)
  have t: "map (\<lambda>s. fst (tooltip_view cur s)) (projections_for r (Some (real n))) =
      map (\<lambda>i. Some (''Year '' @ nat_digits i @ '' Projection'')) [1..<Suc n]"
    unfolding projections_for_unfold floor_of_nat nat_int map_map
    by (rule map_cong [OF refl]) (simp add: y i tooltip_view_def tooltip_title_def del: upt_Suc)
  show ?thesis using h x t by (simp only: p)
qed

theorem chart_labels_follow_slider_witness:
  "horizon_label (panel_step alloc_panel_init (SetProjectionYears (nat_digits 3))) = Some (nat_digits 3 @ '' Years'') \<and>
   xaxis_labels (projections_for 1710 (projectionYears (panel_step alloc_panel_init (SetProjectionYears (nat_digits 3))))) =
     [Some ''1'', Some ''2'', Some ''3'']"
proof -
  have h: "(3::nat) < 10 ^ 21" by simp
  show ?thesis using chart_labels_follow_slider [OF h, of alloc_panel_init 1710]
    by (simp add: upt_rec nat_digits.simps js_eval)
qed

text \<open>Claim C26. The chart's tooltip shows three rows for every point: the
  formatted total wealth, the formatted passive income, and the formatted
  principal, which the \<open>formatter\<close> labels "Passive Income (4%)" as well, since
  the principal's series has no \<open>name\<close> of its own.\<close>

theorem tooltip_shows_principal_as_passive:
  "snd (tooltip_view cur s) =
     [[formatCurrency (value' s) cur, ''Total Wealth''],
      [formatCurrency (monthlyPassiveIncome s) cur, ''Passive Income (4%)''],
      [formatCurrency (principal s) cur, ''Passive Income (4%)'']]"
  by (simp add: tooltip_view_def chart_areas_def series_point_def tooltip_item_def tooltip_label_def)

end
