(* ===== verification/Counter.thy ===== *)
theory Counter
  imports View
begin

text \<open>
  \<open>src/src/components/AnimatedCounter.jsx\<close>, the animated number of the stat
  cards. The component keeps a ref \<open>prevValue\<close> (initialised with the first
  value and never written again), a framer-motion spring \<open>count\<close> created with
  the first value and the configuration of lines 6-10, an effect that calls
  \<open>count.set(value)\<close> whenever \<open>value\<close> changes, a text \<open>display\<close> that is
  \<open>formatter\<close> applied to the spring's current position, and a
  \<open>motion.div\<close> keyed by \<open>value\<close>, which React remounts, replaying its entry
  animation, whenever the value changes.

  The state of the component is the record \<open>counter\<close>; a render with a new
  \<open>value\<close> is \<open>counter_render\<close>. The spring itself is library code: its motion
  is a parameter \<open>step\<close> (one animation frame, from the target and the current
  position and velocity to the next ones), and the rest rule the code configures
  is explicit: once the position is within \<open>restDelta\<close> of the target and the
  speed below the library's rest speed, the animation ends at the target.
  Playing the animation is a loop that ends only when the spring comes to rest,
  so it is modelled with fuel (\<open>settle\<close>); the physics of the spring is not
  modelled, and the lemmas need it only at rest, where one frame ends the
  animation.

  The counter's one use is \<open>StatCard\<close> in \<open>ResultsDisplay.jsx\<close>, whose own
  \<open>motion.div\<close> is keyed by \<open>numericValue\<close> (line 10): a new value remounts the
  whole card, the counter included (\<open>statcard_render\<close>), so the counter is
  always fresh, its spring already at rest on the new value.
\<close>

record spring_config =
  stiffness :: real
  damping :: real
  restDelta :: real

definition counter_config :: spring_config where
  "counter_config = \<lparr>stiffness = 100, damping = 30, restDelta = 0.001\<rparr>"

record counter =
  prevValue :: real
  springTarget :: real
  keyValue :: real
  entryAnimations :: nat
  spring :: "real \<times> real"

text \<open>The first render: \<open>useRef(value)\<close>, \<open>useSpring(value, ...)\<close> at rest on
  \<open>value\<close> (position \<open>value\<close>, velocity 0), the keyed \<open>motion.div\<close> mounted
  once; the effect's \<open>count.set(value)\<close> leaves the target where it is.\<close>

definition counter_mount :: "real \<Rightarrow> counter" where
  "counter_mount v =
     \<lparr>prevValue = v, springTarget = v, keyValue = v, entryAnimations = 1, spring = (v, 0)\<rparr>"

text \<open>A later render with \<open>value = v\<close>: the ref and the spring's initial value
  ignore it; when it differs from the previous value the key changes (a remount
  with a fresh entry animation) and the effect retargets the spring.\<close>

definition counter_render :: "counter \<Rightarrow> real \<Rightarrow> counter" where
  "counter_render c v =
     (if v = keyValue c then c
      else c\<lparr>springTarget := v, keyValue := v, entryAnimations := Suc (entryAnimations c)\<rparr>)"

fun counter_run :: "counter \<Rightarrow> real list \<Rightarrow> counter" where
  "counter_run c [] = c"
| "counter_run c (v # vs) = counter_run (counter_render c v) vs"

text \<open>\<open>useTransform(count, (latest) => formatter(latest))\<close>.\<close>

definition counter_text :: "(real \<Rightarrow> string) \<Rightarrow> real \<times> real \<Rightarrow> string" where
  "counter_text formatter s = formatter (fst s)"

text \<open>The rest rule: within \<open>restDelta\<close> of the target and slower than the
  library's rest speed.\<close>

definition at_rest :: "real \<Rightarrow> real \<Rightarrow> real \<times> real \<Rightarrow> bool" where
  "at_rest restSpeed t s = (\<bar>fst s - t\<bar> < restDelta counter_config \<and> \<bar>snd s\<bar> < restSpeed)"

text \<open>The frames of the spring animation towards target \<open>t\<close> from position and
  velocity \<open>s\<close>, with at most \<open>fuel\<close> frames: \<open>Some\<close> of the final state once at
  rest, \<open>None\<close> when the fuel runs out first.\<close>

fun settle :: "nat \<Rightarrow> (real \<Rightarrow> real \<times> real \<Rightarrow> real \<times> real) \<Rightarrow> real \<Rightarrow> real \<Rightarrow> real \<times> real \<Rightarrow>
               (real \<times> real) option" where
  "settle 0 step restSpeed t s = None"
| "settle (Suc fuel) step restSpeed t s =
     (if at_rest restSpeed t s then Some (t, 0)
      else settle fuel step restSpeed t (step t s))"

text \<open>\<open>StatCard\<close> rendered with a new \<open>numericValue\<close>: the key of its
  \<open>motion.div\<close> changes, React unmounts the old card and mounts a new one, and
  \<open>AnimatedCounter\<close> mounts afresh with \<open>value={numericValue}\<close>; with the same
  value the counter re-renders in place.\<close>

definition statcard_render :: "counter \<Rightarrow> real \<Rightarrow> counter" where
  "statcard_render c v = (if v = keyValue c then counter_render c v else counter_mount v)"

fun statcard_run :: "counter \<Rightarrow> real list \<Rightarrow> counter" where
  "statcard_run c [] = c"
| "statcard_run c (v # vs) = statcard_run (statcard_render c v) vs"

text \<open>The number of times consecutive values differ.\<close>

fun value_changes :: "real \<Rightarrow> real list \<Rightarrow> nat" where
  "value_changes v [] = 0"
| "value_changes v (w # ws) = (if w = v then 0 else 1) + value_changes w ws"

section \<open>Properties\<close>

lemma counter_run_fields:
  assumes "springTarget c = keyValue c"
  shows "prevValue (counter_run c vs) = prevValue c \<and>
   springTarget (counter_run c vs) = last (keyValue c # vs) \<and>
   keyValue (counter_run c vs) = last (keyValue c # vs) \<and>
   entryAnimations (counter_run c vs) = entryAnimations c + value_changes (keyValue c) vs"
  using assms
proof (induction vs arbitrary: c)
  case Nil
  then show ?case by simp
next
  case (Cons v vs)
  show ?case
    using Cons.IH [of "counter_render c v"] Cons.prems by (auto simp: counter_render_def)
qed

lemma statcard_run_mount: "statcard_run (counter_mount v) vs = counter_mount (last (v # vs))"
proof (induction vs arbitrary: v)
  case Nil
  then show ?case by simp
next
  case (Cons w vs)
  have "statcard_render (counter_mount v) w = counter_mount w"
    by (simp add: statcard_render_def counter_render_def counter_mount_def)
  then show ?case using Cons.IH [of w] by simp
qed

lemma last_map_Cons: "last (f x # map f xs) = f (last (x # xs))"
  by (induction xs arbitrary: x) simp_all

text \<open>Claim C11. Rendered on its own with the values \<open>v, vs\<close>,
  \<open>AnimatedCounter\<close> keeps in \<open>prevValue\<close> the first value for ever (the ref is
  never written), points its spring at the latest value, and has mounted its
  keyed \<open>motion.div\<close>, replaying the entry animation, once plus once per change
  of value.\<close>

theorem counter_tracks_value:
  "prevValue (counter_run (counter_mount v) vs) = v \<and>
   springTarget (counter_run (counter_mount v) vs) = last (v # vs) \<and>
   entryAnimations (counter_run (counter_mount v) vs) = Suc (value_changes v vs)"
  using counter_run_fields [of "counter_mount v" vs] by (simp add: counter_mount_def)

text \<open>Claim C10. Inside \<open>StatCard\<close> the counter never counts: whatever values
  the card is rendered with, the key of the card remounts the counter on each new
  value, so it is exactly a freshly mounted counter on the current value, its
  spring is at rest from the first frame, and it shows at once the text the page
  model gives the card, \<open>formatCurrency(numericValue, currency)\<close>.\<close>

theorem statcard_counter_at_rest:
  assumes "0 < restSpeed"
  shows "let c = statcard_run (counter_mount (numericValue s0)) (map numericValue ss) in
           c = counter_mount (numericValue (last (s0 # ss))) \<and>
           settle 1 step restSpeed (springTarget c) (spring c) = Some (spring c) \<and>
           counter_text (\<lambda>val. formatCurrency val cur) (spring c) = stat_card_view cur (last (s0 # ss)) ! 1"
  unfolding Let_def statcard_run_mount last_map_Cons using assms
  by (simp add: counter_mount_def at_rest_def counter_config_def counter_text_def stat_card_view_def)

theorem statcard_counter_at_rest_witness:
  "let c = statcard_run (counter_mount 1710) [2000] in
     c = counter_mount 2000 \<and>
     settle 1 (\<lambda>t s. s) 1 (springTarget c) (spring c) = Some (spring c) \<and>
     counter_text (\<lambda>val. formatCurrency val THB) (spring c) =
       stat_card_view THB \<lparr>statTitle = ''Monthly'', numericValue = 2000, subtitle = ''30 days''\<rparr> ! 1"
  using statcard_counter_at_rest [of 1 "\<lparr>statTitle = ''Monthly'', numericValue = 1710, subtitle = ''30 days''\<rparr>"
      "[\<lparr>statTitle = ''Monthly'', numericValue = 2000, subtitle = ''30 days''\<rparr>]" "\<lambda>t s. s" THB]
  by simp

end
