(* ===== verification/Page.thy ===== *)
theory Page
  imports Counter
begin

text \<open>
  The whole page of \<open>src/src/App.jsx\<close>. \<open>App\<close> holds the calculator's results
  and the currency (passed to \<open>Calculator\<close>, which owns the form), the colour
  theme, and renders \<open>RevenueAllocation\<close>, which owns the projection slider;
  the panel has no \<open>key\<close> and is rendered only while the results are not
  \<open>null\<close>, so its slider survives exactly as long as the results never
  return to \<open>null\<close>. The record \<open>app_page\<close> puts the three pieces of state side
  by side, \<open>page_event\<close> is the union of their events, and \<open>page_step\<close>
  dispatches each event to its component. A reload is the one event that
  touches all three: the browser starts a fresh document, in which only
  \<open>localStorage\<close> survives.

  The second half translates the render functions of \<open>App\<close>, \<open>Calculator\<close>
  and \<open>RevenueAllocation\<close> into the list of elements the page shows, in
  document order (\<open>ui_item\<close>: texts, buttons with their highlight, the
  number inputs, the range input and the chart with its axis labels); class
  names, icons (other than the theme button's) and animation are left out.
\<close>

section \<open>The page state\<close>

record app_page =
  calcState :: app_state
  themeState :: theme_state
  panelState :: alloc_panel

datatype page_event = FormEvent calc_event | ThemeEvent theme_event | SliderEvent panel_event

text \<open>Loading the page in a browser \<open>b\<close>: \<open>App\<close> mounts (results \<open>null\<close>,
  currency THB, the calculator's effect filling the results), the theme is read
  from \<open>localStorage\<close> and written back, and the allocation panel mounts with
  its ten-year horizon.\<close>

definition page_load :: "browser \<Rightarrow> app_page" where
  "page_load b = \<lparr>calcState = app_mounted, themeState = theme_mount b, panelState = alloc_panel_init\<rparr>"

text \<open>A form event runs the calculator's handler and effect; \<open>App\<close> renders
  \<open>RevenueAllocation\<close> only while \<open>results\<close> is not \<open>null\<close> (line 101), so
  results turning \<open>null\<close> would unmount the panel, and its next mount would
  start again from the ten-year horizon.\<close>

fun page_step :: "app_page \<Rightarrow> page_event \<Rightarrow> app_page" where
  "page_step p (FormEvent e) =
     (let st = app_step (calcState p) e
      in p\<lparr>calcState := st,
           panelState := (if results st = None then alloc_panel_init else panelState p)\<rparr>)"
| "page_step p (ThemeEvent Reload) = page_load (page (themeState p))"
| "page_step p (ThemeEvent ToggleDark) = p\<lparr>themeState := theme_step (themeState p) ToggleDark\<rparr>"
| "page_step p (ThemeEvent (SetOsPreference d)) =
     p\<lparr>themeState := theme_step (themeState p) (SetOsPreference d)\<rparr>"
| "page_step p (SliderEvent e) = p\<lparr>panelState := panel_step (panelState p) e\<rparr>"

fun page_run :: "app_page \<Rightarrow> page_event list \<Rightarrow> app_page" where
  "page_run p [] = p"
| "page_run p (e # es) = page_run (page_step p e) es"

inductive page_reachable :: "app_page \<Rightarrow> bool" where
  load: "page_reachable (page_load b)"
| step: "page_reachable p \<Longrightarrow> page_reachable (page_step p e)"

inductive_cases page_reachable_cases: "page_reachable p"

text \<open>The events of one component in a run of the page, in their order.\<close>

fun form_events :: "page_event list \<Rightarrow> calc_event list" where
  "form_events [] = []"
| "form_events (FormEvent e # es) = e # form_events es"
| "form_events (_ # es) = form_events es"

fun theme_events :: "page_event list \<Rightarrow> theme_event list" where
  "theme_events [] = []"
| "theme_events (ThemeEvent e # es) = e # theme_events es"
| "theme_events (_ # es) = theme_events es"

fun slider_events :: "page_event list \<Rightarrow> panel_event list" where
  "slider_events [] = []"
| "slider_events (SliderEvent e # es) = e # slider_events es"
| "slider_events (_ # es) = slider_events es"

fun panel_run :: "alloc_panel \<Rightarrow> panel_event list \<Rightarrow> alloc_panel" where
  "panel_run a [] = a"
| "panel_run a (e # es) = panel_run (panel_step a e) es"

section \<open>The rendered page\<close>

text \<open>An element of the page: a text, a button (caption, highlighted), a number
  input, a text written by \<open>Number::toString\<close> (\<open>None\<close> where its form is not
  modelled), the range input (\<open>min\<close>, \<open>max\<close>, \<open>value\<close>), and the area chart
  with its x-axis labels.\<close>

datatype ui_item =
    UText string
  | UButton string bool
  | UInput field_view
  | UNumberText "string option"
  | USlider nat nat "real option"
  | UChart "string option list"

text \<open>\<open>Calculator\<close>'s render (Calculator.jsx lines 121-197).\<close>

definition calculator_view :: "app_state \<Rightarrow> ui_item list" where
  "calculator_view st =
     [UText ''Revenue Estimator'', UText ''Fine-tune your growth engine''] @
     map (\<lambda>(c, active). UButton c active) (currency_buttons (currency st)) @
     map UInput (form_view st) @
     [UText ''Real-time Projection'', UButton ''Reset Defaults'' False]"

text \<open>\<open>RevenueAllocation\<close>'s render (RevenueAllocation.jsx lines 45-246): the
  allocation cards, the projection header with the horizon badge and the slider
  (\<open>min="1" max="30"\<close>), the chart, the summary and the closing note.\<close>

definition revenue_allocation_view :: "currency \<Rightarrow> amount \<Rightarrow> alloc_panel \<Rightarrow> ui_item list" where
  "revenue_allocation_view cur monthlyRev st =
     (let projections = projections_for monthlyRev (projectionYears st)
      in [UText ''Strategic Distribution'', UText ''Equity Allocation'',
          UText ''The gold standard for sustainable creator wealth: The 10-5-85 Governance Rule.''] @
         map UText (concat (map (allocation_card_view cur) (allocation_cards (calculateAllocation monthlyRev)))) @
         [UText ''Compounding Engine'', UText ''S&P 500 Fortune Projection'',
          UText ''Projected 7% annual market yield with 4% perpetual withdrawal rule.'',
          UText ''Time Horizon'', UNumberText (horizon_label st), USlider 1 30 (projectionYears st),
          UChart (xaxis_labels projections)] @
         map UText (projection_panel_view cur (latestProjection projections)) @
         [UText (''Wealth engine assumes a consistent 7% annual yield. The 4% rule ensures your '' @
                 ''principal remains intact while providing perpetual monthly income.'')])"

text \<open>The two panels of \<open>App\<close> (App.jsx lines 115-116).\<close>

fun panel_view :: "currency \<Rightarrow> alloc_panel \<Rightarrow> panel \<Rightarrow> ui_item list" where
  "panel_view cur a (ShowResults r) =
     map UText (case results_display_view cur (Some r) of None \<Rightarrow> [] | Some ts \<Rightarrow> ts)"
| "panel_view cur a (ShowAllocation monthly) = revenue_allocation_view cur monthly a"

text \<open>\<open>App\<close>'s render (App.jsx lines 29-143): the header, the hero, the
  calculator, the results section when there are results, and the footer, whose
  year is \<open>new Date().getFullYear()\<close>, a parameter here.\<close>

definition app_view :: "nat \<Rightarrow> app_page \<Rightarrow> ui_item list" where
  "app_view currentYear p =
     (let st = calcState p; cur = currency st
      in [UText ''CreatorCalc''] @ map UText (header_view cur (darkMode (themeState p))) @
         [UText ''AI-Powered Forecasting'', UText ''Visualize Your Financial Future'',
          UText (''The elite wealth management suite for world-class creators. Precision metrics, '' @
                 ''automated allocation, and long-term growth.'')] @
         calculator_view st @
         (if app_panels st = [] then [] else [UText ''Insight Intelligence'']) @
         concat (map (panel_view cur (panelState p)) (app_panels st)) @
         [UText ''CreatorCalc'',
          UText (map char_of [194::nat, 169] @ '' '' @ nat_digits currentYear @ '' Precision Built by Antigravity''),
          UText ''Data driven snapshots based on global YouTube averages. Always consult a financial advisor.''])"

section \<open>Properties\<close>

lemma page_load_parts [simp]:
  "calcState (page_load b) = app_mounted"
  "themeState (page_load b) = theme_mount b"
  "panelState (page_load b) = alloc_panel_init"
  by (simp_all add: page_load_def)

lemma themeState_page_step: "themeState (page_step p (ThemeEvent e)) = theme_step (themeState p) e"
  by (cases e) simp_all

lemma page_reachable_parts:
  "page_reachable p \<Longrightarrow> reachable (calcState p) \<and> theme_reachable (themeState p)"
proof (induction rule: page_reachable.induct)
  case (load b)
  then show ?case by (simp add: reachable.mounted theme_reachable.mount)
next
  case (step p e)
  then show ?case
  proof (cases e)
    case (ThemeEvent t)
    have "theme_reachable (themeState (page_step p e))"
      unfolding ThemeEvent themeState_page_step using step by (blast intro: theme_reachable.step)
    moreover have "reachable (calcState (page_step p e))"
      unfolding ThemeEvent using step by (cases t) (simp_all add: reachable.mounted)
    ultimately show ?thesis by simp
  qed (simp_all add: reachable.step Let_def)
qed

lemma page_run_reachable: "page_reachable p \<Longrightarrow> page_reachable (page_run p es)"
  by (induction es arbitrary: p) (simp_all add: page_reachable.step)

lemma app_mounted_errors: "errors app_mounted = Map.empty"
  by (simp add: app_mounted_def app_init_def calc_effect_def Let_def)

lemma form_step_keeps_panel:
  assumes "reachable (calcState p)"
  shows "page_step p (FormEvent e) = p\<lparr>calcState := app_step (calcState p) e\<rparr>"
proof -
  have "results_inv (app_step (calcState p) e)"
    using assms by (intro reachable_results_inv reachable.step)
  then have "results (app_step (calcState p) e) \<noteq> None" by (simp add: results_inv_def)
  then show ?thesis by (auto simp: Let_def)
qed

text \<open>Claim C14. Interleaving the events of the three parts of the page does not
  matter: from any reachable page, as long as it is not reloaded, the form and
  results, the theme and the slider each end in the state their own events, in
  their own order, lead to. In particular the slider's horizon survives every
  recalculation, invalid entries included, because the results never return
  to \<open>null\<close> and so \<open>RevenueAllocation\<close> is never unmounted.\<close>

theorem page_run_interleaving:
  assumes "page_reachable p" "ThemeEvent Reload \<notin> set es"
  shows "calcState (page_run p es) = app_run (calcState p) (form_events es) \<and>
         themeState (page_run p es) = theme_run (themeState p) (theme_events es) \<and>
         panelState (page_run p es) = panel_run (panelState p) (slider_events es)"
  using assms
proof (induction es arbitrary: p)
  case Nil
  then show ?case by simp
next
  case (Cons e es)
  have r: "page_reachable (page_step p e)" using Cons.prems(1) by (rule page_reachable.step)
  have c: "reachable (calcState p)" using page_reachable_parts [OF Cons.prems(1)] by simp
  show ?case
  proof (cases e)
    case (FormEvent f)
    then show ?thesis using Cons.IH [OF r] Cons.prems(2)
      by (simp add: form_step_keeps_panel [OF c] del: page_step.simps)
  next
    case (ThemeEvent t)
    then show ?thesis using Cons.IH [OF r] Cons.prems(2) by (cases t) simp_all
  next
    case (SliderEvent u)
    then show ?thesis using Cons.IH [OF r] Cons.prems(2) by simp
  qed
qed

theorem page_run_interleaving_witness:
  "panelState (page_run (page_load \<lparr>storage = Map.empty, prefersDark = False, htmlDark = False\<rparr>)
     [SliderEvent (SetProjectionYears ''25''), FormEvent (Change Rpm ''-1''), ThemeEvent ToggleDark,
      FormEvent (ToggleCurrency USD)]) =
   panel_run alloc_panel_init [SetProjectionYears ''25'']"
proof -
  have h: "ThemeEvent Reload \<notin> set [SliderEvent (SetProjectionYears ''25''), FormEvent (Change Rpm ''-1''),
      ThemeEvent ToggleDark, FormEvent (ToggleCurrency USD)]" by simp
  show ?thesis
    using page_run_interleaving [OF page_reachable.load h, of "\<lparr>storage = Map.empty, prefersDark = False, htmlDark = False\<rparr>"]
    by (simp del: page_run.simps panel_run.simps)
qed

text \<open>Claim C13. A reload is the one way back to a clean form: it forgets the
  inputs, the validation messages (which Reset Defaults keeps), the results and
  the slider's horizon, since App keeps none of them in \<open>localStorage\<close>, and it
  keeps the theme the user chose.\<close>

theorem reload_resets_page:
  assumes "page_reachable p"
  shows "calcState (page_step p (ThemeEvent Reload)) = app_mounted \<and>
         errors (calcState (page_step p (ThemeEvent Reload))) = Map.empty \<and>
         panelState (page_step p (ThemeEvent Reload)) = alloc_panel_init \<and>
         darkMode (themeState (page_step p (ThemeEvent Reload))) = darkMode (themeState p)"
proof -
  have "theme_inv (themeState p)"
    using page_reachable_parts [OF assms] by (simp add: theme_reachable_inv)
  from theme_mount_restores [OF this] show ?thesis by (simp add: app_mounted_errors)
qed

theorem reload_resets_page_witness:
  "errors (calcState (page_step (page_run (page_load \<lparr>storage = Map.empty, prefersDark = False, htmlDark = False\<rparr>)
      [FormEvent (Change Rpm ''-1'')]) (ThemeEvent Reload))) = Map.empty"
proof -
  have "page_reachable (page_run (page_load \<lparr>storage = Map.empty, prefersDark = False, htmlDark = False\<rparr>)
      [FormEvent (Change Rpm ''-1'')])"
    by (intro page_run_reachable page_reachable.load)
  from reload_resets_page [OF this] show ?thesis by blast
qed

text \<open>Claim C12. What the user types is what the page shows: in every
  reachable page with a valid form, the page contains the monthly revenue of
  the typed figures, formatted in the chosen currency, on its stat card, and the
  85 percent of it that the Wealth Engine card invests each month.\<close>

theorem page_shows_typed_revenue:
  assumes "page_reachable p" "inputs_valid (calcState p)"
  shows "UText (formatCurrency (monthlyRevenue (revenue_of_inputs (inputs (calcState p)))) (currency (calcState p)))
           \<in> set (app_view y p) \<and>
         UText (formatCurrency (investment (calculateAllocation (monthlyRevenue (revenue_of_inputs (inputs (calcState p))))))
                  (currency (calcState p)) @ ''/mo'') \<in> set (app_view y p)"
proof -
  have "results_inv (calcState p)"
    using page_reachable_parts [OF assms(1)] by (simp add: reachable_results_inv)
  then have r: "results (calcState p) = Some (revenue_of_inputs (inputs (calcState p)))"
    using assms(2) by (simp add: results_inv_def)
  show ?thesis
    by (simp add: app_view_def r app_panels_def results_display_view_def stat_cards_def stat_card_view_def
                  revenue_allocation_view_def allocation_cards_def allocation_card_view_def Let_def)
qed

theorem page_shows_typed_revenue_witness:
  "UText (formatCurrency (monthlyRevenue (revenue_of_inputs default_inputs)) THB)
     \<in> set (app_view 2026 (page_load \<lparr>storage = Map.empty, prefersDark = False, htmlDark = False\<rparr>))"
proof -
  have v: "inputs_valid (calcState (page_load \<lparr>storage = Map.empty, prefersDark = False, htmlDark = False\<rparr>))"
    by (simp add: app_mounted_valid)
  have c: "currency app_mounted = THB" "inputs app_mounted = default_inputs"
    by (simp_all add: app_mounted_def app_init_def calc_effect_def Let_def)
  show ?thesis using page_shows_typed_revenue [OF page_reachable.load v, of 2026] c by simp
qed

end
