(* ===== verification/Automation.thy ===== *)
theory Automation
  imports JsValue "HOL-Library.Sublist"
begin

text \<open>
  The three automation scripts at the top of the repository,
  \<open>src/re_bootstrap.js\<close>, \<open>src/run_testsprite_full.js\<close> and
  \<open>src/run_testsprite_portal.js\<close>. Each spawns the TestSprite MCP server with
  \<open>npx\<close>, passing an API key in the environment (the model records only that the
  variable \<open>API_KEY\<close> is set, never its value), and talks JSON-RPC to it over
  the child's standard input. A script is written as a list of \<open>action\<close>s in
  the order of its statements; \<open>exec\<close> runs such a list from a start time and
  produces the timed trace of what the script does (spawn, lines written to the
  server, log lines, kill): an \<open>await new Promise(r => setTimeout(r, ms))\<close> is a
  \<open>Sleep\<close> that advances the clock. The messages are JSON values
  (\<open>json\<close>, objects as association lists in source order); \<open>JSON.stringify\<close>
  is not modelled, a written line is the message value. The portal script's
  \<open>stdout\<close> handler is the function \<open>portal_on_stdout\<close> from one chunk of
  the server's output to the lines it logs; \<open>String.prototype.includes\<close>, the
  regular expression \<open>/http:\/\/localhost:(\d+)/\<close> and
  \<open>encodeURIComponent\<close> are modelled on byte strings (a JavaScript string as
  its UTF-8 bytes, so that percent-encoding works byte by byte as the standard
  prescribes).
\<close>

section \<open>Messages and scripts\<close>

datatype json =
    JObject "(string \<times> json) list"
  | JArray "json list"
  | JString string
  | JNumber int
  | JBool bool
  | JNull

datatype action =
    Spawn string "string list" "string list" bool
  | OnData string string
  | Sleep nat
  | Send json
  | LogSend json
  | Kill
  | KeepAlive nat

datatype event =
    EvSpawn string "string list" "string list" bool
  | EvListen string string
  | EvStdin json
  | EvLog string json
  | EvKill
  | EvTimer nat

type_synonym trace = "(nat \<times> event) list"

fun exec :: "nat \<Rightarrow> action list \<Rightarrow> trace" where
  "exec t [] = []"
| "exec t (Spawn cmd args env detached # as) = (t, EvSpawn cmd args env detached) # exec t as"
| "exec t (OnData stream pre # as) = (t, EvListen stream pre) # exec t as"
| "exec t (Sleep ms # as) = exec (t + ms) as"
| "exec t (Send m # as) = (t, EvStdin m) # exec t as"
| "exec t (LogSend m # as) = (t, EvLog ''[SENDING]'' m) # exec t as"
| "exec t (Kill # as) = (t, EvKill) # exec t as"
| "exec t (KeepAlive ms # as) = (t, EvTimer ms) # exec t as"

text \<open>\<open>spawn('npx', ['-y', '@testsprite/testsprite-mcp@latest', 'server'], ...)\<close>.\<close>

definition spawn_mcp :: "bool \<Rightarrow> action" where
  "spawn_mcp detached =
     Spawn ''npx'' [''-y'', ''@testsprite/testsprite-mcp@latest'', ''server''] [''API_KEY''] detached"

definition initialize_msg :: json where
  "initialize_msg =
     JObject [(''jsonrpc'', JString ''2.0''), (''method'', JString ''initialize''), (''id'', JNumber 1),
              (''params'', JObject [(''protocolVersion'', JString ''2024-11-05''),
                                   (''capabilities'', JObject []),
                                   (''clientInfo'', JObject [(''name'', JString ''Antigravity''),
                                                            (''version'', JString ''1.0'')])])]"

definition tool_call :: "int \<Rightarrow> string \<Rightarrow> (string \<times> json) list \<Rightarrow> json" where
  "tool_call i name args =
     JObject [(''jsonrpc'', JString ''2.0''), (''method'', JString ''tools/call''), (''id'', JNumber i),
              (''params'', JObject [(''name'', JString name), (''arguments'', JObject args)])]"

text \<open>\<open>src/re_bootstrap.js\<close>.\<close>

definition bootstrap_script :: "action list" where
  "bootstrap_script =
     [spawn_mcp False, Sleep 2000, Send initialize_msg, Sleep 2000,
      Send (tool_call 3 ''testsprite_bootstrap''
              [(''projectPath'', JString ''/home/nice/CreatorCalc''), (''type'', JString ''frontend'')]),
      Sleep 10000, Kill]"

text \<open>\<open>src/run_testsprite_full.js\<close>: its \<open>send\<close> logs the message, then writes it.\<close>

definition send_logged :: "json \<Rightarrow> action list" where
  "send_logged m = [LogSend m, Send m]"

definition full_script :: "action list" where
  "full_script =
     [spawn_mcp False, OnData ''stdout'' ''[STDOUT]'', OnData ''stderr'' ''[STDERR]'', Sleep 5000] @
     send_logged initialize_msg @ [Sleep 5000] @
     send_logged (tool_call 2 ''testsprite_generate_code_and_execute''
                    [(''projectPath'', JString ''/home/nice/CreatorCalc'')]) @
     [Sleep 300000, Kill]"

text \<open>\<open>src/run_testsprite_portal.js\<close>: a detached server, the \<open>stdout\<close> handler,
  the \<open>initialize\<close> request written at once, and an hour-long timer that keeps
  the process alive.\<close>

definition portal_script :: "action list" where
  "portal_script =
     [spawn_mcp True, OnData ''stdout'' ''portal'', Send initialize_msg, KeepAlive 3600000]"

section \<open>The portal's output handler\<close>

definition starts_with :: "string \<Rightarrow> string \<Rightarrow> bool" where
  "starts_with p s = (take (length p) s = p)"

text \<open>\<open>s.includes(p)\<close>.\<close>

fun str_includes :: "string \<Rightarrow> string \<Rightarrow> bool" where
  "str_includes p [] = (p = [])"
| "str_includes p (c # cs) = (starts_with p (c # cs) \<or> str_includes p cs)"

definition is_ascii_digit :: "char \<Rightarrow> bool" where
  "is_ascii_digit c = (48 \<le> (of_char c :: nat) \<and> (of_char c :: nat) \<le> 57)"

text \<open>\<open>line.match(/http:\/\/localhost:(\d+)/)\<close>, group 1: the digits after the
  leftmost occurrence of the prefix that is followed by at least one digit,
  taken greedily.\<close>

fun find_port :: "string \<Rightarrow> string option" where
  "find_port [] = None"
| "find_port (c # cs) =
     (let r = drop 17 (c # cs) in
      if starts_with ''http://localhost:'' (c # cs) \<and> r \<noteq> [] \<and> is_ascii_digit (hd r)
      then Some (takeWhile is_ascii_digit r)
      else find_port cs)"

definition hex_digit :: "nat \<Rightarrow> char" where
  "hex_digit n = (if n < 10 then char_of (48 + n) else char_of (55 + n))"

definition uri_unreserved :: "char \<Rightarrow> bool" where
  "uri_unreserved c =
     (let n = (of_char c :: nat) in
      (48 \<le> n \<and> n \<le> 57) \<or> (65 \<le> n \<and> n \<le> 90) \<or> (97 \<le> n \<and> n \<le> 122) \<or>
      c \<in> set ''-_.!~*'()'')"

text \<open>\<open>encodeURIComponent\<close>: unreserved characters stay, every other byte is
  written \<open>%XX\<close> in upper-case hexadecimal.\<close>

definition encodeURIComponent :: "string \<Rightarrow> string" where
  "encodeURIComponent s =
     concat (map (\<lambda>c. if uri_unreserved c then [c]
                      else [CHR ''%'', hex_digit (of_char c div 16), hex_digit (of_char c mod 16)]) s)"

definition portal_url :: "string \<Rightarrow> string" where
  "portal_url port =
     ''http://localhost:'' @ port @ ''/init?project_path='' @ encodeURIComponent ''/home/nice/CreatorCalc'' @
     ''&default_type=frontend''"

text \<open>The handler for one chunk: log it, and when it announces the server and
  names a port, log the banner (two newlines and the rocket emoji U+1F680, in
  UTF-8) and the URL; \<open>console.log('URL:', url)\<close> joins its arguments with a
  space.\<close>

definition portal_banner :: string where
  "portal_banner =
     ''\<newline>\<newline>'' @ map char_of [240::nat, 159, 154, 128] @ '' TESTSPRITE PORTAL READY!''"

definition portal_on_stdout :: "string \<Rightarrow> string list" where
  "portal_on_stdout line =
     line # (if str_includes ''Starting server on'' line
             then (case find_port line of
                     Some port \<Rightarrow> [portal_banner, ''URL: '' @ portal_url port]
                   | None \<Rightarrow> [])
             else [])"

definition portal_output :: "string list \<Rightarrow> string list" where
  "portal_output chunks = concat (map portal_on_stdout chunks)"

section \<open>Reading traces\<close>

definition msg_method :: "json \<Rightarrow> string option" where
  "msg_method m =
     (case m of
        JObject kvs \<Rightarrow> (case map_of kvs ''method'' of Some (JString s) \<Rightarrow> Some s | _ \<Rightarrow> None)
      | _ \<Rightarrow> None)"

text \<open>The lines written to the server's standard input, with their times.\<close>

fun sent :: "trace \<Rightarrow> (nat \<times> json) list" where
  "sent [] = []"
| "sent ((t, EvStdin m) # tr) = (t, m) # sent tr"
| "sent (_ # tr) = sent tr"

fun sleeps :: "action list \<Rightarrow> nat" where
  "sleeps [] = 0"
| "sleeps (Sleep ms # as) = ms + sleeps as"
| "sleeps (_ # as) = sleeps as"

text \<open>The client side of the MCP lifecycle (protocol revision 2024-11-05, the one
  the scripts announce): the first message is the \<open>initialize\<close> request, and
  after it the client sends nothing but pings until its
  \<open>notifications/initialized\<close> notification.\<close>

fun after_initialize :: "string option list \<Rightarrow> bool" where
  "after_initialize [] = True"
| "after_initialize (m # ms) =
     (m = Some ''notifications/initialized'' \<or> (m = Some ''ping'' \<and> after_initialize ms))"

definition mcp_lifecycle_ok :: "trace \<Rightarrow> bool" where
  "mcp_lifecycle_ok tr =
     (case map (msg_method \<circ> snd) (sent tr) of
        [] \<Rightarrow> True
      | m # ms \<Rightarrow> m = Some ''initialize'' \<and> after_initialize ms)"

text \<open>\<open>decodeURIComponent\<close> on bytes, as the server reads the query parameter:
  \<open>None\<close> for a malformed escape.\<close>

definition hex_value :: "char \<Rightarrow> nat option" where
  "hex_value c =
     (let n = (of_char c :: nat) in
      if 48 \<le> n \<and> n \<le> 57 then Some (n - 48)
      else if 65 \<le> n \<and> n \<le> 70 then Some (n - 55)
      else if 97 \<le> n \<and> n \<le> 102 then Some (n - 87)
      else None)"

fun uri_decode :: "string \<Rightarrow> string option" where
  "uri_decode [] = Some []"
| "uri_decode (c # cs) =
     (if c = CHR ''%'' then
        (case cs of
           h1 # h2 # rest \<Rightarrow>
             (case (hex_value h1, hex_value h2) of
                (Some a, Some b) \<Rightarrow> map_option (Cons (char_of (16 * a + b))) (uri_decode rest)
              | _ \<Rightarrow> None)
         | _ \<Rightarrow> None)
      else map_option (Cons c) (uri_decode cs))"

text \<open>The match of \<open>/http:\/\/localhost:(\d+)/\<close> as the regular expression
  semantics defines it: a match starts at \<open>i\<close> when the literal part is found
  there and a digit follows it; the leftmost match is taken, and \<open>\d+\<close> takes
  the longest run of digits.\<close>

definition port_match_at :: "string \<Rightarrow> nat \<Rightarrow> bool" where
  "port_match_at s i =
     (prefix ''http://localhost:'' (drop i s) \<and> drop (i + 17) s \<noteq> [] \<and> is_ascii_digit (hd (drop (i + 17) s)))"

section \<open>Properties\<close>

lemma exec_append: "exec t (as @ bs) = exec t as @ exec (t + sleeps as) bs"
  by (induction t as rule: exec.induct) (simp_all add: ac_simps)

lemma sent_append: "sent (xs @ ys) = sent xs @ sent ys"
  by (induction xs rule: sent.induct) simp_all

lemma hex_char_codes:
  "char_of (65::nat) = CHR ''A''" "char_of (66::nat) = CHR ''B''" "char_of (67::nat) = CHR ''C''"
  "char_of (68::nat) = CHR ''D''" "char_of (69::nat) = CHR ''E''" "char_of (70::nat) = CHR ''F''"
  by code_simp+

lemma of_char_lt_256: "(of_char c :: nat) < 256"
  using of_char_mod_256 [of c] by (metis mod_less_divisor zero_less_numeral)

lemma hex_digits_all: "\<forall>m\<in>set [0..<16]. hex_digit m \<in> set ''%0123456789ABCDEF''"
  by code_simp

lemma hex_digit_set: "n < 16 \<Longrightarrow> hex_digit n \<in> set ''%0123456789ABCDEF''"
  using hex_digits_all by simp

lemma of_char_div16: "(of_char c :: nat) div 16 < 16"
  using of_char_lt_256 [of c] by (intro less_mult_imp_div_less) simp

lemma encodeURIComponent_Cons:
  "encodeURIComponent (c # s) =
     (if uri_unreserved c then [c]
      else [CHR ''%'', hex_digit (of_char c div 16), hex_digit (of_char c mod 16)]) @ encodeURIComponent s"
  by (simp add: encodeURIComponent_def)

lemma encodeURIComponent_chars:
  "set (encodeURIComponent s) \<subseteq> {c. uri_unreserved c} \<union> set ''%0123456789ABCDEF''"
proof (induction s)
  case Nil
  then show ?case by (simp add: encodeURIComponent_def)
next
  case (Cons c s)
  have "(of_char c :: nat) div 16 < 16" by (rule of_char_div16)
  then have "hex_digit (of_char c div 16) \<in> set ''%0123456789ABCDEF''" by (rule hex_digit_set)
  moreover have "hex_digit (of_char c mod 16) \<in> set ''%0123456789ABCDEF''" by (rule hex_digit_set) simp
  ultimately show ?case using Cons.IH by (auto simp: encodeURIComponent_Cons)
qed

lemma hex_digit_value: "n < 16 \<Longrightarrow> hex_value (hex_digit n) = Some n"
  by (auto simp: hex_digit_def hex_value_def Let_def)

lemma percent_not_unreserved: "\<not> uri_unreserved CHR ''%''"
  by (simp add: uri_unreserved_def)

lemma uri_decode_encode: "uri_decode (encodeURIComponent s) = Some s"
proof (induction s)
  case Nil
  then show ?case by (simp add: encodeURIComponent_def)
next
  case (Cons c s)
  note e = encodeURIComponent_Cons [of c s]
  show ?case
  proof (cases "uri_unreserved c")
    case True
    then have "c \<noteq> CHR ''%''" using percent_not_unreserved by auto
    then show ?thesis using True Cons.IH by (simp add: e)
  next
    case False
    have "16 * (of_char c div 16) + of_char c mod 16 = (of_char c :: nat)" by simp
    moreover have "hex_value (hex_digit (of_char c div 16)) = Some (of_char c div 16)"
      by (rule hex_digit_value [OF of_char_div16])
    moreover have "hex_value (hex_digit (of_char c mod 16)) = Some (of_char c mod 16)"
      by (rule hex_digit_value) simp
    ultimately show ?thesis using False Cons.IH by (simp add: e)
  qed
qed

lemma starts_with_prefix: "starts_with p s = prefix p s"
  by (auto simp: starts_with_def prefix_def) (metis append_take_drop_id)

lemma port_match_at_Suc: "port_match_at (c # cs) (Suc i) = port_match_at cs i"
  unfolding port_match_at_def add_Suc drop_Suc_Cons ..

lemma find_map_option: "find P (map f xs) = map_option f (find (P \<circ> f) xs)"
  by (induction xs) simp_all

lemma find_upt_Some: "find P [0..<n] = Some x \<longleftrightarrow> x < n \<and> P x \<and> (\<forall>j < x. \<not> P j)"
  by (auto simp: find_Some_iff)

lemma find_port_find:
  "find_port s = map_option (\<lambda>i. takeWhile is_ascii_digit (drop (i + 17) s)) (find (port_match_at s) [0..<length s])"
proof (induction s)
  case Nil
  then show ?case by simp
next
  case (Cons c cs)
  have u: "[0..<length (c # cs)] = 0 # map Suc [0..<length cs]"
    by (simp add: map_Suc_upt upt_conv_Cons del: upt_Suc)
  have f: "find (port_match_at (c # cs)) (map Suc [0..<length cs]) =
      map_option Suc (find (port_match_at cs) [0..<length cs])"
    by (simp add: find_map_option comp_def port_match_at_Suc)
  have z: "port_match_at (c # cs) 0 \<longleftrightarrow>
      starts_with ''http://localhost:'' (c # cs) \<and> drop 17 (c # cs) \<noteq> [] \<and>
      is_ascii_digit (hd (drop 17 (c # cs)))"
    by (simp only: port_match_at_def starts_with_prefix drop_0 add_0)
  have d: "\<And>i. drop (18 + i) (c # cs) = drop (i + 17) cs"
  proof -
    fix i
    have "drop (Suc i + 17) (c # cs) = drop (i + 17) cs" unfolding add_Suc drop_Suc_Cons ..
    then show "drop (18 + i) (c # cs) = drop (i + 17) cs" by simp
  qed
  show ?case
  proof (cases "port_match_at (c # cs) 0")
    case True
    then show ?thesis using z unfolding u by (simp add: Let_def del: upt_Suc drop_Suc_Cons)
  next
    case False
    then have "find_port (c # cs) = find_port cs" using z by (auto simp: Let_def simp del: drop_Suc_Cons)
    then show ?thesis using False Cons.IH unfolding u
      by (simp add: f option.map_comp comp_def d del: upt_Suc add_Suc)
  qed
qed

lemmas script_eval = bootstrap_script_def full_script_def portal_script_def send_logged_def spawn_mcp_def
  initialize_msg_def tool_call_def msg_method_def mcp_lifecycle_ok_def

text \<open>The two scripts that call a tool break the MCP lifecycle: they
  open with \<open>initialize\<close> but send their \<open>tools/call\<close> request after a fixed
  sleep, without waiting for the server's answer and without the
  \<open>notifications/initialized\<close> notification the protocol requires first; the
  portal script, which sends only \<open>initialize\<close>, keeps to it.\<close>

theorem scripts_skip_initialized:
  "\<not> mcp_lifecycle_ok (exec 0 bootstrap_script) \<and> \<not> mcp_lifecycle_ok (exec 0 full_script) \<and>
   mcp_lifecycle_ok (exec 0 portal_script)"
  by (simp add: script_eval exec_append sent_append)

text \<open>The timed behaviour of the scripts: \<open>re_bootstrap.js\<close> writes
  \<open>initialize\<close> at 2 s and the bootstrap call at 4 s and kills the server at
  14 s; \<open>run_testsprite_full.js\<close> writes at 5 s and 10 s and kills at 310 s, its
  last event; the portal writes \<open>initialize\<close> at once and never kills its
  detached server.\<close>

theorem scripts_timeline:
  "map (\<lambda>(t, m). (t, msg_method m)) (sent (exec 0 bootstrap_script)) =
     [(2000, Some ''initialize''), (4000, Some ''tools/call'')] \<and>
   last (exec 0 bootstrap_script) = (14000, EvKill) \<and>
   map (\<lambda>(t, m). (t, msg_method m)) (sent (exec 0 full_script)) =
     [(5000, Some ''initialize''), (10000, Some ''tools/call'')] \<and>
   last (exec 0 full_script) = (310000, EvKill) \<and>
   map (\<lambda>(t, m). (t, msg_method m)) (sent (exec 0 portal_script)) = [(0, Some ''initialize'')] \<and>
   (0, EvKill) \<notin> set (exec 0 portal_script) \<and> EvKill \<notin> snd ` set (exec 0 portal_script)"
  by (simp add: script_eval exec_append sent_append)

text \<open>\<open>encodeURIComponent\<close> loses nothing: decoding its output gives
  back the string, so the portal URL carries the project path exactly.\<close>

theorem encodeURIComponent_roundtrip:
  "uri_decode (encodeURIComponent s) = Some s \<and>
   set (encodeURIComponent s) \<subseteq> {c. uri_unreserved c} \<union> set ''%0123456789ABCDEF''"
  by (rule conjI [OF uri_decode_encode encodeURIComponent_chars])

text \<open>Claim C35. The portal script prints its URL: when one chunk of the
  server's output both announces \<open>Starting server on\<close> and names a
  \<open>http://localhost:\<close> port, the lines it logs include \<open>URL: \<close> and the
  portal address for that port.\<close>

theorem portal_prints_url:
  assumes "c \<in> set chunks" "str_includes ''Starting server on'' c" "find_port c = Some p"
  shows "''URL: '' @ portal_url p \<in> set (portal_output chunks)"
proof -
  have "''URL: '' @ portal_url p \<in> set (portal_on_stdout c)"
    using assms(2,3) by (simp add: portal_on_stdout_def)
  then show ?thesis using assms(1) unfolding portal_output_def by auto
qed

theorem portal_prints_url_witness:
  "''URL: http://localhost:3000/init?project_path=%2Fhome%2Fnice%2FCreatorCalc&default_type=frontend''
     \<in> set (portal_output [''Starting server on http://localhost:3000''])"
proof -
  have h: "''Starting server on http://localhost:3000'' \<in> set [''Starting server on http://localhost:3000'']"
    "str_includes ''Starting server on'' ''Starting server on http://localhost:3000''"
    "find_port ''Starting server on http://localhost:3000'' = Some ''3000''"
    by (simp_all add: starts_with_def is_ascii_digit_def)
  have u: "''URL: '' @ portal_url ''3000'' =
     ''URL: http://localhost:3000/init?project_path=%2Fhome%2Fnice%2FCreatorCalc&default_type=frontend''"
    by (simp add: portal_url_def encodeURIComponent_def uri_unreserved_def hex_digit_def js_eval
        hex_char_codes)
  show ?thesis using portal_prints_url [OF h] u by simp
qed

text \<open>\<open>includes\<close>, written as a scan of the positions of the
  line, holds exactly when the pattern is a contiguous part of the line
  (\<open>sublist\<close> of HOL-Library's \<open>Sublist\<close>).\<close>

lemma str_includes_sublist: "str_includes p s = sublist p s"
  by (induction s) (simp_all add: starts_with_prefix sublist_Cons_right)

lemma split_inside_prefix:
  "k < length m \<Longrightarrow> take k (m @ r) = take k m \<and> drop k (m @ r) = drop k m @ r"
  by simp

lemma sublist_marker_absent: "x \<in> set p \<Longrightarrow> x \<notin> set s \<Longrightarrow> \<not> sublist p s"
  using set_mono_sublist by blast

text \<open>Claim C36. The handler looks at one chunk at a time, so an announcement
  that the pipe splits inside \<open>"Starting server on"\<close> is missed: the whole line
  would make the script print the portal URL, but delivered as two chunks it
  only echoes them, whatever the split point and whatever follows the marker
  (without a second marker).\<close>

theorem portal_misses_split_announcement:
  assumes "0 < k" "k < length ''Starting server on''" "CHR ''S'' \<notin> set rest"
    and "find_port (''Starting server on'' @ rest) = Some port"
  shows "''URL: '' @ portal_url port \<in> set (portal_output [''Starting server on'' @ rest]) \<and>
         portal_output [take k (''Starting server on'' @ rest), drop k (''Starting server on'' @ rest)] =
           [take k (''Starting server on'' @ rest), drop k (''Starting server on'' @ rest)]"
proof -
  let ?m = "''Starting server on''"
  have whole: "str_includes ?m (?m @ rest)"
    by (simp add: str_includes_sublist)
  have c1: "take k (?m @ rest) = take k ?m" and c2: "drop k (?m @ rest) = drop k ?m @ rest"
    using split_inside_prefix [OF assms(2)] by blast+
  have "\<not> sublist ?m (take k ?m)"
  proof
    assume "sublist ?m (take k ?m)"
    then have "length ?m \<le> length (take k ?m)" by (rule sublist_length_le)
    then show False using assms(2) by simp
  qed
  then have n1: "\<not> str_includes ?m (take k (?m @ rest))" unfolding c1 str_includes_sublist .
  have "drop k ?m = drop (k - 1) (tl ?m)" using assms(1) by (cases k) simp_all
  then have "set (drop k ?m) \<subseteq> set (tl ?m)" by (metis set_drop_subset)
  moreover have "CHR ''S'' \<notin> set (tl ?m)" by simp
  ultimately have "CHR ''S'' \<notin> set (drop k (?m @ rest))" using assms(3) c2 by auto
  then have n2: "\<not> str_includes ?m (drop k (?m @ rest))"
    by (simp add: str_includes_sublist sublist_marker_absent [of "CHR ''S''"])
  show ?thesis
    using whole assms(4) n1 n2 by (simp add: portal_output_def portal_on_stdout_def)
qed

theorem portal_misses_split_announcement_witness:
  "''URL: '' @ portal_url ''3000'' \<in> set (portal_output [''Starting server on'' @ '' http://localhost:3000'']) \<and>
   portal_output [take 16 (''Starting server on'' @ '' http://localhost:3000''),
                  drop 16 (''Starting server on'' @ '' http://localhost:3000'')] =
     [take 16 (''Starting server on'' @ '' http://localhost:3000''),
      drop 16 (''Starting server on'' @ '' http://localhost:3000'')]"
proof -
  have h: "(0::nat) < 16" "16 < length ''Starting server on''" "CHR ''S'' \<notin> set '' http://localhost:3000''"
    "find_port (''Starting server on'' @ '' http://localhost:3000'') = Some ''3000''"
    by (simp_all add: starts_with_def is_ascii_digit_def)
  show ?thesis by (rule portal_misses_split_announcement [OF h])
qed

text \<open>The portal's port extraction is the match of its regular
  expression: it returns a port exactly when some position starts the literal
  \<open>http://localhost:\<close> followed by a digit, and then returns the longest run
  of digits after the leftmost such position.\<close>

theorem find_port_leftmost:
  "find_port s = Some port \<longleftrightarrow>
     (\<exists>i < length s. port_match_at s i \<and> (\<forall>j < i. \<not> port_match_at s j) \<and>
        port = takeWhile is_ascii_digit (drop (i + 17) s))"
  by (auto simp: find_port_find find_upt_Some)

theorem find_port_leftmost_witness:
  "\<exists>i < length ''on http://localhost:3000''. port_match_at ''on http://localhost:3000'' i \<and>
     (\<forall>j < i. \<not> port_match_at ''on http://localhost:3000'' j) \<and>
     ''3000'' = takeWhile is_ascii_digit (drop (i + 17) ''on http://localhost:3000'')"
  by (rule find_port_leftmost [THEN iffD1]) (simp add: starts_with_def is_ascii_digit_def)

end
