(* ===== verification/Spec2Isabelle.thy ===== *)
theory Spec2Isabelle
  imports Revenue Allocation Investment Calculator Dashboard Theme ServiceWorker Format View Counter Page Automation
begin

text \<open>
  \<^bold>\<open>CreatorCalc: a verification development.\<close>

  CreatorCalc is a single-page React application. The user types three figures
  into the form of \<open>src/src/components/Calculator.jsx\<close> (videos per day, average
  views per video, RPM) and picks a currency; an effect validates the form and
  passes \<open>calculateRevenue\<close> of \<open>src/src/utils/calculations.js\<close> up to \<open>App\<close>
  (\<open>src/src/App.jsx\<close>), which shows it in \<open>ResultsDisplay.jsx\<close> and hands the
  monthly revenue to \<open>RevenueAllocation.jsx\<close>. That panel splits the revenue with
  \<open>calculateAllocation\<close> (10/5/85 percent) and projects the 85 percent with
  \<open>projectInvestment\<close>, a monthly compounding loop at 7 percent a year that emits
  one snapshot per year. \<open>App\<close> also keeps the colour theme in \<open>localStorage\<close>,
  and \<open>src/public/sw.js\<close> caches the application shell for offline use. Beside
  the application, three Node scripts (\<open>src/re_bootstrap.js\<close>,
  \<open>src/run_testsprite_full.js\<close>, \<open>src/run_testsprite_portal.js\<close>) drive the
  TestSprite MCP server over JSON-RPC.

  \<^bold>\<open>Number model.\<close> JavaScript numbers are exact reals; NaN is written out
  (\<open>None\<close>, or the constructor \<open>JNaN\<close> of \<open>jsval\<close>). The rounding of binary
  doubles is not modelled: every theorem speaks of the exact arithmetic the code
  writes, and the rounding the code performs itself (\<open>toFixed\<close>) is modelled
  exactly.

  \<^bold>\<open>Theories.\<close>
  \<^item> \<open>Prelude\<close>: the number type, the collections \<open>js_eval\<close> and
    \<open>calc_eval\<close> of evaluation rules, and shared facts on floors, rounding half up
    and sorted lists.
  \<^item> \<open>JsValue\<close>: the JavaScript values the inputs take (\<open>jsval\<close>: number, NaN,
    string, undefined) and the built-ins the code calls: \<open>parseFloat\<close>
    (\<open>parse_float_str\<close>, longest decimal prefix), \<open>Number\<close>
    (\<open>string_to_number\<close>, whole trimmed literal), \<open>parseInt\<close> (\<open>parse_int_str\<close>),
    \<open>x || 0\<close>, \<open>*\<close>, \<open>>=\<close>, \<open>toFixed\<close> (\<open>js_toFixed\<close>, half up) and
    \<open>Number::toString\<close> on the numbers it writes in plain decimal
    (\<open>js_number_string\<close>). Its lemmas are the round trips \<open>Number(x.toFixed(f))\<close> and \<open>parseInt\<close> of a decimal
    string, with the rounding error bound.
  \<^item> \<open>Revenue\<close>: \<open>calculateRevenue\<close> (calculations.js lines 35-55) with its
    coercion \<open>parseFloat(x) || 0\<close>: its contract, the missing-input and
    partial-string behaviours, non-negativity and the specification's example.
  \<^item> \<open>Allocation\<close>: \<open>calculateAllocation\<close> (lines 62-68): the split adds up to
    the revenue and stays within it.
  \<^item> \<open>Investment\<close>: \<open>projectInvestment\<close> (lines 77-104). The \<open>for\<close> loop is
    \<open>invest_loop\<close>, a \<open>function\<close> over the loop variables \<open>invest_state\<close> whose
    termination measure is the number of months left,
    \<open>nat (\<lfloor>12 years\<rfloor> + 1 - m)\<close>; no fuel is needed. It is refined against the
    reference \<open>projection_spec\<close> (one \<open>year_snapshot\<close> per whole year of
    \<open>compound_value\<close>), which gives the closed annuity form, monotonicity and the
    count of snapshots.
  \<^item> \<open>Calculator\<close>: the page state \<open>app_state\<close> (form inputs, errors, currency,
    \<open>App\<close>'s results) and \<open>app_step\<close>, every handler of Calculator.jsx
    (\<open>handleChange\<close> with \<open>validate\<close>, \<open>handleCurrencyToggle\<close>, the Reset
    button) followed by the recalculation effect \<open>calc_effect\<close>; \<open>reachable\<close>
    is the inductive set of states from the mounted page. The invariant
    \<open>results_inv\<close>, proved by rule induction, says results are always present
    and equal the revenue of the inputs whenever these are valid; the other
    lemmas expose the stale results after Reset, the RPM limit bypassed by the
    currency toggle and the drift of the toggled RPM.
  \<^item> \<open>Format\<close>: \<open>formatNumber\<close> and \<open>formatCurrency\<close> (calculations.js
    lines 9-26) as ECMA-402 specifies \<open>Intl.NumberFormat\<close> for their options:
    grouping by three, rounding as \<open>toFixed\<close>, the currency symbols. Its
    lemmas show the grouping's shape and that the digits read back.
  \<^item> \<open>Dashboard\<close>: RevenueAllocation.jsx (the slider state \<open>alloc_panel\<close>,
    \<open>panel_step\<close>, the latest snapshot, growth badge, allocation cards, chart
    series and tooltip labels) and ResultsDisplay.jsx (stat cards, the
    formatted breakdown rows).
  \<^item> \<open>View\<close>: what the JSX renders (form fields and their error messages,
    currency buttons, stat cards, table, allocation cards, projection summary,
    the time-horizon badge, the chart's axis labels and tooltip, App's panels
    and header), with the invariant that a mounted page always shows its
    results, the stale error message left by Reset, the labels that follow the
    slider, the value axis that reads back and the tooltip's rows.
  \<^item> \<open>Counter\<close>: \<open>AnimatedCounter.jsx\<close> (the ref, the spring's target, the
    keyed remount, the displayed text) and its use in \<open>StatCard\<close> of
    ResultsDisplay.jsx, whose own key remounts it on every new value. The
    spring's motion is library code and enters as a parameter \<open>step\<close>; the
    rest rule with the code's \<open>restDelta\<close> is explicit, and the animation loop
    \<open>settle\<close> runs on fuel.
  \<^item> \<open>Theme\<close>: the dark-mode state of App.jsx with \<open>localStorage\<close> and the root
    class as a step function over clicks, preference changes and reloads, with
    the invariant that storage and class mirror \<open>darkMode\<close>.
  \<^item> \<open>ServiceWorker\<close>: sw.js: \<open>CacheStorage\<close> as an association list, the
    all-or-nothing \<open>addAll\<close> install, and the cache-first fetch handler.
  \<^item> \<open>Page\<close>: App.jsx as a whole. \<open>app_page\<close> holds the calculator's state,
    the theme and the allocation panel's slider; \<open>page_step\<close> dispatches an
    event to its component, and a reload starts a fresh document keeping only
    \<open>localStorage\<close>. \<open>app_view\<close> and the views it composes translate the render
    functions of App, Calculator and RevenueAllocation into the elements the
    page shows. Its lemmas: from every reachable page the events of different
    components interleave freely (the slider survives every recalculation
    because the results never return to \<open>null\<close>, which would unmount the
    allocation panel), a reload resets everything but the theme, and the page
    shows the revenue of the typed figures.
  \<^item> \<open>Automation\<close>: each script as a list of actions run by \<open>exec\<close> into a
    timed trace of spawns, JSON-RPC messages, logs and kills, checked against
    the MCP client lifecycle; the portal's output handler with
    \<open>includes\<close>, its port regular expression and \<open>encodeURIComponent\<close>;
    \<open>includes\<close> is proved equal to \<open>sublist\<close> of HOL-Library's \<open>Sublist\<close>
    and the port scan to the leftmost, greedy match of the expression.
  \<^item> This theory: the page as it first appears, followed from the default form
    through the results and the allocation to the projection panel.

  \<^bold>\<open>Liveness.\<close> From every page state a three-event run (retyping the
  default figures) restores the mounted results; the portal script prints its
  URL once a single output chunk announces the server.

  \<^bold>\<open>Bounds.\<close> The currency round trip moves the RPM by at most
  \<open>(1 + USD_TO_THB)/200\<close>: two roundings to cents, the second scaled by the
  exchange rate. \<open>Number(x.toFixed(f))\<close> is within half a unit of the last
  decimal of \<open>x\<close>, and every \<open>formatCurrency\<close> amount within half a cent.

  \<^bold>\<open>Fuel.\<close> The only loop that need not end is the spring animation:
  \<open>settle\<close> takes a number of frames and answers \<open>None\<close> when they run out.
  The spring's physics is library code and is not modelled, so nothing is
  claimed about how many frames a moving spring takes. In \<open>StatCard\<close>, the
  counter's one use, one frame suffices: the counter is remounted at rest on
  every new value.

  \<^bold>\<open>Not modelled.\<close> The spring physics of framer-motion (a parameter
  of theory \<open>Counter\<close>) and the entry animations' poses, class names,
  icons, layout and styling, the recharts library itself (only the data and
  labels the code gives it), \<open>JSON.stringify\<close> and the MCP server the scripts
  talk to (only the client side of its lifecycle is a reference predicate), and
  the value of the API key the scripts embed.
  Hexadecimal literals and non-ASCII white space in the built-ins are not
  modelled. Nor is the overflow of doubles: a literal beyond their range, such
  as \<open>1e400\<close> typed as videos per day (the form sets that field no maximum),
  is read here as the exact real, where JavaScript reads Infinity and the page
  shows infinite revenue. The footer's year comes from the clock and is a
  parameter of \<open>app_view\<close>.
\<close>

section \<open>From the form to the projection panel\<close>

lemma projection_principal:
  assumes "1 \<le> y"
  shows "sumPrincipal (latestProjection (projections_for r (Some y))) =
           12 * real (nat \<lfloor>y\<rfloor>) * (r * 0.85)"
  using latest_final_year [OF assms, of r] by (simp add: summary_of_def)

text \<open>The page as it first appears: the default form (1 video a day
  of 10000 views at RPM 5.7, in baht) shows a monthly revenue of 1710, the
  allocation panel invests 1453.5 a month, and the default ten-year horizon plots
  ten yearly points ending at a principal of 174420.\<close>

theorem default_page_pipeline:
  "\<exists>r. results app_mounted = Some r \<and> monthlyRevenue r = 1710 \<and>
     investment (calculateAllocation (monthlyRevenue r)) = 1453.5 \<and>
     length (projections_for (monthlyRevenue r) (projectionYears alloc_panel_init)) = 10 \<and>
     sumPrincipal (latestProjection (projections_for (monthlyRevenue r) (projectionYears alloc_panel_init))) = 174420"
proof -
  have m: "monthlyRevenue (revenue_of_inputs default_inputs) = 1710"
    by (simp add: revenue_of_inputs_def default_inputs_def calculateRevenue_fields)
  have "(1::real) \<le> 10" by simp
  note p = projection_principal [OF this, of 1710]
  show ?thesis
    using app_mounted_results m p
    by (simp add: alloc_panel_init_def projections_for_unfold)
qed

end
